theory Spec2Isabelle
  imports Main
begin

unbundle bit_operations_syntax

section \<open>JavaScript values\<close>

text \<open>
  The scanner and the parser are TypeScript. A JavaScript string is a sequence of UTF-16
  code units; \<open>charCodeAt\<close> reads one code unit and yields \<open>NaN\<close> out of range,
  \<open>codePointAt\<close> joins a surrogate pair and yields \<open>undefined\<close> out of range.
  Both results are modelled as \<open>nat option\<close>, \<open>None\<close> standing for \<open>NaN\<close>
  or \<open>undefined\<close>: every comparison with it is false, as in JavaScript.
\<close>

type_synonym jsstring = "nat list"

definition utf16 :: "string \<Rightarrow> jsstring" where
  "utf16 cs = map of_char cs"

definition charCodeAt :: "jsstring \<Rightarrow> nat \<Rightarrow> nat option" where
  "charCodeAt t i = (if i < length t then Some (t ! i) else None)"

definition codePointAt :: "jsstring \<Rightarrow> nat \<Rightarrow> nat option" where
  "codePointAt t i =
     (if i < length t then
        (if 0xD800 \<le> t ! i \<and> t ! i \<le> 0xDBFF \<and> i + 1 < length t
            \<and> 0xDC00 \<le> t ! (i + 1) \<and> t ! (i + 1) \<le> 0xDFFF
         then Some ((t ! i - 0xD800) * 0x400 + (t ! (i + 1) - 0xDC00) + 0x10000)
         else Some (t ! i))
      else None)"

text \<open>\<open>String.prototype.substring\<close>: both indices are clamped to the length and swapped
  when the first is the larger.\<close>

definition substring :: "jsstring \<Rightarrow> nat \<Rightarrow> nat \<Rightarrow> jsstring" where
  "substring t a b =
     take (max (min a (length t)) (min b (length t)) - min (min a (length t)) (min b (length t)))
       (drop (min (min a (length t)) (min b (length t))) t)"

text \<open>The decimal digits of a natural number, as \<open>'' + n\<close> prints an integer.\<close>

fun digitsOf :: "nat \<Rightarrow> jsstring" where
  "digitsOf n = (if n < 10 then [48 + n] else digitsOf (n div 10) @ [48 + n mod 10])"

declare digitsOf.simps [simp del]

definition digitValue :: "nat \<Rightarrow> nat option" where
  "digitValue c =
     (if 48 \<le> c \<and> c \<le> 57 then Some (c - 48)
      else if 97 \<le> c \<and> c \<le> 122 then Some (c - 87)
      else if 65 \<le> c \<and> c \<le> 90 then Some (c - 55)
      else None)"

definition isDigitOfRadix :: "nat \<Rightarrow> nat \<Rightarrow> bool" where
  "isDigitOfRadix radix c = (case digitValue c of None \<Rightarrow> False | Some v \<Rightarrow> v < radix)"

text \<open>
  \<open>parseInt(s, radix)\<close> on a string without sign, blanks or prefix (the scanner passes
  digits only): the value of the longest prefix of digits of the radix, \<open>NaN\<close> when that
  prefix is empty. The value is the exact integer; JavaScript rounds it to the nearest
  double, which is the same number up to \<open>2^53\<close>.
\<close>

definition parseInt :: "jsstring \<Rightarrow> nat \<Rightarrow> nat option" where
  "parseInt ds radix =
     (if takeWhile (isDigitOfRadix radix) ds = [] then None
      else Some (foldl (\<lambda>acc c. acc * radix + the (digitValue c)) 0
                   (takeWhile (isDigitOfRadix radix) ds)))"

text \<open>\<open>'' + n\<close> for the result of \<open>parseInt\<close>.\<close>

definition numberToString :: "nat option \<Rightarrow> jsstring" where
  "numberToString v = (case v of None \<Rightarrow> utf16 ''NaN'' | Some n \<Rightarrow> digitsOf n)"

text \<open>
  \<open>'' + +s\<close> for a decimal literal \<open>s\<close> (digits, an optional fraction, an optional
  exponent): \<open>ToNumber\<close> followed by \<open>Number::toString\<close>. The literal denotes
  \<open>m * 10^e\<close> for the integer \<open>m\<close> of its digits; \<open>stripZeros\<close> removes the trailing zeros
  of \<open>m\<close>, and \<open>decimalToString\<close> lays the remaining \<open>k\<close> digits out as ECMAScript
  does, with \<open>n\<close> the position of the decimal point. The model is exact for literals of at
  most 15 significant digits within the range of doubles; beyond that JavaScript rounds to
  the nearest double first, which is floating-point arithmetic and not modelled.
\<close>

function stripZeros :: "nat \<Rightarrow> int \<Rightarrow> nat \<times> int" where
  "stripZeros m e = (if m \<noteq> 0 \<and> m mod 10 = 0 then stripZeros (m div 10) (e + 1) else (m, e))"
  by pat_completeness auto
termination
  by (relation "measure (\<lambda>(m, e). m)") auto

declare stripZeros.simps [simp del]

definition decimalToString :: "nat \<Rightarrow> int \<Rightarrow> jsstring" where
  "decimalToString m e =
     (if m = 0 then [48]
      else case stripZeros m e of (s, e') \<Rightarrow>
        (let ds = digitsOf s; k = int (length ds); n = k + e' in
         if k \<le> n \<and> n \<le> 21 then ds @ replicate (nat (n - k)) 48
         else if 0 < n \<and> n \<le> 21 then take (nat n) ds @ [46] @ drop (nat n) ds
         else if - 6 < n \<and> n \<le> 0 then [48, 46] @ replicate (nat (- n)) 48 @ ds
         else (if k = 1 then ds else [hd ds, 46] @ tl ds)
              @ [101, if n - 1 < 0 then 45 else 43] @ digitsOf (nat \<bar>n - 1\<bar>)))"

definition isDecimalDigit :: "nat \<Rightarrow> bool" where
  "isDecimalDigit c = (48 \<le> c \<and> c \<le> 57)"

definition decimalOf :: "jsstring \<Rightarrow> nat" where
  "decimalOf ds = foldl (\<lambda>acc c. acc * 10 + (c - 48)) 0 ds"

definition normalizeDecimalLiteral :: "jsstring \<Rightarrow> jsstring" where
  "normalizeDecimalLiteral lit =
     (let mant = takeWhile (\<lambda>c. c \<noteq> 101 \<and> c \<noteq> 69) lit;
          expo = drop (length mant + 1) lit;
          ipart = takeWhile isDecimalDigit mant;
          fpart = drop (length ipart + 1) mant;
          ex = (case expo of
                  [] \<Rightarrow> 0
                | c # ds \<Rightarrow> if c = 45 then - int (decimalOf ds)
                            else if c = 43 then int (decimalOf ds)
                            else int (decimalOf (c # ds)))
      in decimalToString (decimalOf (ipart @ fpart)) (ex - int (length fpart)))"

section \<open>Token kinds, token flags and character codes\<close>

text \<open>
  \<open>SyntaxKind\<close>, \<open>TokenFlags\<close> and \<open>CharacterCodes\<close> are numeric TypeScript enums;
  the code compares their members with \<open><\<close> and \<open>>\<close> and tests a token for
  truthiness (\<open>Unknown\<close> is \<open>0\<close>, the only falsy kind). Each member is its number.
\<close>

type_synonym SyntaxKind = nat
type_synonym TokenFlags = nat
text \<open>\<open>SyntaxKind\<close>, in the order of \<open>src/src/lang-types.ts\<close>.\<close>
abbreviation (input) Unknown :: SyntaxKind where "Unknown \<equiv> 0"
abbreviation (input) EndOfFileToken :: SyntaxKind where "EndOfFileToken \<equiv> 1"
abbreviation (input) NumericLiteral :: SyntaxKind where "NumericLiteral \<equiv> 2"
abbreviation (input) StringLiteral :: SyntaxKind where "StringLiteral \<equiv> 3"
abbreviation (input) OpenBraceToken :: SyntaxKind where "OpenBraceToken \<equiv> 4"
abbreviation (input) CloseBraceToken :: SyntaxKind where "CloseBraceToken \<equiv> 5"
abbreviation (input) OpenParenToken :: SyntaxKind where "OpenParenToken \<equiv> 6"
abbreviation (input) CloseParenToken :: SyntaxKind where "CloseParenToken \<equiv> 7"
abbreviation (input) OpenBracketToken :: SyntaxKind where "OpenBracketToken \<equiv> 8"
abbreviation (input) CloseBracketToken :: SyntaxKind where "CloseBracketToken \<equiv> 9"
abbreviation (input) DotToken :: SyntaxKind where "DotToken \<equiv> 10"
abbreviation (input) DotDotDotToken :: SyntaxKind where "DotDotDotToken \<equiv> 11"
abbreviation (input) SemicolonToken :: SyntaxKind where "SemicolonToken \<equiv> 12"
abbreviation (input) CommaToken :: SyntaxKind where "CommaToken \<equiv> 13"
abbreviation (input) QuestionDotToken :: SyntaxKind where "QuestionDotToken \<equiv> 14"
abbreviation (input) ColonEqualsToken :: SyntaxKind where "ColonEqualsToken \<equiv> 15"
abbreviation (input) AtToken :: SyntaxKind where "AtToken \<equiv> 16"
abbreviation (input) EqualsGreaterThanToken :: SyntaxKind where "EqualsGreaterThanToken \<equiv> 17"
abbreviation (input) QuestionToken :: SyntaxKind where "QuestionToken \<equiv> 18"
abbreviation (input) ColonToken :: SyntaxKind where "ColonToken \<equiv> 19"
abbreviation (input) PlusPlusToken :: SyntaxKind where "PlusPlusToken \<equiv> 20"
abbreviation (input) MinusMinusToken :: SyntaxKind where "MinusMinusToken \<equiv> 21"
abbreviation (input) LessThanToken :: SyntaxKind where "LessThanToken \<equiv> 22"
abbreviation (input) GreaterThanToken :: SyntaxKind where "GreaterThanToken \<equiv> 23"
abbreviation (input) LessThanEqualsToken :: SyntaxKind where "LessThanEqualsToken \<equiv> 24"
abbreviation (input) GreaterThanEqualsToken :: SyntaxKind where "GreaterThanEqualsToken \<equiv> 25"
abbreviation (input) EqualsEqualsToken :: SyntaxKind where "EqualsEqualsToken \<equiv> 26"
abbreviation (input) ExclamationEqualsToken :: SyntaxKind where "ExclamationEqualsToken \<equiv> 27"
abbreviation (input) EqualsEqualsEqualsToken :: SyntaxKind where "EqualsEqualsEqualsToken \<equiv> 28"
abbreviation (input) ExclamationEqualsEqualsToken :: SyntaxKind where "ExclamationEqualsEqualsToken \<equiv> 29"
abbreviation (input) MinusGreaterThanToken :: SyntaxKind where "MinusGreaterThanToken \<equiv> 30"
abbreviation (input) PlusToken :: SyntaxKind where "PlusToken \<equiv> 31"
abbreviation (input) MinusToken :: SyntaxKind where "MinusToken \<equiv> 32"
abbreviation (input) AsteriskToken :: SyntaxKind where "AsteriskToken \<equiv> 33"
abbreviation (input) AsteriskAsteriskToken :: SyntaxKind where "AsteriskAsteriskToken \<equiv> 34"
abbreviation (input) SlashToken :: SyntaxKind where "SlashToken \<equiv> 35"
abbreviation (input) PercentToken :: SyntaxKind where "PercentToken \<equiv> 36"
abbreviation (input) LessThanLessThanToken :: SyntaxKind where "LessThanLessThanToken \<equiv> 37"
abbreviation (input) GreaterThanGreaterThanToken :: SyntaxKind where "GreaterThanGreaterThanToken \<equiv> 38"
abbreviation (input) GreaterThanGreaterThanGreaterThanToken :: SyntaxKind where "GreaterThanGreaterThanGreaterThanToken \<equiv> 39"
abbreviation (input) AmpersandToken :: SyntaxKind where "AmpersandToken \<equiv> 40"
abbreviation (input) BarToken :: SyntaxKind where "BarToken \<equiv> 41"
abbreviation (input) CaretToken :: SyntaxKind where "CaretToken \<equiv> 42"
abbreviation (input) ExclamationToken :: SyntaxKind where "ExclamationToken \<equiv> 43"
abbreviation (input) TildeToken :: SyntaxKind where "TildeToken \<equiv> 44"
abbreviation (input) AmpersandAmpersandToken :: SyntaxKind where "AmpersandAmpersandToken \<equiv> 45"
abbreviation (input) BarBarToken :: SyntaxKind where "BarBarToken \<equiv> 46"
abbreviation (input) QuestionQuestionToken :: SyntaxKind where "QuestionQuestionToken \<equiv> 47"
abbreviation (input) EqualsToken :: SyntaxKind where "EqualsToken \<equiv> 48"
abbreviation (input) PlusEqualsToken :: SyntaxKind where "PlusEqualsToken \<equiv> 49"
abbreviation (input) MinusEqualsToken :: SyntaxKind where "MinusEqualsToken \<equiv> 50"
abbreviation (input) AsteriskEqualsToken :: SyntaxKind where "AsteriskEqualsToken \<equiv> 51"
abbreviation (input) AsteriskAsteriskEqualsToken :: SyntaxKind where "AsteriskAsteriskEqualsToken \<equiv> 52"
abbreviation (input) SlashEqualsToken :: SyntaxKind where "SlashEqualsToken \<equiv> 53"
abbreviation (input) PercentEqualsToken :: SyntaxKind where "PercentEqualsToken \<equiv> 54"
abbreviation (input) LessThanLessThanEqualsToken :: SyntaxKind where "LessThanLessThanEqualsToken \<equiv> 55"
abbreviation (input) GreaterThanGreaterThanEqualsToken :: SyntaxKind where "GreaterThanGreaterThanEqualsToken \<equiv> 56"
abbreviation (input) GreaterThanGreaterThanGreaterThanEqualsToken :: SyntaxKind where "GreaterThanGreaterThanGreaterThanEqualsToken \<equiv> 57"
abbreviation (input) AmpersandEqualsToken :: SyntaxKind where "AmpersandEqualsToken \<equiv> 58"
abbreviation (input) BarEqualsToken :: SyntaxKind where "BarEqualsToken \<equiv> 59"
abbreviation (input) CaretEqualsToken :: SyntaxKind where "CaretEqualsToken \<equiv> 60"
abbreviation (input) Identifier :: SyntaxKind where "Identifier \<equiv> 61"
abbreviation (input) BreakKeyword :: SyntaxKind where "BreakKeyword \<equiv> 62"
abbreviation (input) CaseKeyword :: SyntaxKind where "CaseKeyword \<equiv> 63"
abbreviation (input) CatchKeyword :: SyntaxKind where "CatchKeyword \<equiv> 64"
abbreviation (input) ClassKeyword :: SyntaxKind where "ClassKeyword \<equiv> 65"
abbreviation (input) ConstKeyword :: SyntaxKind where "ConstKeyword \<equiv> 66"
abbreviation (input) ContinueKeyword :: SyntaxKind where "ContinueKeyword \<equiv> 67"
abbreviation (input) DebuggerKeyword :: SyntaxKind where "DebuggerKeyword \<equiv> 68"
abbreviation (input) DefaultKeyword :: SyntaxKind where "DefaultKeyword \<equiv> 69"
abbreviation (input) DeleteKeyword :: SyntaxKind where "DeleteKeyword \<equiv> 70"
abbreviation (input) DoKeyword :: SyntaxKind where "DoKeyword \<equiv> 71"
abbreviation (input) ElifKeyword :: SyntaxKind where "ElifKeyword \<equiv> 72"
abbreviation (input) ElseKeyword :: SyntaxKind where "ElseKeyword \<equiv> 73"
abbreviation (input) EnumKeyword :: SyntaxKind where "EnumKeyword \<equiv> 74"
abbreviation (input) ExportKeyword :: SyntaxKind where "ExportKeyword \<equiv> 75"
abbreviation (input) ExtendsKeyword :: SyntaxKind where "ExtendsKeyword \<equiv> 76"
abbreviation (input) FalseKeyword :: SyntaxKind where "FalseKeyword \<equiv> 77"
abbreviation (input) FinallyKeyword :: SyntaxKind where "FinallyKeyword \<equiv> 78"
abbreviation (input) ForKeyword :: SyntaxKind where "ForKeyword \<equiv> 79"
abbreviation (input) FunctionKeyword :: SyntaxKind where "FunctionKeyword \<equiv> 80"
abbreviation (input) IfKeyword :: SyntaxKind where "IfKeyword \<equiv> 81"
abbreviation (input) ImportKeyword :: SyntaxKind where "ImportKeyword \<equiv> 82"
abbreviation (input) InKeyword :: SyntaxKind where "InKeyword \<equiv> 83"
abbreviation (input) InstanceOfKeyword :: SyntaxKind where "InstanceOfKeyword \<equiv> 84"
abbreviation (input) NewKeyword :: SyntaxKind where "NewKeyword \<equiv> 85"
abbreviation (input) NullKeyword :: SyntaxKind where "NullKeyword \<equiv> 86"
abbreviation (input) ReturnKeyword :: SyntaxKind where "ReturnKeyword \<equiv> 87"
abbreviation (input) SuperKeyword :: SyntaxKind where "SuperKeyword \<equiv> 88"
abbreviation (input) SwitchKeyword :: SyntaxKind where "SwitchKeyword \<equiv> 89"
abbreviation (input) ThisKeyword :: SyntaxKind where "ThisKeyword \<equiv> 90"
abbreviation (input) ThrowKeyword :: SyntaxKind where "ThrowKeyword \<equiv> 91"
abbreviation (input) TrueKeyword :: SyntaxKind where "TrueKeyword \<equiv> 92"
abbreviation (input) TryKeyword :: SyntaxKind where "TryKeyword \<equiv> 93"
abbreviation (input) TypeOfKeyword :: SyntaxKind where "TypeOfKeyword \<equiv> 94"
abbreviation (input) VarKeyword :: SyntaxKind where "VarKeyword \<equiv> 95"
abbreviation (input) VoidKeyword :: SyntaxKind where "VoidKeyword \<equiv> 96"
abbreviation (input) WhileKeyword :: SyntaxKind where "WhileKeyword \<equiv> 97"
abbreviation (input) WithKeyword :: SyntaxKind where "WithKeyword \<equiv> 98"
abbreviation (input) ImplementsKeyword :: SyntaxKind where "ImplementsKeyword \<equiv> 99"
abbreviation (input) InterfaceKeyword :: SyntaxKind where "InterfaceKeyword \<equiv> 100"
abbreviation (input) LetKeyword :: SyntaxKind where "LetKeyword \<equiv> 101"
abbreviation (input) PackageKeyword :: SyntaxKind where "PackageKeyword \<equiv> 102"
abbreviation (input) PrivateKeyword :: SyntaxKind where "PrivateKeyword \<equiv> 103"
abbreviation (input) ProtectedKeyword :: SyntaxKind where "ProtectedKeyword \<equiv> 104"
abbreviation (input) PublicKeyword :: SyntaxKind where "PublicKeyword \<equiv> 105"
abbreviation (input) StaticKeyword :: SyntaxKind where "StaticKeyword \<equiv> 106"
abbreviation (input) YieldKeyword :: SyntaxKind where "YieldKeyword \<equiv> 107"
abbreviation (input) FallThroughKeyword :: SyntaxKind where "FallThroughKeyword \<equiv> 108"
abbreviation (input) NodeKeyword :: SyntaxKind where "NodeKeyword \<equiv> 109"
abbreviation (input) SubnetKeyword :: SyntaxKind where "SubnetKeyword \<equiv> 110"
abbreviation (input) UsingKeyword :: SyntaxKind where "UsingKeyword \<equiv> 111"
abbreviation (input) AbstractKeyword :: SyntaxKind where "AbstractKeyword \<equiv> 112"
abbreviation (input) AsKeyword :: SyntaxKind where "AsKeyword \<equiv> 113"
abbreviation (input) AssertsKeyword :: SyntaxKind where "AssertsKeyword \<equiv> 114"
abbreviation (input) AnyKeyword :: SyntaxKind where "AnyKeyword \<equiv> 115"
abbreviation (input) AsyncKeyword :: SyntaxKind where "AsyncKeyword \<equiv> 116"
abbreviation (input) AwaitKeyword :: SyntaxKind where "AwaitKeyword \<equiv> 117"
abbreviation (input) BooleanKeyword :: SyntaxKind where "BooleanKeyword \<equiv> 118"
abbreviation (input) ConstructorKeyword :: SyntaxKind where "ConstructorKeyword \<equiv> 119"
abbreviation (input) DeclareKeyword :: SyntaxKind where "DeclareKeyword \<equiv> 120"
abbreviation (input) GetKeyword :: SyntaxKind where "GetKeyword \<equiv> 121"
abbreviation (input) InferKeyword :: SyntaxKind where "InferKeyword \<equiv> 122"
abbreviation (input) IsKeyword :: SyntaxKind where "IsKeyword \<equiv> 123"
abbreviation (input) KeyOfKeyword :: SyntaxKind where "KeyOfKeyword \<equiv> 124"
abbreviation (input) ModuleKeyword :: SyntaxKind where "ModuleKeyword \<equiv> 125"
abbreviation (input) NamespaceKeyword :: SyntaxKind where "NamespaceKeyword \<equiv> 126"
abbreviation (input) NeverKeyword :: SyntaxKind where "NeverKeyword \<equiv> 127"
abbreviation (input) ReadonlyKeyword :: SyntaxKind where "ReadonlyKeyword \<equiv> 128"
abbreviation (input) RequireKeyword :: SyntaxKind where "RequireKeyword \<equiv> 129"
abbreviation (input) NumberKeyword :: SyntaxKind where "NumberKeyword \<equiv> 130"
abbreviation (input) ObjectKeyword :: SyntaxKind where "ObjectKeyword \<equiv> 131"
abbreviation (input) SetKeyword :: SyntaxKind where "SetKeyword \<equiv> 132"
abbreviation (input) StringKeyword :: SyntaxKind where "StringKeyword \<equiv> 133"
abbreviation (input) SymbolKeyword :: SyntaxKind where "SymbolKeyword \<equiv> 134"
abbreviation (input) TypeKeyword :: SyntaxKind where "TypeKeyword \<equiv> 135"
abbreviation (input) UndefinedKeyword :: SyntaxKind where "UndefinedKeyword \<equiv> 136"
abbreviation (input) UniqueKeyword :: SyntaxKind where "UniqueKeyword \<equiv> 137"
abbreviation (input) UnknownKeyword :: SyntaxKind where "UnknownKeyword \<equiv> 138"
abbreviation (input) FromKeyword :: SyntaxKind where "FromKeyword \<equiv> 139"
abbreviation (input) GlobalKeyword :: SyntaxKind where "GlobalKeyword \<equiv> 140"
abbreviation (input) BigIntKeyword :: SyntaxKind where "BigIntKeyword \<equiv> 141"
abbreviation (input) OfKeyword :: SyntaxKind where "OfKeyword \<equiv> 142"
abbreviation (input) StateKeyword :: SyntaxKind where "StateKeyword \<equiv> 143"
abbreviation (input) Count :: SyntaxKind where "Count \<equiv> 144"

text \<open>
  The parser names further members of \<open>SyntaxKind\<close>, the kinds of syntax-tree nodes. The
  enum under \<open>src/src/lang-types.ts\<close> stops at \<open>Count\<close> and does not declare them; the
  code only tests them for equality, so they are numbered after \<open>Count\<close>, in alphabetical
  order.
\<close>
abbreviation (input) Arguments :: SyntaxKind where "Arguments \<equiv> 145"
abbreviation (input) ArrayLiteralExpression :: SyntaxKind where "ArrayLiteralExpression \<equiv> 146"
abbreviation (input) ArrowFunction :: SyntaxKind where "ArrowFunction \<equiv> 147"
abbreviation (input) AsExpression :: SyntaxKind where "AsExpression \<equiv> 148"
abbreviation (input) AssignmentExpression :: SyntaxKind where "AssignmentExpression \<equiv> 149"
abbreviation (input) BinaryExpression :: SyntaxKind where "BinaryExpression \<equiv> 150"
abbreviation (input) Block :: SyntaxKind where "Block \<equiv> 151"
abbreviation (input) BreakStatement :: SyntaxKind where "BreakStatement \<equiv> 152"
abbreviation (input) CallExpression :: SyntaxKind where "CallExpression \<equiv> 153"
abbreviation (input) CaseBlock :: SyntaxKind where "CaseBlock \<equiv> 154"
abbreviation (input) CaseClause :: SyntaxKind where "CaseClause \<equiv> 155"
abbreviation (input) CatchClause :: SyntaxKind where "CatchClause \<equiv> 156"
abbreviation (input) ClassExpression :: SyntaxKind where "ClassExpression \<equiv> 157"
abbreviation (input) CommaExpression :: SyntaxKind where "CommaExpression \<equiv> 158"
abbreviation (input) ComputedPropertyName :: SyntaxKind where "ComputedPropertyName \<equiv> 159"
abbreviation (input) ConditionalExpression :: SyntaxKind where "ConditionalExpression \<equiv> 160"
abbreviation (input) ConnectionExpression :: SyntaxKind where "ConnectionExpression \<equiv> 161"
abbreviation (input) ContinueStatement :: SyntaxKind where "ContinueStatement \<equiv> 162"
abbreviation (input) DebuggerStatement :: SyntaxKind where "DebuggerStatement \<equiv> 163"
abbreviation (input) Decorator :: SyntaxKind where "Decorator \<equiv> 164"
abbreviation (input) DefaultClause :: SyntaxKind where "DefaultClause \<equiv> 165"
abbreviation (input) ElementAccessExpression :: SyntaxKind where "ElementAccessExpression \<equiv> 166"
abbreviation (input) ElifClause :: SyntaxKind where "ElifClause \<equiv> 167"
abbreviation (input) EmptyStatement :: SyntaxKind where "EmptyStatement \<equiv> 168"
abbreviation (input) ExpressionStatement :: SyntaxKind where "ExpressionStatement \<equiv> 169"
abbreviation (input) FallThroughStatement :: SyntaxKind where "FallThroughStatement \<equiv> 170"
abbreviation (input) ForInStatement :: SyntaxKind where "ForInStatement \<equiv> 171"
abbreviation (input) ForOfStatement :: SyntaxKind where "ForOfStatement \<equiv> 172"
abbreviation (input) ForStatement :: SyntaxKind where "ForStatement \<equiv> 173"
abbreviation (input) FunctionDeclaration :: SyntaxKind where "FunctionDeclaration \<equiv> 174"
abbreviation (input) FunctionExpression :: SyntaxKind where "FunctionExpression \<equiv> 175"
abbreviation (input) IfStatement :: SyntaxKind where "IfStatement \<equiv> 176"
abbreviation (input) LabeledStatement :: SyntaxKind where "LabeledStatement \<equiv> 177"
abbreviation (input) NewExpression :: SyntaxKind where "NewExpression \<equiv> 178"
abbreviation (input) NewTargetExpression :: SyntaxKind where "NewTargetExpression \<equiv> 179"
abbreviation (input) NodeAllPortTypeDeclaration :: SyntaxKind where "NodeAllPortTypeDeclaration \<equiv> 180"
abbreviation (input) NodeBlock :: SyntaxKind where "NodeBlock \<equiv> 181"
abbreviation (input) NodeDeclaration :: SyntaxKind where "NodeDeclaration \<equiv> 182"
abbreviation (input) NodeExpression :: SyntaxKind where "NodeExpression \<equiv> 183"
abbreviation (input) NodePortTypeDeclaration :: SyntaxKind where "NodePortTypeDeclaration \<equiv> 184"
abbreviation (input) NodeStateDeclaration :: SyntaxKind where "NodeStateDeclaration \<equiv> 185"
abbreviation (input) ObjectLiteralExpression :: SyntaxKind where "ObjectLiteralExpression \<equiv> 186"
abbreviation (input) OmittedExpression :: SyntaxKind where "OmittedExpression \<equiv> 187"
abbreviation (input) Parameter :: SyntaxKind where "Parameter \<equiv> 188"
abbreviation (input) ParenthesizedExpression :: SyntaxKind where "ParenthesizedExpression \<equiv> 189"
abbreviation (input) PostfixUpdateExpression :: SyntaxKind where "PostfixUpdateExpression \<equiv> 190"
abbreviation (input) PrefixUnaryExpression :: SyntaxKind where "PrefixUnaryExpression \<equiv> 191"
abbreviation (input) PrefixUpdateExpression :: SyntaxKind where "PrefixUpdateExpression \<equiv> 192"
abbreviation (input) PropertyAccessExpression :: SyntaxKind where "PropertyAccessExpression \<equiv> 193"
abbreviation (input) PropertyAssignment :: SyntaxKind where "PropertyAssignment \<equiv> 194"
abbreviation (input) ReturnStatement :: SyntaxKind where "ReturnStatement \<equiv> 195"
abbreviation (input) ShorthandPropertyAssignment :: SyntaxKind where "ShorthandPropertyAssignment \<equiv> 196"
abbreviation (input) SourceFile :: SyntaxKind where "SourceFile \<equiv> 197"
abbreviation (input) SpreadExpression :: SyntaxKind where "SpreadExpression \<equiv> 198"
abbreviation (input) SwitchStatement :: SyntaxKind where "SwitchStatement \<equiv> 199"
abbreviation (input) TaggedTemplateExpression :: SyntaxKind where "TaggedTemplateExpression \<equiv> 200"
abbreviation (input) TryStatement :: SyntaxKind where "TryStatement \<equiv> 201"
abbreviation (input) TypeAssertionExpression :: SyntaxKind where "TypeAssertionExpression \<equiv> 202"
abbreviation (input) TypeParameter :: SyntaxKind where "TypeParameter \<equiv> 203"
abbreviation (input) UsingStatement :: SyntaxKind where "UsingStatement \<equiv> 204"
abbreviation (input) VariableBinding :: SyntaxKind where "VariableBinding \<equiv> 205"
abbreviation (input) VariableDeclaration :: SyntaxKind where "VariableDeclaration \<equiv> 206"
abbreviation (input) YieldExpression :: SyntaxKind where "YieldExpression \<equiv> 207"

text \<open>The members of \<open>SyntaxKindMarker\<close>.\<close>

abbreviation (input) FirstAssignment :: SyntaxKind where "FirstAssignment \<equiv> EqualsToken"
abbreviation (input) LastAssignment :: SyntaxKind where "LastAssignment \<equiv> CaretEqualsToken"
abbreviation (input) FirstReservedWord :: SyntaxKind where "FirstReservedWord \<equiv> BreakKeyword"
abbreviation (input) LastReservedWord :: SyntaxKind where "LastReservedWord \<equiv> UsingKeyword"

text \<open>\<open>TokenFlags\<close>, as \<open>src/src/lang-types.ts\<close> numbers them.\<close>

abbreviation (input) TokenFlags_None :: TokenFlags where "TokenFlags_None \<equiv> 0"
abbreviation (input) PrecedingLineBreak :: TokenFlags where "PrecedingLineBreak \<equiv> 1"
abbreviation (input) Scientific :: TokenFlags where "Scientific \<equiv> 2"
abbreviation (input) Octal :: TokenFlags where "Octal \<equiv> 4"
abbreviation (input) HexSpecifier :: TokenFlags where "HexSpecifier \<equiv> 8"
abbreviation (input) BinarySpecifier :: TokenFlags where "BinarySpecifier \<equiv> 16"
abbreviation (input) OctalSpecifier :: TokenFlags where "OctalSpecifier \<equiv> 32"

text \<open>\<open>CharacterCodes\<close>: the members the scanner uses.\<close>
abbreviation (input) ch_lineFeed :: nat where "ch_lineFeed \<equiv> 0x0A"
abbreviation (input) ch_carriageReturn :: nat where "ch_carriageReturn \<equiv> 0x0D"
abbreviation (input) ch_space :: nat where "ch_space \<equiv> 0x0020"
abbreviation (input) ch_underscore :: nat where "ch_underscore \<equiv> 0x5F"
abbreviation (input) ch_dollar :: nat where "ch_dollar \<equiv> 0x24"
abbreviation (input) ch_0 :: nat where "ch_0 \<equiv> 0x30"
abbreviation (input) ch_1 :: nat where "ch_1 \<equiv> 0x31"
abbreviation (input) ch_2 :: nat where "ch_2 \<equiv> 0x32"
abbreviation (input) ch_3 :: nat where "ch_3 \<equiv> 0x33"
abbreviation (input) ch_4 :: nat where "ch_4 \<equiv> 0x34"
abbreviation (input) ch_5 :: nat where "ch_5 \<equiv> 0x35"
abbreviation (input) ch_6 :: nat where "ch_6 \<equiv> 0x36"
abbreviation (input) ch_7 :: nat where "ch_7 \<equiv> 0x37"
abbreviation (input) ch_8 :: nat where "ch_8 \<equiv> 0x38"
abbreviation (input) ch_9 :: nat where "ch_9 \<equiv> 0x39"
abbreviation (input) ch_a :: nat where "ch_a \<equiv> 0x61"
abbreviation (input) ch_b :: nat where "ch_b \<equiv> 0x62"
abbreviation (input) ch_e :: nat where "ch_e \<equiv> 0x65"
abbreviation (input) ch_f :: nat where "ch_f \<equiv> 0x66"
abbreviation (input) ch_n :: nat where "ch_n \<equiv> 0x6E"
abbreviation (input) ch_o :: nat where "ch_o \<equiv> 0x6F"
abbreviation (input) ch_r :: nat where "ch_r \<equiv> 0x72"
abbreviation (input) ch_t :: nat where "ch_t \<equiv> 0x74"
abbreviation (input) ch_v :: nat where "ch_v \<equiv> 0x76"
abbreviation (input) ch_x :: nat where "ch_x \<equiv> 0x78"
abbreviation (input) ch_z :: nat where "ch_z \<equiv> 0x7A"
abbreviation (input) ch_A :: nat where "ch_A \<equiv> 0x41"
abbreviation (input) ch_B :: nat where "ch_B \<equiv> 0x42"
abbreviation (input) ch_E :: nat where "ch_E \<equiv> 0x45"
abbreviation (input) ch_F :: nat where "ch_F \<equiv> 0x46"
abbreviation (input) ch_O :: nat where "ch_O \<equiv> 0x4F"
abbreviation (input) ch_X :: nat where "ch_X \<equiv> 0x58"
abbreviation (input) ch_Z :: nat where "ch_Z \<equiv> 0x5A"
abbreviation (input) ch_ampersand :: nat where "ch_ampersand \<equiv> 0x26"
abbreviation (input) ch_asterisk :: nat where "ch_asterisk \<equiv> 0x2A"
abbreviation (input) ch_at :: nat where "ch_at \<equiv> 0x40"
abbreviation (input) ch_backslash :: nat where "ch_backslash \<equiv> 0x5C"
abbreviation (input) ch_bar :: nat where "ch_bar \<equiv> 0x7C"
abbreviation (input) ch_caret :: nat where "ch_caret \<equiv> 0x5E"
abbreviation (input) ch_closeBrace :: nat where "ch_closeBrace \<equiv> 0x7D"
abbreviation (input) ch_closeBracket :: nat where "ch_closeBracket \<equiv> 0x5D"
abbreviation (input) ch_closeParen :: nat where "ch_closeParen \<equiv> 0x29"
abbreviation (input) ch_colon :: nat where "ch_colon \<equiv> 0x3A"
abbreviation (input) ch_comma :: nat where "ch_comma \<equiv> 0x2C"
abbreviation (input) ch_dot :: nat where "ch_dot \<equiv> 0x2E"
abbreviation (input) ch_doubleQuote :: nat where "ch_doubleQuote \<equiv> 0x22"
abbreviation (input) ch_equals :: nat where "ch_equals \<equiv> 0x3D"
abbreviation (input) ch_exclamation :: nat where "ch_exclamation \<equiv> 0x21"
abbreviation (input) ch_greaterThan :: nat where "ch_greaterThan \<equiv> 0x3E"
abbreviation (input) ch_lessThan :: nat where "ch_lessThan \<equiv> 0x3C"
abbreviation (input) ch_minus :: nat where "ch_minus \<equiv> 0x2D"
abbreviation (input) ch_openBrace :: nat where "ch_openBrace \<equiv> 0x7B"
abbreviation (input) ch_openBracket :: nat where "ch_openBracket \<equiv> 0x5B"
abbreviation (input) ch_openParen :: nat where "ch_openParen \<equiv> 0x28"
abbreviation (input) ch_percent :: nat where "ch_percent \<equiv> 0x25"
abbreviation (input) ch_plus :: nat where "ch_plus \<equiv> 0x2B"
abbreviation (input) ch_question :: nat where "ch_question \<equiv> 0x3F"
abbreviation (input) ch_semicolon :: nat where "ch_semicolon \<equiv> 0x3B"
abbreviation (input) ch_singleQuote :: nat where "ch_singleQuote \<equiv> 0x27"
abbreviation (input) ch_slash :: nat where "ch_slash \<equiv> 0x2F"
abbreviation (input) ch_tilde :: nat where "ch_tilde \<equiv> 0x7E"
abbreviation (input) ch_formFeed :: nat where "ch_formFeed \<equiv> 0x0C"
abbreviation (input) ch_tab :: nat where "ch_tab \<equiv> 0x09"
abbreviation (input) ch_verticalTab :: nat where "ch_verticalTab \<equiv> 0x0B"

section \<open>Character classifier (\<open>util.ts\<close>)\<close>

definition isDigit :: "nat option \<Rightarrow> bool" where
  "isDigit ch = (case ch of None \<Rightarrow> False | Some c \<Rightarrow> ch_0 \<le> c \<and> c \<le> ch_9)"

definition isLineBreak :: "nat option \<Rightarrow> bool" where
  "isLineBreak ch = (ch = Some ch_lineFeed \<or> ch = Some ch_carriageReturn)"

definition isOctalDigit :: "nat option \<Rightarrow> bool" where
  "isOctalDigit ch = (case ch of None \<Rightarrow> False | Some c \<Rightarrow> ch_0 \<le> c \<and> c \<le> ch_7)"

definition isHexDigit :: "nat option \<Rightarrow> bool" where
  "isHexDigit ch =
     (case ch of None \<Rightarrow> False
      | Some c \<Rightarrow> ch_0 \<le> c \<and> c \<le> ch_9 \<or> ch_a \<le> c \<and> c \<le> ch_f \<or> ch_A \<le> c \<and> c \<le> ch_F)"

definition isBinaryDigit :: "nat option \<Rightarrow> bool" where
  "isBinaryDigit ch = (ch = Some ch_0 \<or> ch = Some ch_1)"

definition isIdentifierStart :: "nat option \<Rightarrow> bool" where
  "isIdentifierStart ch =
     (case ch of None \<Rightarrow> False
      | Some c \<Rightarrow> ch_A \<le> c \<and> c \<le> ch_Z \<or> ch_a \<le> c \<and> c \<le> ch_z
                  \<or> c = ch_dollar \<or> c = ch_underscore)"

definition isIdentifierPart :: "nat option \<Rightarrow> bool" where
  "isIdentifierPart ch =
     (case ch of None \<Rightarrow> False
      | Some c \<Rightarrow> ch_A \<le> c \<and> c \<le> ch_Z \<or> ch_a \<le> c \<and> c \<le> ch_z
                  \<or> ch_0 \<le> c \<and> c \<le> ch_9 \<or> c = ch_dollar \<or> c = ch_underscore)"

text \<open>\<open>textToKeyword\<close>: the keyword table of \<open>src/src/lang-types.ts\<close>, in its order.\<close>

definition keywordEntries :: "(string \<times> SyntaxKind) list" where
  "keywordEntries =
  [(''abstract'', AbstractKeyword), (''any'', AnyKeyword),
   (''as'', AsKeyword), (''asserts'', AssertsKeyword),
   (''bigint'', BigIntKeyword), (''boolean'', BooleanKeyword),
   (''break'', BreakKeyword), (''case'', CaseKeyword),
   (''catch'', CatchKeyword), (''class'', ClassKeyword),
   (''continue'', ContinueKeyword), (''const'', ConstKeyword),
   (''constructor'', ConstructorKeyword), (''debugger'', DebuggerKeyword),
   (''declare'', DeclareKeyword), (''default'', DefaultKeyword),
   (''delete'', DeleteKeyword), (''do'', DoKeyword),
   (''else'', ElseKeyword), (''enum'', EnumKeyword),
   (''elif'', ElifKeyword), (''export'', ExportKeyword),
   (''extends'', ExtendsKeyword), (''fallthrough'', FallThroughKeyword),
   (''false'', FalseKeyword), (''finally'', FinallyKeyword),
   (''for'', ForKeyword), (''from'', FromKeyword),
   (''function'', FunctionKeyword), (''get'', GetKeyword),
   (''if'', IfKeyword), (''implements'', ImplementsKeyword),
   (''import'', ImportKeyword), (''in'', InKeyword),
   (''infer'', InferKeyword), (''instanceof'', InstanceOfKeyword),
   (''interface'', InterfaceKeyword), (''is'', IsKeyword),
   (''keyof'', KeyOfKeyword), (''let'', LetKeyword),
   (''module'', ModuleKeyword), (''namespace'', NamespaceKeyword),
   (''never'', NeverKeyword), (''new'', NewKeyword),
   (''node'', NodeKeyword), (''null'', NullKeyword),
   (''number'', NumberKeyword), (''object'', ObjectKeyword),
   (''package'', PackageKeyword), (''private'', PrivateKeyword),
   (''protected'', ProtectedKeyword), (''public'', PublicKeyword),
   (''readonly'', ReadonlyKeyword), (''require'', RequireKeyword),
   (''global'', GlobalKeyword), (''return'', ReturnKeyword),
   (''set'', SetKeyword), (''state'', StateKeyword),
   (''static'', StaticKeyword), (''string'', StringKeyword),
   (''subnet'', SubnetKeyword), (''super'', SuperKeyword),
   (''switch'', SwitchKeyword), (''symbol'', SymbolKeyword),
   (''this'', ThisKeyword), (''throw'', ThrowKeyword),
   (''true'', TrueKeyword), (''try'', TryKeyword),
   (''type'', TypeKeyword), (''typeof'', TypeOfKeyword),
   (''undefined'', UndefinedKeyword), (''unique'', UniqueKeyword),
   (''unknown'', UnknownKeyword), (''using'', UsingKeyword),
   (''var'', VarKeyword), (''void'', VoidKeyword),
   (''while'', WhileKeyword), (''with'', WithKeyword),
   (''yield'', YieldKeyword), (''async'', AsyncKeyword),
   (''await'', AwaitKeyword), (''of'', OfKeyword)]"

definition textToKeyword :: "jsstring \<Rightarrow> SyntaxKind option" where
  "textToKeyword v = map_of (map (\<lambda>(k, kind). (utf16 k, kind)) keywordEntries) v"

definition checkReservedWord :: "jsstring \<Rightarrow> SyntaxKind" where
  "checkReservedWord tokenValue =
     (case charCodeAt tokenValue 0 of
        None \<Rightarrow> Identifier
      | Some ch \<Rightarrow>
          if ch_a \<le> ch \<and> ch \<le> ch_z then
            (case textToKeyword tokenValue of Some keyword \<Rightarrow> keyword | None \<Rightarrow> Identifier)
          else Identifier)"

section \<open>The scanner (\<open>src/src/lexical.ts\<close>)\<close>

text \<open>
  The scanner's state is the module's global variables. \<open>onError\<close> says whether an error
  callback is registered; \<open>errors\<close> is what the callback has received so far: each
  message with the value of \<open>pos\<close> during the call and the length passed.
\<close>

record Scanner =
  "text" :: jsstring
  startPos :: nat
  tokenPos :: nat
  pos :: nat
  "end" :: nat
  token :: SyntaxKind
  tokenValue :: "jsstring option"
  tokenFlags :: TokenFlags
  onError :: bool
  errors :: "(string \<times> nat \<times> nat) list"

text \<open>The values the module gives its variables when it is loaded.\<close>

definition initialScanner :: Scanner where
  "initialScanner =
     \<lparr>text = [], startPos = 0, tokenPos = 0, pos = 0, end = 0, token = Unknown,
      tokenValue = None, tokenFlags = TokenFlags_None, onError = False, errors = []\<rparr>"

definition resetPos :: "nat \<Rightarrow> 'a Scanner_scheme \<Rightarrow> 'a Scanner_scheme" where
  "resetPos newPos s =
     s\<lparr>pos := newPos, startPos := newPos, tokenPos := newPos, token := Unknown,
       tokenValue := None, tokenFlags := TokenFlags_None\<rparr>"

definition resetText :: "jsstring \<Rightarrow> 'a Scanner_scheme \<Rightarrow> 'a Scanner_scheme" where
  "resetText newText s = resetPos 0 (s\<lparr>text := newText, end := length newText\<rparr>)"

definition setTextRange :: "nat \<Rightarrow> nat option \<Rightarrow> 'a Scanner_scheme \<Rightarrow> 'a Scanner_scheme" where
  "setTextRange start len s =
     resetPos start
       (s\<lparr>end := (case len of None \<Rightarrow> length (text s) | Some l \<Rightarrow> start + l)\<rparr>)"

definition tokenText :: "'a Scanner_scheme \<Rightarrow> jsstring" where
  "tokenText s = substring (text s) (tokenPos s) (pos s)"

definition hasPrecedingLineBreak :: "'a Scanner_scheme \<Rightarrow> bool" where
  "hasPrecedingLineBreak s = (tokenFlags s AND PrecedingLineBreak \<noteq> 0)"

definition isIdentifier :: "'a Scanner_scheme \<Rightarrow> bool" where
  "isIdentifier s = (token s = Identifier \<or> token s > LastReservedWord)"

definition isReservedWord :: "'a Scanner_scheme \<Rightarrow> bool" where
  "isReservedWord s = (token s \<ge> FirstReservedWord \<and> token s \<le> LastReservedWord)"

definition setOnError :: "bool \<Rightarrow> 'a Scanner_scheme \<Rightarrow> 'a Scanner_scheme" where
  "setOnError registered s = s\<lparr>onError := registered\<rparr>"

text \<open>\<open>Scanner.error\<close>: every call in the scanner leaves \<open>errPos\<close> and \<open>length\<close> at
  their defaults, the current \<open>pos\<close> and \<open>0\<close>.\<close>

definition Scanner_error :: "string \<Rightarrow> 'a Scanner_scheme \<Rightarrow> 'a Scanner_scheme" where
  "Scanner_error message s =
     (if onError s then s\<lparr>errors := errors s @ [(message, pos s, 0)]\<rparr> else s)"

subsection \<open>The scanning loops\<close>

text \<open>
  \<open>advanceWhile P t lim p\<close> is the loop \<open>while (pos < lim && P(text.charCodeAt(pos))) pos++\<close>.
  The digit loops of the source have no bound: they stop at \<open>NaN\<close>, one past the last
  character, so the length of the text is their bound.
\<close>

function advanceWhile :: "(nat option \<Rightarrow> bool) \<Rightarrow> jsstring \<Rightarrow> nat \<Rightarrow> nat \<Rightarrow> nat" where
  "advanceWhile P t lim p =
     (if p < lim \<and> P (charCodeAt t p) then advanceWhile P t lim (p + 1) else p)"
  by pat_completeness auto
termination
  by (relation "measure (\<lambda>(P, t, lim, p). lim - p)") auto

declare advanceWhile.simps [simp del]

definition scanDigitsWhile ::
  "(nat option \<Rightarrow> bool) \<Rightarrow> 'a Scanner_scheme \<Rightarrow> jsstring \<times> 'a Scanner_scheme" where
  "scanDigitsWhile P s =
     (substring (text s) (pos s) (advanceWhile P (text s) (length (text s)) (pos s)),
      s\<lparr>pos := advanceWhile P (text s) (length (text s)) (pos s)\<rparr>)"

definition scanNumberFragment :: "'a Scanner_scheme \<Rightarrow> jsstring \<times> 'a Scanner_scheme" where
  "scanNumberFragment = scanDigitsWhile isDigit"

definition scanHexDigits :: "'a Scanner_scheme \<Rightarrow> jsstring \<times> 'a Scanner_scheme" where
  "scanHexDigits = scanDigitsWhile isHexDigit"

definition scanBinaryDigits :: "'a Scanner_scheme \<Rightarrow> jsstring \<times> 'a Scanner_scheme" where
  "scanBinaryDigits = scanDigitsWhile isBinaryDigit"

definition scanOctalDigits :: "'a Scanner_scheme \<Rightarrow> jsstring \<times> 'a Scanner_scheme" where
  "scanOctalDigits = scanDigitsWhile isOctalDigit"

definition scanNumber :: "'a Scanner_scheme \<Rightarrow> jsstring \<times> 'a Scanner_scheme" where
  "scanNumber s0 =
     (case scanNumberFragment s0 of (mainFragment, s1) \<Rightarrow>
      case (if charCodeAt (text s1) (pos s1) = Some ch_dot
            then (case scanNumberFragment (s1\<lparr>pos := pos s1 + 1\<rparr>) of
                    (decimalFragment, s2) \<Rightarrow> (Some decimalFragment, s2))
            else (None, s1)) of (decimalFragment, s2) \<Rightarrow>
      case (if charCodeAt (text s2) (pos s2) = Some ch_E \<or> charCodeAt (text s2) (pos s2) = Some ch_e
            then (let s3 = s2\<lparr>pos := pos s2 + 1, tokenFlags := tokenFlags s2 OR Scientific\<rparr>;
                      s4 = (if charCodeAt (text s3) (pos s3) = Some ch_plus
                               \<or> charCodeAt (text s3) (pos s3) = Some ch_minus
                            then s3\<lparr>pos := pos s3 + 1\<rparr> else s3)
                  in case scanNumberFragment s4 of (finalFragment, s5) \<Rightarrow>
                       if finalFragment = [] then (pos s2, Scanner_error ''Digit expected'' s5)
                       else (pos s5, s5))
            else (pos s2, s2)) of (endOfNumber, s6) \<Rightarrow>
      (if decimalFragment \<noteq> None \<or> tokenFlags s6 AND Scientific \<noteq> 0
       then normalizeDecimalLiteral (substring (text s6) (pos s0) endOfNumber)
       else substring (text s6) (pos s0) endOfNumber,
       s6))"

definition scanEscapeSequence :: "'a Scanner_scheme \<Rightarrow> jsstring \<times> 'a Scanner_scheme" where
  "scanEscapeSequence s0 =
     (let s1 = s0\<lparr>pos := pos s0 + 1\<rparr> in
      if pos s1 \<ge> end s1 then ([], Scanner_error ''Unexpected end of text'' s1)
      else
        (let ch = charCodeAt (text s1) (pos s1); s2 = s1\<lparr>pos := pos s1 + 1\<rparr> in
         if ch = Some ch_0 then ([0], s2)
         else if ch = Some ch_b then ([8], s2)
         else if ch = Some ch_t then ([9], s2)
         else if ch = Some ch_n then ([10], s2)
         else if ch = Some ch_v then ([11], s2)
         else if ch = Some ch_f then ([12], s2)
         else if ch = Some ch_r then ([13], s2)
         else if ch = Some ch_singleQuote then ([ch_singleQuote], s2)
         else if ch = Some ch_doubleQuote then ([ch_doubleQuote], s2)
         else ([], Scanner_error ''Expected escape char'' s2)))"

lemma Scanner_error_fields [simp]:
  "pos (Scanner_error m s) = pos s" "end (Scanner_error m s) = end s" "text (Scanner_error m s) = text s"
  "tokenPos (Scanner_error m s) = tokenPos s" "startPos (Scanner_error m s) = startPos s"
  "token (Scanner_error m s) = token s" "tokenFlags (Scanner_error m s) = tokenFlags s"
  "tokenValue (Scanner_error m s) = tokenValue s" "onError (Scanner_error m s) = onError s"
  by (simp_all add: Scanner_error_def)

lemma scanEscapeSequence_pos:
  "scanEscapeSequence s = (esc, s') \<Longrightarrow> pos s < pos s' \<and> end s' = end s \<and> text s' = text s"
  by (auto simp: scanEscapeSequence_def Let_def split: if_splits)

text \<open>The loop of \<open>scanString\<close>; \<open>start\<close> and \<open>result\<close> are its local variables.\<close>

function scanStringLoop ::
  "nat option \<Rightarrow> nat \<Rightarrow> jsstring \<Rightarrow> 'a Scanner_scheme \<Rightarrow> jsstring \<times> 'a Scanner_scheme" where
  "scanStringLoop quote start result s =
     (if pos s \<ge> end s then
        (result @ substring (text s) start (pos s), Scanner_error ''Unterminated string literal'' s)
      else if charCodeAt (text s) (pos s) \<noteq> None \<and> charCodeAt (text s) (pos s) = quote then
        (result @ substring (text s) start (pos s), s\<lparr>pos := pos s + 1\<rparr>)
      else if charCodeAt (text s) (pos s) = Some ch_backslash then
        (case scanEscapeSequence s of (esc, s') \<Rightarrow>
           scanStringLoop quote (pos s') ((result @ substring (text s) start (pos s)) @ esc) s')
      else if isLineBreak (charCodeAt (text s) (pos s)) then
        (result @ substring (text s) start (pos s), Scanner_error ''Unterminated string literal'' s)
      else scanStringLoop quote start result (s\<lparr>pos := pos s + 1\<rparr>))"
  by pat_completeness auto
termination
  by (relation "measure (\<lambda>(quote, start, result, s). end s - pos s)")
     (auto dest!: scanEscapeSequence_pos [OF sym])

declare scanStringLoop.simps [simp del]

definition scanString :: "'a Scanner_scheme \<Rightarrow> jsstring \<times> 'a Scanner_scheme" where
  "scanString s =
     scanStringLoop (charCodeAt (text s) (pos s)) (pos s + 1) [] (s\<lparr>pos := pos s + 1\<rparr>)"

text \<open>The message \<^verbatim>\<open>"*/" expected\<close>.\<close>

definition starSlashExpected :: string where
  "starSlashExpected = CHR 0x22 # ''*/'' @ CHR 0x22 # '' expected''"

text \<open>The loop that skips a multi-line comment, entered after \<open>/*\<close>; the result says
  whether the comment was closed.\<close>

function skipMultiLineComment :: "'a Scanner_scheme \<Rightarrow> bool \<times> 'a Scanner_scheme" where
  "skipMultiLineComment s =
     (if pos s < end s then
        (if charCodeAt (text s) (pos s) = Some ch_asterisk
            \<and> charCodeAt (text s) (pos s + 1) = Some ch_slash
         then (True, s\<lparr>pos := pos s + 2\<rparr>)
         else skipMultiLineComment
                ((if isLineBreak (charCodeAt (text s) (pos s))
                  then s\<lparr>tokenFlags := tokenFlags s OR PrecedingLineBreak\<rparr> else s)
                 \<lparr>pos := pos s + 1\<rparr>))
      else (False, s))"
  by pat_completeness auto
termination
  by (relation "measure (\<lambda>s. end s - pos s)") auto

declare skipMultiLineComment.simps [simp del]

subsection \<open>\<open>scan\<close>\<close>

text \<open>
  One pass of the \<open>while (true)\<close> loop of \<open>scan\<close>: it either returns a token or goes
  round again (\<open>continue\<close>) after white space or a comment. \<open>emit n k\<close> is
  \<open>return pos += n, token = k\<close>.
\<close>

datatype 'a step = Continue 'a | Return 'a

definition emit :: "nat \<Rightarrow> SyntaxKind \<Rightarrow> 'a Scanner_scheme \<Rightarrow> 'a Scanner_scheme step" where
  "emit n k s = Return (s\<lparr>pos := pos s + n, token := k\<rparr>)"

definition emitNumber :: "jsstring \<times> 'a Scanner_scheme \<Rightarrow> 'a Scanner_scheme step" where
  "emitNumber r = (case r of (v, s) \<Rightarrow> Return (s\<lparr>tokenValue := Some v, token := NumericLiteral\<rparr>))"

text \<open>The three prefixed literals \<open>0x\<close>, \<open>0b\<close> and \<open>0o\<close> differ in the digit scanner,
  the message, the radix and the flag only.\<close>

definition scanPrefixedNumber ::
  "('a Scanner_scheme \<Rightarrow> jsstring \<times> 'a Scanner_scheme) \<Rightarrow> string \<Rightarrow> nat \<Rightarrow> TokenFlags
     \<Rightarrow> 'a Scanner_scheme \<Rightarrow> 'a Scanner_scheme step" where
  "scanPrefixedNumber scanDigits message radix flag s =
     (case scanDigits (s\<lparr>pos := pos s + 2\<rparr>) of (digits, s1) \<Rightarrow>
        (let s2 = (if digits = [] then Scanner_error message s1 else s1);
             digits' = (if digits = [] then [ch_0] else digits)
         in Return (s2\<lparr>tokenValue := Some (numberToString (parseInt digits' radix)),
                      tokenFlags := tokenFlags s2 OR flag, token := NumericLiteral\<rparr>)))"

text \<open>The case labels of the \<open>switch\<close> of \<open>scan\<close>; any other character goes to its
  \<open>default\<close> branch.\<close>

definition caseLabels :: "nat list" where
  "caseLabels =
     [ch_lineFeed, ch_carriageReturn, ch_tab, ch_verticalTab, ch_formFeed, ch_space,
      ch_exclamation, ch_percent, ch_ampersand, ch_openParen, ch_closeParen, ch_asterisk,
      ch_plus, ch_comma, ch_minus, ch_dot, ch_slash, ch_colon, ch_semicolon, ch_lessThan,
      ch_greaterThan, ch_equals, ch_question, ch_openBracket, ch_closeBracket, ch_caret,
      ch_openBrace, ch_bar, ch_closeBrace, ch_tilde, ch_at, ch_backslash, ch_doubleQuote,
      ch_singleQuote, ch_0, ch_1, ch_2, ch_3, ch_4, ch_5, ch_6, ch_7, ch_8, ch_9]"

text \<open>
  In the \<open>default\<close> branch the source reads the characters of an identifier with
  \<open>codePointAt\<close>; the identifier characters are below the surrogates, where it agrees with
  \<open>charCodeAt\<close> (\<open>isIdentifierPart_codePointAt\<close> below), so \<open>advanceWhile\<close> serves.
\<close>

definition scanStep :: "'a Scanner_scheme \<Rightarrow> 'a Scanner_scheme step" where
  "scanStep s0 =
    (let s = s0\<lparr>tokenPos := pos s0\<rparr>; t = text s0; p = pos s0; ch = codePointAt (text s0) (pos s0) in
     if p \<ge> end s then Return (s\<lparr>token := EndOfFileToken\<rparr>)
     else if ch = Some ch_lineFeed \<or> ch = Some ch_carriageReturn then
       Continue (s\<lparr>tokenFlags := tokenFlags s OR PrecedingLineBreak, pos := p + 1\<rparr>)
     else if ch = Some ch_tab \<or> ch = Some ch_verticalTab \<or> ch = Some ch_formFeed
             \<or> ch = Some ch_space then
       Continue (s\<lparr>pos := p + 1\<rparr>)
     else if ch = Some ch_exclamation then
       (if charCodeAt t (p + 1) = Some ch_equals then
          (if charCodeAt t (p + 2) = Some ch_equals then emit 3 ExclamationEqualsEqualsToken s
           else emit 2 ExclamationEqualsToken s)
        else emit 1 ExclamationToken s)
     else if ch = Some ch_percent then
       (if charCodeAt t (p + 1) = Some ch_equals then emit 2 PercentEqualsToken s
        else emit 1 PercentToken s)
     else if ch = Some ch_ampersand then
       (if charCodeAt t (p + 1) = Some ch_ampersand then emit 2 AmpersandAmpersandToken s
        else if charCodeAt t (p + 1) = Some ch_equals then emit 2 AmpersandEqualsToken s
        else emit 1 AmpersandToken s)
     else if ch = Some ch_openParen then emit 1 OpenParenToken s
     else if ch = Some ch_closeParen then emit 1 CloseParenToken s
     else if ch = Some ch_asterisk then
       (if charCodeAt t (p + 1) = Some ch_equals then emit 2 AsteriskEqualsToken s
        else if charCodeAt t (p + 1) = Some ch_asterisk then
          (if charCodeAt t (p + 2) = Some ch_equals then emit 3 AsteriskAsteriskEqualsToken s
           else emit 2 AsteriskAsteriskToken s)
        else emit 1 AsteriskToken s)
     else if ch = Some ch_plus then
       (if charCodeAt t (p + 1) = Some ch_plus then emit 2 PlusPlusToken s
        else if charCodeAt t (p + 1) = Some ch_equals then emit 2 PlusEqualsToken s
        else emit 1 PlusToken s)
     else if ch = Some ch_comma then emit 1 CommaToken s
     else if ch = Some ch_minus then
       (if charCodeAt t (p + 1) = Some ch_minus then emit 2 MinusMinusToken s
        else if charCodeAt t (p + 1) = Some ch_equals then emit 2 MinusEqualsToken s
        else if charCodeAt t (p + 1) = Some ch_greaterThan then emit 2 MinusGreaterThanToken s
        else emit 1 MinusToken s)
     else if ch = Some ch_dot then
       (if isDigit (charCodeAt t (p + 1)) then emitNumber (scanNumber s)
        else if charCodeAt t (p + 1) = Some ch_dot \<and> charCodeAt t (p + 2) = Some ch_dot
        then emit 3 DotDotDotToken s
        else emit 1 DotToken s)
     else if ch = Some ch_slash then
       (if charCodeAt t (p + 1) = Some ch_slash then
          Continue (s\<lparr>pos := advanceWhile (\<lambda>c. \<not> isLineBreak c) t (end s) (p + 2)\<rparr>)
        else if charCodeAt t (p + 1) = Some ch_asterisk then
          (case skipMultiLineComment (s\<lparr>pos := p + 2\<rparr>) of (commentClosed, s1) \<Rightarrow>
             Continue (if commentClosed then s1 else Scanner_error starSlashExpected s1))
        else if charCodeAt t (p + 1) = Some ch_equals then emit 2 SlashEqualsToken s
        else emit 1 SlashToken s)
     else if ch = Some ch_colon then
       (if charCodeAt t (p + 1) = Some ch_equals then emit 2 ColonToken s
        else emit 1 ColonToken s)
     else if ch = Some ch_semicolon then emit 1 SemicolonToken s
     else if ch = Some ch_lessThan then
       (if charCodeAt t (p + 1) = Some ch_lessThan then
          (if charCodeAt t (p + 2) = Some ch_equals then emit 3 LessThanLessThanEqualsToken s
           else emit 2 LessThanLessThanToken s)
        else if charCodeAt t (p + 1) = Some ch_equals then emit 2 LessThanEqualsToken s
        else emit 1 LessThanToken s)
     else if ch = Some ch_greaterThan then
       (if charCodeAt t (p + 1) = Some ch_greaterThan then
          (if charCodeAt t (p + 2) = Some ch_greaterThan then
             (if charCodeAt t (p + 3) = Some ch_equals
              then emit 4 GreaterThanGreaterThanGreaterThanEqualsToken s
              else emit 3 GreaterThanGreaterThanGreaterThanToken s)
           else if charCodeAt t (p + 2) = Some ch_equals
           then emit 3 GreaterThanGreaterThanEqualsToken s
           else emit 2 GreaterThanGreaterThanToken s)
        else if charCodeAt t (p + 1) = Some ch_equals then emit 2 GreaterThanEqualsToken s
        else emit 1 GreaterThanToken s)
     else if ch = Some ch_equals then
       (if charCodeAt t (p + 1) = Some ch_equals then
          (if charCodeAt t (p + 2) = Some ch_equals then emit 3 EqualsEqualsEqualsToken s
           else emit 2 EqualsEqualsToken s)
        else if charCodeAt t (p + 1) = Some ch_greaterThan then emit 2 EqualsGreaterThanToken s
        else emit 1 EqualsToken s)
     else if ch = Some ch_question then
       (if charCodeAt t (p + 1) = Some ch_dot \<and> \<not> isDigit (charCodeAt t (p + 2))
        then emit 2 QuestionDotToken s
        else if charCodeAt t (p + 1) = Some ch_question then emit 2 QuestionQuestionToken s
        else emit 1 QuestionToken s)
     else if ch = Some ch_openBracket then emit 1 OpenBracketToken s
     else if ch = Some ch_closeBracket then emit 1 CloseBracketToken s
     else if ch = Some ch_caret then
       (if charCodeAt t (p + 1) = Some ch_equals then emit 2 CaretEqualsToken s
        else emit 1 CaretToken s)
     else if ch = Some ch_openBrace then emit 1 OpenBraceToken s
     else if ch = Some ch_bar then
       (if charCodeAt t (p + 1) = Some ch_bar then emit 2 BarBarToken s
        else if charCodeAt t (p + 1) = Some ch_equals then emit 2 BarEqualsToken s
        else emit 1 BarToken s)
     else if ch = Some ch_closeBrace then emit 1 CloseBraceToken s
     else if ch = Some ch_tilde then emit 1 TildeToken s
     else if ch = Some ch_at then emit 1 AtToken s
     else if ch = Some ch_backslash then
       emit 1 Unknown (Scanner_error ''Unicode escape is not supported yet'' s)
     else if ch = Some ch_doubleQuote \<or> ch = Some ch_singleQuote then
       (case scanString s of (v, s1) \<Rightarrow>
          Return (s1\<lparr>tokenValue := Some v, token := StringLiteral\<rparr>))
     else if ch = Some ch_0 \<and> p + 2 < end s
             \<and> (charCodeAt t (p + 1) = Some ch_X \<or> charCodeAt t (p + 1) = Some ch_x) then
       scanPrefixedNumber scanHexDigits ''Hexadecimal digit expected'' 16 HexSpecifier s
     else if ch = Some ch_0 \<and> p + 2 < end s
             \<and> (charCodeAt t (p + 1) = Some ch_B \<or> charCodeAt t (p + 1) = Some ch_b) then
       scanPrefixedNumber scanBinaryDigits ''Binary digit expected'' 2 BinarySpecifier s
     else if ch = Some ch_0 \<and> p + 2 < end s
             \<and> (charCodeAt t (p + 1) = Some ch_O \<or> charCodeAt t (p + 1) = Some ch_o) then
       scanPrefixedNumber scanOctalDigits ''Octal digit expected'' 8 OctalSpecifier s
     else if ch = Some ch_0 \<and> p + 1 < end s \<and> isOctalDigit (charCodeAt t (p + 1)) then
       (case scanOctalDigits s of (digits, s1) \<Rightarrow>
          Return (s1\<lparr>tokenValue := Some (numberToString (parseInt digits 8)),
                     tokenFlags := tokenFlags s1 OR Octal, token := NumericLiteral\<rparr>))
     else if isDigit ch then emitNumber (scanNumber s)
     else if isIdentifierStart ch then
       (let p' = advanceWhile isIdentifierPart t (end s) (p + 1) in
        Return (s\<lparr>pos := p', tokenValue := Some (substring t p p'),
                  token := checkReservedWord (substring t p p')\<rparr>))
     else emit 1 Unknown (Scanner_error ''Invalid character'' s))"

lemma advanceWhile_ge: "p \<le> advanceWhile P t lim p"
proof (induction P t lim p rule: advanceWhile.induct)
  case (1 P t lim p)
  show ?case
  proof (cases "p < lim \<and> P (charCodeAt t p)")
    case True
    with "1" have "p + 1 \<le> advanceWhile P t lim (p + 1)" by simp
    with True show ?thesis by (subst advanceWhile.simps) simp
  next
    case False
    then show ?thesis by (subst advanceWhile.simps) auto
  qed
qed

lemma advanceWhile_gt: "q < p \<Longrightarrow> q < advanceWhile P t lim p"
  using advanceWhile_ge [of p P t lim] by simp

lemma skipMultiLineComment_frame:
  "skipMultiLineComment s = (closed, s') \<Longrightarrow>
     pos s \<le> pos s' \<and> end s' = end s \<and> text s' = text s \<and> tokenPos s' = tokenPos s
       \<and> startPos s' = startPos s"
proof (induction s arbitrary: closed s' rule: skipMultiLineComment.induct)
  case (1 s)
  show ?case
  proof (cases "pos s < end s")
    case False
    with "1.prems" show ?thesis by (subst (asm) skipMultiLineComment.simps) auto
  next
    case inside: True
    show ?thesis
    proof (cases "charCodeAt (text s) (pos s) = Some ch_asterisk
                    \<and> charCodeAt (text s) (pos s + 1) = Some ch_slash")
      case True
      with inside "1.prems" show ?thesis by (subst (asm) skipMultiLineComment.simps) auto
    next
      case False
      define s1 where "s1 = (if isLineBreak (charCodeAt (text s) (pos s))
                  then s\<lparr>tokenFlags := tokenFlags s OR PrecedingLineBreak\<rparr> else s)
                 \<lparr>pos := pos s + 1\<rparr>"
      from False inside "1.prems" have run: "skipMultiLineComment s1 = (closed, s')"
        unfolding s1_def by (subst (asm) skipMultiLineComment.simps) (simp split: if_splits)
      from "1.IH" [OF inside False run [unfolded s1_def]]
      show ?thesis by (auto split: if_splits)
    qed
  qed
qed

lemma scanStep_Continue:
  assumes "scanStep s = Continue s'"
  shows "pos s < pos s' \<and> pos s < end s \<and> end s' = end s \<and> text s' = text s
           \<and> startPos s' = startPos s"
  using assms
  unfolding scanStep_def Let_def emit_def emitNumber_def scanPrefixedNumber_def
  by (auto simp: advanceWhile_gt split: if_splits prod.splits
        dest!: skipMultiLineComment_frame)

function scanLoop :: "'a Scanner_scheme \<Rightarrow> 'a Scanner_scheme" where
  "scanLoop s = (case scanStep s of Continue s' \<Rightarrow> scanLoop s' | Return s' \<Rightarrow> s')"
  by pat_completeness auto
termination
  by (relation "measure (\<lambda>s. end s - pos s)") (auto dest!: scanStep_Continue)

declare scanLoop.simps [simp del]

definition scan :: "'a Scanner_scheme \<Rightarrow> 'a Scanner_scheme" where
  "scan s = scanLoop (s\<lparr>startPos := pos s, tokenFlags := TokenFlags_None\<rparr>)"

section \<open>Results of calls\<close>

text \<open>
  A call of the source returns a value, throws, or does not come back. \<open>TypeError\<close> is
  what JavaScript throws when a property of \<open>undefined\<close> is read; \<open>AssertionFailed\<close>
  is the \<open>Error\<close> that \<open>assert\<close> of \<open>util.ts\<close> throws. The parser's loops can run
  for ever, so the parser is run with fuel, and \<open>OutOfFuel\<close> says that the fuel given
  was used up before the call came back.
\<close>

datatype exn = TypeError | AssertionFailed

datatype 'a outcome = Returns 'a | Throws exn | OutOfFuel

definition bind :: "('a \<times> 's) outcome \<Rightarrow> ('a \<Rightarrow> 's \<Rightarrow> 'b outcome) \<Rightarrow> 'b outcome" where
  "bind m f =
     (case m of Returns r \<Rightarrow> (case r of (x, s) \<Rightarrow> f x s) | Throws e \<Rightarrow> Throws e
      | OutOfFuel \<Rightarrow> OutOfFuel)"

lemma bind_Returns [simp]: "bind (Returns (x, s)) f = f x s"
  by (simp add: bind_def)

lemma bind_Throws [simp]: "bind (Throws e) f = Throws e"
  by (simp add: bind_def)

lemma bind_OutOfFuel [simp]: "bind OutOfFuel f = OutOfFuel"
  by (simp add: bind_def)

lemma bind_weak_cong: "m = m' \<Longrightarrow> bind m f = bind m' f"
  by simp

definition assert :: "bool \<Rightarrow> 's \<Rightarrow> (unit \<times> 's) outcome" where
  "assert expression s = (if expression then Returns ((), s) else Throws AssertionFailed)"

section \<open>Checkpoints of the scanner\<close>

text \<open>
  \<open>protectContextHelper\<close> of \<open>lexical.ts\<close>. The callback runs on the whole program state
  (the scanner's variables and whatever extends them); it yields the flag "keep the new
  state" together with the result that \<open>tryScan\<close>, \<open>lookAhead\<close> and \<open>scanRange\<close> hand
  back through their local variable \<open>result\<close>. When the callback throws, nothing is
  restored: the source has no \<open>finally\<close>.
\<close>

definition Scanner_protectContextHelper ::
  "('a Scanner_scheme \<Rightarrow> ((bool \<times> 'r) \<times> 'a Scanner_scheme) outcome) \<Rightarrow> 'a Scanner_scheme
     \<Rightarrow> ('r \<times> 'a Scanner_scheme) outcome" where
  "Scanner_protectContextHelper callback s =
     bind (callback s) (\<lambda>kr s'.
       Returns (snd kr,
         if fst kr then s'
         else s'\<lparr>end := end s, pos := pos s, startPos := startPos s, tokenPos := tokenPos s,
                token := token s, tokenValue := tokenValue s, tokenFlags := tokenFlags s\<rparr>))"

definition tryScan ::
  "('r \<Rightarrow> bool) \<Rightarrow> ('a Scanner_scheme \<Rightarrow> ('r \<times> 'a Scanner_scheme) outcome) \<Rightarrow> 'a Scanner_scheme
     \<Rightarrow> ('r \<times> 'a Scanner_scheme) outcome" where
  "tryScan isTruthy callback =
     Scanner_protectContextHelper
       (\<lambda>s. bind (callback s) (\<lambda>result s'. Returns ((isTruthy result, result), s')))"

definition Scanner_lookAhead ::
  "('a Scanner_scheme \<Rightarrow> ('r \<times> 'a Scanner_scheme) outcome) \<Rightarrow> 'a Scanner_scheme
     \<Rightarrow> ('r \<times> 'a Scanner_scheme) outcome" where
  "Scanner_lookAhead callback =
     Scanner_protectContextHelper
       (\<lambda>s. bind (callback s) (\<lambda>result s'. Returns ((False, result), s')))"

definition scanRange ::
  "nat \<Rightarrow> nat \<Rightarrow> ('a Scanner_scheme \<Rightarrow> ('r \<times> 'a Scanner_scheme) outcome) \<Rightarrow> 'a Scanner_scheme
     \<Rightarrow> ('r \<times> 'a Scanner_scheme) outcome" where
  "scanRange start len callback =
     Scanner_protectContextHelper
       (\<lambda>s. bind (callback (setTextRange start (Some len) s))
          (\<lambda>result s'. Returns ((False, result), s')))"

section \<open>Syntax-tree nodes\<close>

text \<open>
  A node is a JavaScript object: \<open>NodeInitializer\<close> gives it \<open>pos\<close>, \<open>end\<close>, \<open>kind\<close>,
  \<open>flags\<close> and \<open>parent\<close>, and the productions assign further properties. A
  \<open>NodeList\<close> is an array that carries \<open>pos\<close>, \<open>end\<close> and \<open>hasTrailingDelimiter\<close>.
  Two productions return \<open>undefined\<close> or the empty object \<open>{}\<close> in place of a node, so
  the model keeps JavaScript's values. The \<open>parent\<close> back-reference of a node stays
  \<open>undefined\<close> in the model: the one assignment to it (\<open>binding.parent = node\<close> in
  \<open>tryParseWalrusDeclaration\<close>) would make the tree cyclic.
\<close>

datatype jsval =
    Undefined
  | Bool bool
  | Num nat
  | Str jsstring
  | Object "(string \<times> jsval) list"
  | Array "jsval list" "(string \<times> jsval) list"

fun setProp :: "string \<Rightarrow> jsval \<Rightarrow> (string \<times> jsval) list \<Rightarrow> (string \<times> jsval) list" where
  "setProp name v [] = [(name, v)]"
| "setProp name v (p # ps) = (if fst p = name then (name, v) # ps else p # setProp name v ps)"

fun lookupProp :: "string \<Rightarrow> (string \<times> jsval) list \<Rightarrow> jsval" where
  "lookupProp name [] = Undefined"
| "lookupProp name (p # ps) = (if fst p = name then snd p else lookupProp name ps)"

text \<open>\<open>node.name = v\<close>. Every assignment of the parser is to a node it has just created
  or to a \<open>NodeList\<close>; on other values the model leaves the value as it is.\<close>

definition assign :: "string \<Rightarrow> jsval \<Rightarrow> jsval \<Rightarrow> jsval" where
  "assign name v node =
     (case node of Object ps \<Rightarrow> Object (setProp name v ps)
      | Array es ps \<Rightarrow> Array es (setProp name v ps)
      | _ \<Rightarrow> node)"

text \<open>\<open>node.name\<close>, read without a check; used on pure paths where the node is known to
  be an object.\<close>

definition field :: "string \<Rightarrow> jsval \<Rightarrow> jsval" where
  "field name node =
     (case node of Object ps \<Rightarrow> lookupProp name ps | Array es ps \<Rightarrow> lookupProp name ps
      | _ \<Rightarrow> Undefined)"

text \<open>\<open>node.name\<close> as JavaScript evaluates it: a \<open>TypeError\<close> on \<open>undefined\<close>.\<close>

definition readProp :: "string \<Rightarrow> jsval \<Rightarrow> 's \<Rightarrow> (jsval \<times> 's) outcome" where
  "readProp name node s = (if node = Undefined then Throws TypeError else Returns (field name node, s))"

definition elements :: "jsval \<Rightarrow> jsval list" where
  "elements v = (case v of Array es ps \<Rightarrow> es | _ \<Rightarrow> [])"

definition truthy :: "jsval \<Rightarrow> bool" where
  "truthy v =
     (case v of Undefined \<Rightarrow> False | Bool b \<Rightarrow> b | Num n \<Rightarrow> n \<noteq> 0 | Str t \<Rightarrow> t \<noteq> []
      | Object ps \<Rightarrow> True | Array es ps \<Rightarrow> True)"

definition optStr :: "jsstring option \<Rightarrow> jsval" where
  "optStr v = (case v of None \<Rightarrow> Undefined | Some t \<Rightarrow> Str t)"

section \<open>The parser (\<open>syntactic.ts\<close>, \<open>src/unnamed/part_003\<close>)\<close>

subsection \<open>State\<close>

text \<open>
  The parser's state is the scanner's variables and the variables of the namespace
  \<open>Parser\<close>: \<open>ptoken\<close> is the parser's own \<open>token\<close>, the mirror of the scanner's;
  \<open>fileName\<close> stands for \<open>sourceFile.fileName\<close>. \<open>parseErrors\<close> is what \<open>error\<close> has
  printed: each message with \<open>scanner.tokenPos\<close>.
\<close>

record Parser = Scanner +
  ptoken :: SyntaxKind
  sourceText :: jsstring
  fileName :: string
  nodeCount :: nat
  contextFlags :: nat
  parsingContext :: nat
  parseErrors :: "(string \<times> nat) list"

type_synonym 'a parse = "Parser \<Rightarrow> ('a \<times> Parser) outcome"

text \<open>\<open>ParsingContext\<close>.\<close>

abbreviation (input) SourceElements :: nat where "SourceElements \<equiv> 0"
abbreviation (input) BlockStatements :: nat where "BlockStatements \<equiv> 1"
abbreviation (input) SwitchClauses :: nat where "SwitchClauses \<equiv> 2"
abbreviation (input) SwitchClauseStatements :: nat where "SwitchClauseStatements \<equiv> 3"
abbreviation (input) VariableDeclarations :: nat where "VariableDeclarations \<equiv> 4"
abbreviation (input) ArgumentExpressions :: nat where "ArgumentExpressions \<equiv> 5"
abbreviation (input) ObjectLiteralMembers :: nat where "ObjectLiteralMembers \<equiv> 6"
abbreviation (input) ArrayLiteralMembers :: nat where "ArrayLiteralMembers \<equiv> 7"
abbreviation (input) Parameters :: nat where "Parameters \<equiv> 8"
abbreviation (input) NodeBlock_context :: nat where "NodeBlock_context \<equiv> 9"

text \<open>\<open>SyntaxKind[k]\<close>, the name of a member, for the messages.\<close>

definition SyntaxKind_names :: "string list" where
  "SyntaxKind_names =
  [''Unknown'', ''EndOfFileToken'', ''NumericLiteral'', ''StringLiteral'',
   ''OpenBraceToken'', ''CloseBraceToken'', ''OpenParenToken'', ''CloseParenToken'',
   ''OpenBracketToken'', ''CloseBracketToken'', ''DotToken'', ''DotDotDotToken'',
   ''SemicolonToken'', ''CommaToken'', ''QuestionDotToken'', ''ColonEqualsToken'',
   ''AtToken'', ''EqualsGreaterThanToken'', ''QuestionToken'', ''ColonToken'',
   ''PlusPlusToken'', ''MinusMinusToken'', ''LessThanToken'', ''GreaterThanToken'',
   ''LessThanEqualsToken'', ''GreaterThanEqualsToken'', ''EqualsEqualsToken'', ''ExclamationEqualsToken'',
   ''EqualsEqualsEqualsToken'', ''ExclamationEqualsEqualsToken'', ''MinusGreaterThanToken'', ''PlusToken'',
   ''MinusToken'', ''AsteriskToken'', ''AsteriskAsteriskToken'', ''SlashToken'',
   ''PercentToken'', ''LessThanLessThanToken'', ''GreaterThanGreaterThanToken'', ''GreaterThanGreaterThanGreaterThanToken'',
   ''AmpersandToken'', ''BarToken'', ''CaretToken'', ''ExclamationToken'',
   ''TildeToken'', ''AmpersandAmpersandToken'', ''BarBarToken'', ''QuestionQuestionToken'',
   ''EqualsToken'', ''PlusEqualsToken'', ''MinusEqualsToken'', ''AsteriskEqualsToken'',
   ''AsteriskAsteriskEqualsToken'', ''SlashEqualsToken'', ''PercentEqualsToken'', ''LessThanLessThanEqualsToken'',
   ''GreaterThanGreaterThanEqualsToken'', ''GreaterThanGreaterThanGreaterThanEqualsToken'', ''AmpersandEqualsToken'', ''BarEqualsToken'',
   ''CaretEqualsToken'', ''Identifier'', ''BreakKeyword'', ''CaseKeyword'',
   ''CatchKeyword'', ''ClassKeyword'', ''ConstKeyword'', ''ContinueKeyword'',
   ''DebuggerKeyword'', ''DefaultKeyword'', ''DeleteKeyword'', ''DoKeyword'',
   ''ElifKeyword'', ''ElseKeyword'', ''EnumKeyword'', ''ExportKeyword'',
   ''ExtendsKeyword'', ''FalseKeyword'', ''FinallyKeyword'', ''ForKeyword'',
   ''FunctionKeyword'', ''IfKeyword'', ''ImportKeyword'', ''InKeyword'',
   ''InstanceOfKeyword'', ''NewKeyword'', ''NullKeyword'', ''ReturnKeyword'',
   ''SuperKeyword'', ''SwitchKeyword'', ''ThisKeyword'', ''ThrowKeyword'',
   ''TrueKeyword'', ''TryKeyword'', ''TypeOfKeyword'', ''VarKeyword'',
   ''VoidKeyword'', ''WhileKeyword'', ''WithKeyword'', ''ImplementsKeyword'',
   ''InterfaceKeyword'', ''LetKeyword'', ''PackageKeyword'', ''PrivateKeyword'',
   ''ProtectedKeyword'', ''PublicKeyword'', ''StaticKeyword'', ''YieldKeyword'',
   ''FallThroughKeyword'', ''NodeKeyword'', ''SubnetKeyword'', ''UsingKeyword'',
   ''AbstractKeyword'', ''AsKeyword'', ''AssertsKeyword'', ''AnyKeyword'',
   ''AsyncKeyword'', ''AwaitKeyword'', ''BooleanKeyword'', ''ConstructorKeyword'',
   ''DeclareKeyword'', ''GetKeyword'', ''InferKeyword'', ''IsKeyword'',
   ''KeyOfKeyword'', ''ModuleKeyword'', ''NamespaceKeyword'', ''NeverKeyword'',
   ''ReadonlyKeyword'', ''RequireKeyword'', ''NumberKeyword'', ''ObjectKeyword'',
   ''SetKeyword'', ''StringKeyword'', ''SymbolKeyword'', ''TypeKeyword'',
   ''UndefinedKeyword'', ''UniqueKeyword'', ''UnknownKeyword'', ''FromKeyword'',
   ''GlobalKeyword'', ''BigIntKeyword'', ''OfKeyword'', ''StateKeyword'',
   ''Count'']"

definition SyntaxKind_name :: "SyntaxKind \<Rightarrow> string" where
  "SyntaxKind_name k = (if k < length SyntaxKind_names then SyntaxKind_names ! k else ''undefined'')"

subsection \<open>Tokens and nodes\<close>

definition ret :: "'a \<Rightarrow> 's \<Rightarrow> ('a \<times> 's) outcome" where
  "ret x s = Returns (x, s)"

definition Parser_error :: "string \<Rightarrow> unit parse" where
  "Parser_error msg s = Returns ((), s\<lparr>parseErrors := parseErrors s @ [(msg, tokenPos s)]\<rparr>)"

definition nextToken :: "SyntaxKind parse" where
  "nextToken s = (let s' = scan s in Returns (token s', s'\<lparr>ptoken := token s'\<rparr>))"

text \<open>\<open>createNode(kind, pos?)\<close>: \<open>pos! >= 0 ? pos! : scanner.startPos\<close>; the comparison is
  false for \<open>undefined\<close>.\<close>

definition createNode :: "SyntaxKind \<Rightarrow> jsval \<Rightarrow> jsval parse" where
  "createNode kind posArg s =
     (let p = (case posArg of Num n \<Rightarrow> n | _ \<Rightarrow> startPos s) in
      Returns (Object [(''pos'', Num p), (''end'', Num p), (''kind'', Num kind),
                       (''flags'', Num 0), (''parent'', Undefined)],
               s\<lparr>nodeCount := nodeCount s + 1\<rparr>))"

text \<open>\<open>finishNode(node)\<close>; no call of the parser passes \<open>end\<close>.\<close>

definition finishNode :: "jsval \<Rightarrow> jsval parse" where
  "finishNode node s =
     (let n1 = assign ''end'' (Num (startPos s)) node in
      Returns (if contextFlags s \<noteq> 0
               then assign ''flags''
                      (Num ((case field ''flags'' n1 of Num f \<Rightarrow> f | _ \<Rightarrow> 0) OR contextFlags s)) n1
               else n1, s))"

definition parseExpected :: "SyntaxKind \<Rightarrow> bool parse" where
  "parseExpected kind s =
     (if ptoken s = kind then bind (nextToken s) (\<lambda>_ s. Returns (True, s))
      else bind (Parser_error (''Unexpected '' @ SyntaxKind_name (ptoken s) @ '', expected ''
                                 @ SyntaxKind_name kind) s)
             (\<lambda>_ s. Returns (False, s)))"

definition parseOptional :: "SyntaxKind \<Rightarrow> bool parse" where
  "parseOptional kind s =
     (if ptoken s = kind then bind (nextToken s) (\<lambda>_ s. Returns (True, s))
      else Returns (False, s))"

definition parseTokenNode :: "jsval parse" where
  "parseTokenNode s =
     bind (createNode (ptoken s) Undefined s) (\<lambda>node s.
     bind (nextToken s) (\<lambda>_ s.
     finishNode node s))"

definition parseExpectedToken :: "SyntaxKind \<Rightarrow> jsval parse" where
  "parseExpectedToken t s =
     (if ptoken s = t then parseTokenNode s
      else bind (Parser_error (''Unexpected '' @ SyntaxKind_name t @ '', expected ''
                                 @ SyntaxKind_name t) s)
             (\<lambda>_ s. Returns (Undefined, s)))"

definition parseOptionalToken :: "SyntaxKind \<Rightarrow> jsval parse" where
  "parseOptionalToken t s = (if ptoken s = t then parseTokenNode s else Returns (Undefined, s))"

text \<open>\<open>createNodeList(elements, pos)\<close>; no call passes \<open>end\<close>.\<close>

definition createNodeList :: "jsval list \<Rightarrow> nat \<Rightarrow> jsval parse" where
  "createNodeList es p s = Returns (Array es [(''pos'', Num p), (''end'', Num (startPos s))], s)"

definition isListTerminator :: "nat \<Rightarrow> Parser \<Rightarrow> bool" where
  "isListTerminator kind s =
     (if ptoken s = EndOfFileToken then True
      else if kind = BlockStatements \<or> kind = SwitchClauses \<or> kind = ObjectLiteralMembers
              \<or> kind = NodeBlock_context then ptoken s = CloseBraceToken
      else if kind = SwitchClauseStatements then
        ptoken s = CloseBraceToken \<or> ptoken s = CaseKeyword \<or> ptoken s = DefaultKeyword
      else if kind = ArrayLiteralMembers then ptoken s = CloseBracketToken
      else if kind = Parameters \<or> kind = ArgumentExpressions then ptoken s = CloseParenToken
      else if kind = VariableDeclarations then
        ptoken s = SemicolonToken \<or> ptoken s = OpenBraceToken
      else False)"

definition parseIdentifier :: "jsval parse" where
  "parseIdentifier s =
     (if \<not> isIdentifier s then
        bind (Parser_error (''Identifier expected, but got '' @ SyntaxKind_name (ptoken s)) s)
          (\<lambda>_ s.
        bind (createNode Identifier Undefined s) (\<lambda>node s.
        finishNode (assign ''text'' (Str []) node) s))
      else
        bind (createNode Identifier Undefined s) (\<lambda>node s.
        bind (nextToken s) (\<lambda>_ s'.
        finishNode
          (if ptoken s \<noteq> Identifier
           then assign ''originalKeywordKind'' (Num (ptoken s))
                  (assign ''text'' (optStr (tokenValue s)) node)
           else assign ''text'' (optStr (tokenValue s)) node) s')))"

definition parseSemicolon :: "bool parse" where
  "parseSemicolon = parseExpected SemicolonToken"

definition isCurrentTokenVLC :: "Parser \<Rightarrow> bool" where
  "isCurrentTokenVLC s =
     (ptoken s = VarKeyword \<or> ptoken s = LetKeyword \<or> ptoken s = ConstKeyword)"

subsection \<open>Checkpoints of the parser\<close>

text \<open>\<open>protectContextHelper\<close> of the parser. \<open>isTruthy\<close> is JavaScript's truthiness on
  the type of the callback's result.\<close>

definition protectContextHelper ::
  "('r \<Rightarrow> bool) \<Rightarrow> 'r parse \<Rightarrow> bool \<Rightarrow> 'r parse" where
  "protectContextHelper isTruthy callback alwaysRestore s =
     bind ((if alwaysRestore then Scanner_lookAhead callback else tryScan isTruthy callback) s)
       (\<lambda>result s'.
     bind (assert (contextFlags s = contextFlags s') s') (\<lambda>_ s'.
     Returns (result,
       if \<not> isTruthy result \<or> alwaysRestore then s'\<lparr>ptoken := ptoken s\<rparr> else s')))"

definition lookAhead :: "('r \<Rightarrow> bool) \<Rightarrow> 'r parse \<Rightarrow> 'r parse" where
  "lookAhead isTruthy callback = protectContextHelper isTruthy callback True"

definition tryParse :: "('r \<Rightarrow> bool) \<Rightarrow> 'r parse \<Rightarrow> 'r parse" where
  "tryParse isTruthy callback = protectContextHelper isTruthy callback False"

subsection \<open>Recursion\<close>

text \<open>
  The productions are mutually recursive and their loops need not end (a production
  that consumes no token is called again on the same token), so the parser has no
  termination order. Each production below is a plain definition over a table \<open>r\<close> of
  the productions and loops it can reach in a cycle; \<open>knot\<close> ties the table to a fuel:
  with fuel \<open>0\<close> every entry is \<open>OutOfFuel\<close>, with fuel \<open>n + 1\<close> an entry is the
  production over the table for fuel \<open>n\<close>. A result other than \<open>OutOfFuel\<close> is the
  result of the source.

  \<open>reScan\<close> is \<open>scanner.reScanGreaterToken\<close>. The parser calls it, and the scanner
  under \<open>src/src/lexical.ts\<close> does not define it; it is a parameter of the model.
\<close>

record rec =
  reScan :: "Parser \<Rightarrow> SyntaxKind \<times> Parser"
  r_parseStatement :: "jsval parse"
  r_parseExpression :: "jsval parse"
  r_parseConnectExp :: "jsval parse"
  r_parseAssignExp :: "jsval parse"
  r_parseBinaryExp :: "int \<Rightarrow> jsval parse"
  r_parseUnaryExp :: "jsval parse"
  r_parseMemberExp :: "jsval parse"
  r_parseListLoop :: "nat \<Rightarrow> jsval parse \<Rightarrow> jsval list \<Rightarrow> (jsval list) parse"
  r_parseDelimitedListLoop ::
    "nat \<Rightarrow> jsval parse \<Rightarrow> jsval list \<Rightarrow> bool \<Rightarrow> (jsval list \<times> bool) parse"
  r_parseExpressionRest :: "jsval \<Rightarrow> jsval parse"
  r_parseConnectExpRest :: "jsval \<Rightarrow> jsval parse"
  r_parseBinaryExpRest :: "int \<Rightarrow> jsval \<Rightarrow> jsval parse"
  r_parseMemberExpRest :: "jsval \<Rightarrow> jsval parse"
  r_parseCallExpRest :: "jsval \<Rightarrow> jsval parse"
  r_parenLoop :: "nat \<Rightarrow> bool parse"
  r_angleBracketLoop :: "nat \<Rightarrow> bool parse"
  r_nodeParenLoop :: "nat \<Rightarrow> bool parse"
  r_isDeclaration :: "bool parse"
  r_parseDecoratorsLoop :: "jsval list \<Rightarrow> (jsval list) parse"
  r_parseModifiersLoop :: "jsval list \<Rightarrow> (jsval list) parse"
  r_parseTypeParametersLoop :: "jsval list \<Rightarrow> (jsval list option) parse"
  r_parseTypeArgumentListLoop :: "SyntaxKind \<Rightarrow> jsval list \<Rightarrow> (jsval list option) parse"
  r_elifLoop :: "jsval list \<Rightarrow> (jsval list) parse"
  r_usingLoop :: "jsval list \<Rightarrow> (jsval list) parse"

subsection \<open>Lists\<close>

definition parseListLoop :: "rec \<Rightarrow> nat \<Rightarrow> jsval parse \<Rightarrow> jsval list \<Rightarrow> (jsval list) parse" where
  "parseListLoop r kind parseElement list s =
     (if isListTerminator kind s then Returns (list, s)
      else bind (parseElement s) (\<lambda>element s.
           r_parseListLoop r kind parseElement (list @ [element]) s))"

definition parseList :: "rec \<Rightarrow> nat \<Rightarrow> jsval parse \<Rightarrow> jsval parse" where
  "parseList r kind parseElement s =
     bind (parseListLoop r kind parseElement []
             (s\<lparr>parsingContext := parsingContext s OR 2 ^ kind\<rparr>)) (\<lambda>list s'.
     createNodeList list (startPos s) (s'\<lparr>parsingContext := parsingContext s\<rparr>))"

text \<open>The loop of \<open>parseDelimitedList\<close>; \<open>trailing\<close> is \<open>commaStart >= 0\<close>.\<close>

definition parseDelimitedListLoop ::
  "rec \<Rightarrow> nat \<Rightarrow> jsval parse \<Rightarrow> jsval list \<Rightarrow> bool \<Rightarrow> (jsval list \<times> bool) parse" where
  "parseDelimitedListLoop r kind parseElement list trailing s =
     (if isListTerminator kind s then Returns ((list, trailing), s)
      else bind (parseElement s) (\<lambda>element s.
           bind (parseOptional CommaToken s) (\<lambda>comma s.
             if comma then r_parseDelimitedListLoop r kind parseElement (list @ [element]) True s
             else if isListTerminator kind s then Returns ((list @ [element], False), s)
             else bind (Parser_error ''Comma expected.'' s) (\<lambda>_ s.
                  r_parseDelimitedListLoop r kind parseElement (list @ [element]) False s))))"

definition parseDelimitedList :: "rec \<Rightarrow> nat \<Rightarrow> jsval parse \<Rightarrow> jsval parse" where
  "parseDelimitedList r kind parseElement s =
     bind (parseDelimitedListLoop r kind parseElement [] False
             (s\<lparr>parsingContext := parsingContext s OR 2 ^ kind\<rparr>)) (\<lambda>lt s'.
     bind (createNodeList (fst lt) (startPos s) (s'\<lparr>parsingContext := parsingContext s\<rparr>))
       (\<lambda>result s'.
     Returns (if snd lt then assign ''hasTrailingDelimiter'' (Bool True) result else result, s')))"

subsection \<open>Types\<close>

definition canBeType :: "SyntaxKind \<Rightarrow> bool" where
  "canBeType t =
     (t = AnyKeyword \<or> t = UnknownKeyword \<or> t = NumberKeyword \<or> t = BigIntKeyword
      \<or> t = ObjectKeyword \<or> t = BooleanKeyword \<or> t = StringKeyword \<or> t = SymbolKeyword
      \<or> t = ThisKeyword \<or> t = VoidKeyword \<or> t = UndefinedKeyword \<or> t = NullKeyword
      \<or> t = NeverKeyword)"

definition parseType :: "jsval parse" where
  "parseType s =
     (if \<not> canBeType (ptoken s) then
        bind (Parser_error ''Type literal expected.'' s) (\<lambda>_ s.
        bind (createNode UnknownKeyword Undefined s) (\<lambda>node s.
        finishNode node s))
      else
        bind (createNode (ptoken s) Undefined s) (\<lambda>node s.
        bind (nextToken s) (\<lambda>_ s.
        finishNode node s)))"

text \<open>The loop of \<open>parseTypeArgumentList\<close>; \<open>None\<close> is its \<open>return undefined\<close>.\<close>

definition parseTypeArgumentListLoop ::
  "rec \<Rightarrow> SyntaxKind \<Rightarrow> jsval list \<Rightarrow> (jsval list option) parse" where
  "parseTypeArgumentListLoop r listTerminator list s =
     (if ptoken s = listTerminator then Returns (Some list, s)
      else if \<not> canBeType (ptoken s) then Returns (None, s)
      else bind (parseType s) (\<lambda>ty s.
           bind (parseOptional CommaToken s) (\<lambda>comma s.
             if comma then r_parseTypeArgumentListLoop r listTerminator (list @ [ty]) s
             else Returns (Some (list @ [ty]), s))))"

definition parseTypeArgumentList :: "rec \<Rightarrow> bool \<Rightarrow> jsval parse" where
  "parseTypeArgumentList r listTerminatorIsSemicolon s =
     bind (parseTypeArgumentListLoop r
             (if listTerminatorIsSemicolon then SemicolonToken else GreaterThanToken) [] s)
       (\<lambda>res s'.
     case res of None \<Rightarrow> Returns (Undefined, s')
     | Some list \<Rightarrow> createNodeList list (startPos s) s')"

text \<open>The loop of \<open>parseTypeParameters\<close>; \<open>None\<close> is its \<open>return undefined\<close>.\<close>

definition parseTypeParametersLoop :: "rec \<Rightarrow> jsval list \<Rightarrow> (jsval list option) parse" where
  "parseTypeParametersLoop r list s =
     (if ptoken s = GreaterThanToken then Returns (Some list, s)
      else
        bind (createNode TypeParameter Undefined s) (\<lambda>node s.
        if \<not> isIdentifier s then Returns (None, s)
        else
          bind (parseIdentifier s) (\<lambda>name s.
          bind (if ptoken s = ExtendsKeyword then
                  bind (nextToken s) (\<lambda>_ s.
                  if \<not> canBeType (ptoken s) then Returns (None, s)
                  else bind (parseType s) (\<lambda>ty s.
                       Returns (Some (assign ''constraint'' ty (assign ''name'' name node)), s)))
                else Returns (Some (assign ''name'' name node), s)) (\<lambda>node' s.
          case node' of None \<Rightarrow> Returns (None, s)
          | Some node \<Rightarrow>
              bind (finishNode node s) (\<lambda>node s.
              bind (parseOptional CommaToken s) (\<lambda>comma s.
                if comma then r_parseTypeParametersLoop r (list @ [node]) s
                else Returns (Some (list @ [node]), s)))))))"

definition parseTypeParameters :: "rec \<Rightarrow> jsval parse" where
  "parseTypeParameters r s =
     bind (parseOptional LessThanToken s) (\<lambda>lt s.
     if \<not> lt then Returns (Undefined, s)
     else
       bind (parseTypeParametersLoop r [] s) (\<lambda>res s'.
       case res of None \<Rightarrow> Returns (Undefined, s')
       | Some list \<Rightarrow>
           bind (parseOptional GreaterThanToken s') (\<lambda>gt s'.
           if \<not> gt then Returns (Undefined, s')
           else createNodeList list (startPos s) s')))"

definition parseTypeArgumentsInExpression :: "rec \<Rightarrow> jsval parse" where
  "parseTypeArgumentsInExpression r s =
     bind (parseOptional LessThanToken s) (\<lambda>lt s.
     if \<not> lt then Returns (Undefined, s)
     else
       bind (parseTypeArgumentList r False s) (\<lambda>typeArguments s.
       if \<not> truthy typeArguments then Returns (Undefined, s)
       else
         bind (parseOptional GreaterThanToken s) (\<lambda>gt s.
         if \<not> gt then Returns (Undefined, s)
         else if ptoken s \<noteq> OpenParenToken then Returns (Undefined, s)
         else Returns (typeArguments, s))))"

subsection \<open>Call signatures, blocks and variable declarations\<close>

definition parseParameter :: "rec \<Rightarrow> jsval parse" where
  "parseParameter r s =
     bind (createNode Parameter Undefined s) (\<lambda>node s.
     bind (if ptoken s = ThisKeyword then
             bind (createNode Identifier Undefined s) (\<lambda>idThis s.
             bind (nextToken s) (\<lambda>_ s'.
             finishNode (assign ''originalKeywordKind'' (Num (ptoken s))
                          (assign ''text'' (optStr (tokenValue s)) idThis)) s'))
           else parseIdentifier s) (\<lambda>name s.
     bind (parseOptionalToken QuestionToken s) (\<lambda>questionToken s.
     bind (parseOptional ColonToken s) (\<lambda>colon s.
     bind (if colon then bind (parseType s) (\<lambda>ty s.
             Returns (assign ''type'' ty
                        (assign ''questionToken'' questionToken (assign ''name'' name node)), s))
           else Returns (assign ''questionToken'' questionToken (assign ''name'' name node), s))
       (\<lambda>node s.
     bind (parseOptional EqualsToken s) (\<lambda>eq s.
     if eq then bind (r_parseConnectExp r s) (\<lambda>initializer s.
                finishNode (assign ''initializer'' initializer node) s)
     else finishNode node s))))))"

text \<open>\<open>addCallSignature(node)\<close> assigns to the node it is given; the model returns the
  node.\<close>

definition addCallSignature :: "rec \<Rightarrow> jsval \<Rightarrow> jsval parse" where
  "addCallSignature r node s =
     bind (if ptoken s = LessThanToken then
             bind (parseTypeParameters r s) (\<lambda>tps s.
             Returns (assign ''typeParameters'' tps node, s))
           else Returns (node, s)) (\<lambda>node s.
     bind (parseExpected OpenParenToken s) (\<lambda>_ s.
     bind (parseDelimitedList r Parameters (parseParameter r) s) (\<lambda>parameters s.
     bind (parseExpected CloseParenToken s) (\<lambda>_ s.
     bind (parseOptional ColonToken s) (\<lambda>colon s.
     if colon then bind (parseType s) (\<lambda>ty s.
                   Returns (assign ''type'' ty (assign ''parameters'' parameters node), s))
     else Returns (assign ''parameters'' parameters node, s))))))"

definition parseBlock :: "rec \<Rightarrow> jsval parse" where
  "parseBlock r s =
     bind (createNode Block Undefined s) (\<lambda>node s.
     bind (parseExpected OpenBraceToken s) (\<lambda>_ s.
     bind (parseList r BlockStatements (r_parseStatement r) s) (\<lambda>statements s.
     bind (parseExpected CloseBraceToken s) (\<lambda>_ s.
     finishNode (assign ''statements'' statements node) s))))"

definition parseVariableBinding :: "rec \<Rightarrow> jsval parse" where
  "parseVariableBinding r s =
     bind (createNode VariableBinding Undefined s) (\<lambda>node s.
     bind (parseIdentifier s) (\<lambda>name s.
     bind (parseOptional EqualsToken s) (\<lambda>eq s.
     if eq then bind (r_parseConnectExp r s) (\<lambda>initializer s.
                finishNode (assign ''initializer'' initializer (assign ''name'' name node)) s)
     else finishNode (assign ''name'' name node) s)))"

text \<open>\<open>parseVariableDeclarationWithoutModifiers(opts)\<close>: \<open>nodeArg\<close> is \<open>opts.node\<close>,
  \<open>Undefined\<close> when absent.\<close>

definition parseVariableDeclarationWithoutModifiers :: "rec \<Rightarrow> bool \<Rightarrow> jsval \<Rightarrow> jsval parse" where
  "parseVariableDeclarationWithoutModifiers r notParseSemicolon nodeArg s =
     bind (if truthy nodeArg then Returns (nodeArg, s)
           else createNode VariableDeclaration Undefined s) (\<lambda>node s.
     bind (if \<not> isCurrentTokenVLC s then
             bind (Parser_error ''var/let/const expected.'' s) (\<lambda>_ s.
             Returns (assign ''vlc'' (Num LetKeyword) node, s))
           else bind (nextToken s) (\<lambda>_ s'.
                Returns (assign ''vlc'' (Num (ptoken s)) node, s'))) (\<lambda>node s.
     bind (parseDelimitedList r VariableDeclarations (parseVariableBinding r) s)
       (\<lambda>declarations s.
     bind (if \<not> notParseSemicolon then parseExpected SemicolonToken s else Returns (False, s))
       (\<lambda>_ s.
     finishNode (assign ''declarations'' declarations (assign ''isWalrus'' (Bool False) node)) s))))"

text \<open>\<open>tryParseWalrusDeclaration\<close>: the result is \<open>false\<close> or the declaration.\<close>

definition tryParseWalrusDeclaration :: "rec \<Rightarrow> bool \<Rightarrow> jsval parse" where
  "tryParseWalrusDeclaration r notParseSemicolon s =
     (if \<not> isIdentifier s then Returns (Bool False, s)
      else
        bind (lookAhead id
                (\<lambda>s. bind (nextToken s) (\<lambda>_ s. Returns (ptoken s \<noteq> ColonEqualsToken, s))) s)
          (\<lambda>notWalrus s.
        if notWalrus then Returns (Bool False, s)
        else
          bind (createNode VariableDeclaration Undefined s) (\<lambda>node s0.
          bind (createNode VariableBinding Undefined s0) (\<lambda>binding s.
          bind (parseIdentifier s) (\<lambda>name s.
          bind (parseExpected ColonEqualsToken s) (\<lambda>_ s.
          bind (r_parseConnectExp r s) (\<lambda>initializer s.
          bind (finishNode (assign ''initializer'' initializer (assign ''name'' name binding)) s)
            (\<lambda>binding s.
          bind (createNodeList [binding] (startPos s0) s) (\<lambda>declarations s.
          bind (if \<not> notParseSemicolon then parseSemicolon s else Returns (False, s)) (\<lambda>_ s.
          finishNode (assign ''declarations'' declarations
                        (assign ''isWalrus'' (Bool True) node)) s))))))))))"

subsection \<open>Functions and node blocks\<close>

definition parseFunctionWithoutModifiers :: "rec \<Rightarrow> jsval \<Rightarrow> jsval parse" where
  "parseFunctionWithoutModifiers r node s =
     bind (parseExpected FunctionKeyword s) (\<lambda>_ s.
     bind (parseOptionalToken AsteriskToken s) (\<lambda>asteriskToken s.
     bind (if isIdentifier s then
             bind (parseIdentifier s) (\<lambda>name s.
             Returns (assign ''name'' name (assign ''asteriskToken'' asteriskToken node), s))
           else Returns (assign ''asteriskToken'' asteriskToken node, s)) (\<lambda>node s.
     bind (addCallSignature r node s) (\<lambda>node s.
     if ptoken s = SemicolonToken then bind (nextToken s) (\<lambda>_ s. finishNode node s)
     else if ptoken s = OpenBraceToken then
       bind (parseBlock r s) (\<lambda>body s. finishNode (assign ''body'' body node) s)
     else bind (Parser_error ''; or block expected.'' s) (\<lambda>_ s. finishNode node s)))))"

definition parseFunctionExpressionWithoutModifiers :: "rec \<Rightarrow> jsval \<Rightarrow> jsval parse" where
  "parseFunctionExpressionWithoutModifiers r nodeArg s =
     bind (if truthy nodeArg then Returns (nodeArg, s)
           else createNode FunctionExpression Undefined s) (\<lambda>node s.
     bind (parseFunctionWithoutModifiers r node s) (\<lambda>fn s.
     if \<not> truthy (field ''body'' fn) then
       bind (Parser_error ''Function expression must have body block.'' s) (\<lambda>_ s.
       Returns (fn, s))
     else Returns (fn, s)))"

text \<open>The loop of \<open>isStartOfNode_Worker\<close> over a parenthesised parameter list; the result
  is \<open>False\<close> when the end of the file comes first.\<close>

definition nodeParenLoop :: "rec \<Rightarrow> nat \<Rightarrow> bool parse" where
  "nodeParenLoop r paren s =
     bind (nextToken s) (\<lambda>t s.
     if t = EndOfFileToken then Returns (False, s)
     else if (if t = OpenParenToken then paren + 1
              else if t = CloseParenToken then paren - 1 else paren) = 0
     then Returns (True, s)
     else r_nodeParenLoop r
            (if t = OpenParenToken then paren + 1
             else if t = CloseParenToken then paren - 1 else paren) s)"

definition isStartOfNode_Worker :: "rec \<Rightarrow> bool parse" where
  "isStartOfNode_Worker r s =
     (if ptoken s \<noteq> NodeKeyword \<and> ptoken s \<noteq> SubnetKeyword then Returns (False, s)
      else
        bind (nextToken s) (\<lambda>_ s.
        if isIdentifier s \<or> ptoken s = OpenBraceToken then Returns (True, s)
        else if ptoken s = OpenParenToken then
          bind (nodeParenLoop r 1 s) (\<lambda>closed s.
          if \<not> closed then Returns (False, s)
          else bind (nextToken s) (\<lambda>t s. Returns (t = OpenBraceToken, s)))
        else Returns (False, s)))"

definition isStartOfNode :: "rec \<Rightarrow> bool parse" where
  "isStartOfNode r = lookAhead id (isStartOfNode_Worker r)"

definition parseNodeStatement :: "rec \<Rightarrow> jsval parse" where
  "parseNodeStatement r s =
     bind (if ptoken s = StateKeyword then
             lookAhead id (\<lambda>s. bind (nextToken s) (\<lambda>t s. Returns (t = ColonToken, s))) s
           else Returns (False, s)) (\<lambda>isState s.
     if isState then
       bind (createNode NodeStateDeclaration Undefined s) (\<lambda>node s.
       bind (nextToken s) (\<lambda>_ s.
       bind (nextToken s) (\<lambda>_ s.
       bind (r_parseAssignExp r s) (\<lambda>expression s.
       bind (parseSemicolon s) (\<lambda>_ s.
       finishNode (assign ''expression'' expression
                     (assign ''kind'' (Num NodeStateDeclaration) node)) s)))))
     else
       bind (if ptoken s = Identifier then
               (case tokenValue s of
                  None \<Rightarrow> Throws TypeError
                | Some name \<Rightarrow>
                    if name = utf16 ''$$'' \<or> take 1 name = utf16 ''$'' then
                      bind (lookAhead id
                              (\<lambda>s. bind (nextToken s) (\<lambda>t s. Returns (t = ColonToken, s))) s)
                        (\<lambda>colon s.
                      Returns (if colon then (if name = utf16 ''$$'' then 1 else 2) else 0, s))
                    else Returns (0, s))
             else Returns (0::nat, s)) (\<lambda>whichKind s.
       if whichKind = 0 then r_parseStatement r s
       else if whichKind = 1 then
         bind (createNode NodeAllPortTypeDeclaration Undefined s) (\<lambda>node s.
         bind (nextToken s) (\<lambda>_ s.
         bind (nextToken s) (\<lambda>_ s.
         bind (parseTypeArgumentList r True s) (\<lambda>types s.
         bind (if \<not> truthy types then Parser_error ''Expected list of type argument.'' s
               else Returns ((), s)) (\<lambda>_ s.
         bind (parseSemicolon s) (\<lambda>_ s.
         finishNode (assign ''types'' types node) s))))))
       else
         bind (createNode NodePortTypeDeclaration Undefined s) (\<lambda>node s.
         bind (parseIdentifier s) (\<lambda>portName s.
         bind (nextToken s) (\<lambda>_ s.
         bind (parseType s) (\<lambda>ty s.
         bind (parseSemicolon s) (\<lambda>_ s.
         finishNode (assign ''type'' ty (assign ''portName'' portName node)) s)))))))"

definition parseNode_WithoutModifiers :: "rec \<Rightarrow> jsval \<Rightarrow> jsval parse" where
  "parseNode_WithoutModifiers r node s =
     (if ptoken s \<noteq> NodeKeyword \<and> ptoken s \<noteq> SubnetKeyword then
        bind (Parser_error ''node or subnet expected.'' s) (\<lambda>_ s. finishNode node s)
      else
        bind (nextToken s) (\<lambda>_ s'.
        bind (if isIdentifier s' then
                bind (parseIdentifier s') (\<lambda>name s'.
                Returns (assign ''name'' name
                           (assign ''isSubnet'' (Bool (ptoken s = SubnetKeyword)) node), s'))
              else Returns (assign ''isSubnet'' (Bool (ptoken s = SubnetKeyword)) node, s'))
          (\<lambda>node s.
        bind (parseOptional OpenParenToken s) (\<lambda>paren s.
        bind (if paren then
                bind (parseDelimitedList r Parameters (parseParameter r) s) (\<lambda>parameters s.
                bind (parseExpected CloseParenToken s) (\<lambda>_ s.
                Returns (assign ''parameters'' parameters node, s)))
              else Returns (node, s)) (\<lambda>node s.
        bind (createNode NodeBlock Undefined s) (\<lambda>nodeBlock s.
        bind (parseExpected OpenBraceToken s) (\<lambda>_ s.
        bind (parseList r NodeBlock_context (parseNodeStatement r) s) (\<lambda>statements s.
        bind (parseExpected CloseBraceToken s) (\<lambda>_ s.
        bind (finishNode (assign ''statements'' statements nodeBlock) s) (\<lambda>nodeBlock s.
        finishNode (assign ''nodeBlock'' nodeBlock node) s))))))))))"

definition parseNodeExpressionWithoutModifiers :: "rec \<Rightarrow> jsval \<Rightarrow> jsval parse" where
  "parseNodeExpressionWithoutModifiers r nodeArg s =
     bind (if truthy nodeArg then Returns (nodeArg, s)
           else createNode NodeExpression Undefined s) (\<lambda>node s.
     parseNode_WithoutModifiers r node s)"

subsection \<open>Expressions\<close>

text \<open>\<open>isLeftHandExp(node)\<close> reads \<open>node.kind\<close>.\<close>

definition isLeftHandExp :: "jsval \<Rightarrow> bool parse" where
  "isLeftHandExp node s =
     bind (readProp ''kind'' node s) (\<lambda>k s.
     Returns ((case k of
                 Num n \<Rightarrow>
                   n = PropertyAccessExpression \<or> n = ElementAccessExpression
                   \<or> n = NewExpression \<or> n = NewTargetExpression \<or> n = CallExpression
                   \<or> n = TaggedTemplateExpression \<or> n = ArrayLiteralExpression
                   \<or> n = ParenthesizedExpression \<or> n = ObjectLiteralExpression
                   \<or> n = ClassExpression \<or> n = FunctionExpression \<or> n = NodeExpression
                   \<or> n = Identifier \<or> n = NumericLiteral \<or> n = StringLiteral
                   \<or> n = FalseKeyword \<or> n = NullKeyword \<or> n = ThisKeyword
                   \<or> n = TrueKeyword \<or> n = SuperKeyword \<or> n = ImportKeyword
               | _ \<Rightarrow> False), s))"

text \<open>\<open>isAssignOp(t)\<close> ignores its argument and tests the parser's \<open>token\<close>.\<close>

definition isAssignOp :: "SyntaxKind \<Rightarrow> Parser \<Rightarrow> bool" where
  "isAssignOp t s = (ptoken s \<ge> FirstAssignment \<and> ptoken s \<le> LastAssignment)"

definition reScanGreaterToken :: "rec \<Rightarrow> SyntaxKind parse" where
  "reScanGreaterToken r s = (case reScan r s of (k, s') \<Rightarrow> Returns (k, s'\<lparr>ptoken := k\<rparr>))"

definition getBinaryOperatorPrecedence :: "SyntaxKind \<Rightarrow> int" where
  "getBinaryOperatorPrecedence kind =
     (if kind = QuestionQuestionToken then 4
      else if kind = BarBarToken then 5
      else if kind = AmpersandAmpersandToken then 6
      else if kind = BarToken then 7
      else if kind = CaretToken then 8
      else if kind = AmpersandToken then 9
      else if kind = EqualsEqualsToken \<or> kind = ExclamationEqualsToken
              \<or> kind = EqualsEqualsEqualsToken \<or> kind = ExclamationEqualsEqualsToken then 10
      else if kind = LessThanToken \<or> kind = GreaterThanToken \<or> kind = LessThanEqualsToken
              \<or> kind = GreaterThanEqualsToken \<or> kind = InstanceOfKeyword \<or> kind = InKeyword
              \<or> kind = AsKeyword then 11
      else if kind = LessThanLessThanToken \<or> kind = GreaterThanGreaterThanToken
              \<or> kind = GreaterThanGreaterThanGreaterThanToken then 12
      else if kind = PlusToken \<or> kind = MinusToken then 13
      else if kind = AsteriskToken \<or> kind = SlashToken \<or> kind = PercentToken then 14
      else if kind = AsteriskAsteriskToken then 15
      else - 1)"

definition makeAssignmentExpression :: "jsval \<Rightarrow> jsval \<Rightarrow> jsval \<Rightarrow> jsval parse" where
  "makeAssignmentExpression left operatorToken right s =
     bind (createNode AssignmentExpression Undefined s) (\<lambda>node s.
     finishNode (assign ''right'' right (assign ''operatorToken'' operatorToken
                   (assign ''left'' left node))) s)"

definition makeAsExpression :: "jsval \<Rightarrow> jsval \<Rightarrow> jsval \<Rightarrow> jsval parse" where
  "makeAsExpression left operatorToken right s =
     bind (readProp ''pos'' left s) (\<lambda>p s.
     bind (createNode AsExpression p s) (\<lambda>node s.
     finishNode (assign ''right'' right (assign ''operatorToken'' operatorToken
                   (assign ''left'' left node))) s))"

definition makeBinaryExpression :: "jsval \<Rightarrow> jsval \<Rightarrow> jsval \<Rightarrow> jsval parse" where
  "makeBinaryExpression left operatorToken right s =
     bind (readProp ''pos'' left s) (\<lambda>p s.
     bind (createNode BinaryExpression p s) (\<lambda>node s.
     finishNode (assign ''right'' right (assign ''operatorToken'' operatorToken
                   (assign ''left'' left node))) s))"

definition parseClassExpression :: "jsval parse" where
  "parseClassExpression s = Returns (Undefined, s)"

definition parseArgument :: "rec \<Rightarrow> jsval parse" where
  "parseArgument r s =
     (if ptoken s = DotDotDotToken then
        bind (createNode SpreadExpression Undefined s) (\<lambda>node s.
        bind (nextToken s) (\<lambda>_ s.
        bind (r_parseConnectExp r s) (\<lambda>expression s.
        finishNode (assign ''expression'' expression node) s)))
      else r_parseConnectExp r s)"

definition parseArguments :: "rec \<Rightarrow> jsval parse" where
  "parseArguments r s =
     bind (createNode Arguments Undefined s) (\<lambda>node s.
     bind (parseExpected OpenParenToken s) (\<lambda>_ s.
     bind (parseDelimitedList r ArgumentExpressions (parseArgument r) s) (\<lambda>list s.
     bind (parseExpected CloseParenToken s) (\<lambda>_ s.
     finishNode (assign ''list'' list node) s))))"

definition parseParenthesizedExpression :: "rec \<Rightarrow> jsval parse" where
  "parseParenthesizedExpression r s =
     bind (createNode ParenthesizedExpression Undefined s) (\<lambda>node s.
     bind (parseExpected OpenParenToken s) (\<lambda>_ s.
     bind (r_parseExpression r s) (\<lambda>expression s.
     bind (parseExpected CloseParenToken s) (\<lambda>_ s.
     finishNode (assign ''expression'' expression node) s))))"

definition parseArrayElement :: "rec \<Rightarrow> jsval parse" where
  "parseArrayElement r s =
     (if ptoken s = DotDotDotToken then
        bind (createNode SpreadExpression Undefined s) (\<lambda>node s.
        bind (nextToken s) (\<lambda>_ s.
        bind (r_parseConnectExp r s) (\<lambda>expression s.
        finishNode (assign ''expression'' expression node) s)))
      else if ptoken s \<noteq> CommaToken then r_parseConnectExp r s
      else createNode OmittedExpression Undefined s)"

definition parseArrayLiteralExpression :: "rec \<Rightarrow> jsval parse" where
  "parseArrayLiteralExpression r s =
     bind (createNode ArrayLiteralExpression Undefined s) (\<lambda>node s.
     bind (parseExpected OpenBracketToken s) (\<lambda>_ s.
     bind (parseDelimitedList r ArrayLiteralMembers (parseArrayElement r) s) (\<lambda>elems s.
     bind (parseExpected CloseBracketToken s) (\<lambda>_ s.
     finishNode (assign ''elements'' elems node) s))))"

text \<open>A literal token as a node: \<open>text\<close> is the raw text of the token, and a numeric
  literal keeps the token's flags.\<close>

definition parseLiteralNode :: "jsval parse" where
  "parseLiteralNode s =
     bind (createNode (ptoken s) Undefined s) (\<lambda>node s.
     bind (nextToken s) (\<lambda>_ s'.
     finishNode
       (if ptoken s = NumericLiteral
        then assign ''numericLiteralFlags'' (Num (tokenFlags s))
               (assign ''text'' (Str (tokenText s)) node)
        else assign ''text'' (Str (tokenText s)) node) s'))"

definition parseObjectDefinition :: "rec \<Rightarrow> jsval parse" where
  "parseObjectDefinition r s =
     bind (createNode Unknown Undefined s) (\<lambda>node s.
     bind (parseOptional DotDotDotToken s) (\<lambda>spread s.
     if spread then
       bind (r_parseConnectExp r s) (\<lambda>expression s.
       finishNode (assign ''expression'' expression
                     (assign ''kind'' (Num SpreadExpression) node)) s)
     else
       bind (if ptoken s = Identifier then
               lookAhead id (\<lambda>s. bind (nextToken s) (\<lambda>t s. Returns (t \<noteq> ColonToken, s))) s
             else Returns (False, s)) (\<lambda>shorthand s.
       if shorthand then
         bind (parseIdentifier s) (\<lambda>name s.
         finishNode (assign ''name'' name
                       (assign ''kind'' (Num ShorthandPropertyAssignment) node)) s)
       else
         bind (if ptoken s = OpenBracketToken then
                 bind (createNode ComputedPropertyName Undefined s) (\<lambda>computedPropertyName s.
                 bind (nextToken s) (\<lambda>_ s.
                 bind (r_parseConnectExp r s) (\<lambda>expression s.
                 bind (parseExpected CloseBracketToken s) (\<lambda>_ s.
                 bind (finishNode (assign ''expression'' expression computedPropertyName) s)
                   (\<lambda>name s.
                 Returns (assign ''name'' name
                            (assign ''kind'' (Num PropertyAssignment) node), s))))))
               else if isIdentifier s then
                 bind (parseIdentifier s) (\<lambda>name s.
                 Returns (assign ''name'' name
                            (assign ''kind'' (Num PropertyAssignment) node), s))
               else if ptoken s = StringLiteral \<or> ptoken s = NumericLiteral then
                 bind (parseLiteralNode s) (\<lambda>name s.
                 Returns (assign ''name'' name
                            (assign ''kind'' (Num PropertyAssignment) node), s))
               else
                 bind (Parser_error ''Expect valid ObjectPropertyName.'' s) (\<lambda>_ s.
                 Returns (assign ''kind'' (Num PropertyAssignment) node, s))) (\<lambda>node s.
         bind (parseExpected ColonToken s) (\<lambda>_ s.
         bind (r_parseConnectExp r s) (\<lambda>initializer s.
         finishNode (assign ''initializer'' initializer node) s))))))"

definition parseObjectLiteralExpression :: "rec \<Rightarrow> jsval parse" where
  "parseObjectLiteralExpression r s =
     bind (createNode ObjectLiteralExpression Undefined s) (\<lambda>node s.
     bind (parseExpected OpenBraceToken s) (\<lambda>_ s.
     bind (parseDelimitedList r ObjectLiteralMembers (parseObjectDefinition r) s)
       (\<lambda>properties s.
     bind (parseExpected CloseBraceToken s) (\<lambda>_ s.
     finishNode (assign ''properties'' properties node) s))))"

definition parseNewExpression :: "rec \<Rightarrow> jsval parse" where
  "parseNewExpression r s =
     bind (createNode NewExpression Undefined s) (\<lambda>node s.
     bind (parseExpected NewKeyword s) (\<lambda>_ s.
     bind (r_parseMemberExp r s) (\<lambda>expression s.
     bind (tryParse truthy (parseTypeArgumentsInExpression r) s) (\<lambda>typeArguments s.
     bind (parseArguments r s) (\<lambda>arguments s.
     finishNode
       (assign ''arguments'' arguments
          (if truthy typeArguments
           then assign ''typeArguments'' typeArguments (assign ''expression'' expression node)
           else assign ''expression'' expression node)) s)))))"

text \<open>The two \<open>async\<close> cases of \<open>parsePrimaryExp\<close>: the modifier list holds the
  \<open>async\<close> token, and the node starts where the token starts.\<close>

definition parseAsyncModifier :: "SyntaxKind \<Rightarrow> jsval parse" where
  "parseAsyncModifier kind s =
     bind (parseTokenNode s) (\<lambda>tokenNode s'.
     bind (createNodeList [tokenNode] (startPos s) s') (\<lambda>modifiers s'.
     bind (createNode kind (Num (startPos s)) s') (\<lambda>node s'.
     Returns (assign ''modifiers'' modifiers node, s'))))"

definition parsePrimaryExp :: "rec \<Rightarrow> jsval parse" where
  "parsePrimaryExp r s =
     (if ptoken s = NumericLiteral \<or> ptoken s = StringLiteral then parseLiteralNode s
      else if ptoken s = ThisKeyword \<or> ptoken s = SuperKeyword \<or> ptoken s = NullKeyword
              \<or> ptoken s = TrueKeyword \<or> ptoken s = FalseKeyword \<or> ptoken s = ImportKeyword
      then parseTokenNode s
      else if ptoken s = OpenParenToken then parseParenthesizedExpression r s
      else if ptoken s = OpenBracketToken then parseArrayLiteralExpression r s
      else if ptoken s = OpenBraceToken then parseObjectLiteralExpression r s
      else if ptoken s = ClassKeyword then parseClassExpression s
      else if ptoken s = FunctionKeyword then parseFunctionExpressionWithoutModifiers r Undefined s
      else if ptoken s = NodeKeyword \<or> ptoken s = SubnetKeyword then
        bind (isStartOfNode r s) (\<lambda>isNode s.
        if \<not> isNode then parseIdentifier s
        else parseNodeExpressionWithoutModifiers r Undefined s)
      else if ptoken s = NewKeyword then parseNewExpression r s
      else if ptoken s = AsyncKeyword then
        bind (lookAhead (\<lambda>k. k \<noteq> 0) nextToken s) (\<lambda>next s.
        if next = FunctionKeyword then
          bind (parseAsyncModifier FunctionExpression s) (\<lambda>node s.
          parseFunctionExpressionWithoutModifiers r node s)
        else if next = NodeKeyword \<or> next = SubnetKeyword then
          bind (parseAsyncModifier NodeExpression s) (\<lambda>node s.
          parseNodeExpressionWithoutModifiers r node s)
        else parseIdentifier s)
      else parseIdentifier s)"

text \<open>The callback of the look-ahead in \<open>parseMemberExpRest\<close>; its result is the three
  flags \<open>isAccess\<close>, \<open>isPropertyAccess\<close> and \<open>isOptionalChain\<close> that the source's
  callback sets.\<close>

definition memberAccessKind :: "(bool \<times> bool \<times> bool) parse" where
  "memberAccessKind s =
     (if ptoken s = DotToken then
        bind (nextToken s) (\<lambda>t s.
        if t \<noteq> 0 \<and> isIdentifier s then Returns ((True, True, False), s)
        else Returns ((False, False, False), s))
      else if ptoken s = OpenBracketToken then Returns ((True, False, False), s)
      else if ptoken s = QuestionDotToken then
        bind (nextToken s) (\<lambda>_ s.
        if ptoken s = OpenBracketToken then Returns ((True, False, True), s)
        else if ptoken s = Identifier then Returns ((True, True, True), s)
        else Returns ((False, False, True), s))
      else Returns ((False, False, False), s))"

definition parseMemberExpRest :: "rec \<Rightarrow> jsval \<Rightarrow> jsval parse" where
  "parseMemberExpRest r expr s =
     bind (lookAhead (\<lambda>_. False) memberAccessKind s) (\<lambda>access s.
     case access of (isAccess, isPropertyAccess, isOptionalChain) \<Rightarrow>
     if \<not> isAccess then Returns (expr, s)
     else if isPropertyAccess then
       bind (readProp ''pos'' expr s) (\<lambda>p s.
       bind (createNode PropertyAccessExpression p s) (\<lambda>node s.
       bind (if isOptionalChain then parseOptionalToken QuestionDotToken s
             else bind (nextToken s) (\<lambda>_ s. Returns (Undefined, s))) (\<lambda>questionDotToken s.
       bind (parseIdentifier s) (\<lambda>name s.
       bind (finishNode (assign ''name'' name (assign ''questionDotToken'' questionDotToken
                           (assign ''expression'' expr node))) s) (\<lambda>expr s.
       r_parseMemberExpRest r expr s)))))
     else
       bind (readProp ''pos'' expr s) (\<lambda>p s.
       bind (createNode ElementAccessExpression p s) (\<lambda>node s.
       bind (if isOptionalChain then parseOptionalToken QuestionDotToken s
             else Returns (Undefined, s)) (\<lambda>questionDotToken s.
       bind (nextToken s) (\<lambda>_ s.
       bind (r_parseExpression r s) (\<lambda>argumentExpression s.
       bind (parseExpected CloseBracketToken s) (\<lambda>_ s.
       bind (finishNode (assign ''argumentExpression'' argumentExpression
                           (assign ''questionDotToken'' questionDotToken
                              (assign ''expression'' expr node))) s) (\<lambda>expr s.
       r_parseMemberExpRest r expr s))))))))"

definition parseMemberExp :: "rec \<Rightarrow> jsval parse" where
  "parseMemberExp r s =
     bind (if ptoken s = NewKeyword then
             lookAhead id
               (\<lambda>s. bind (nextToken s) (\<lambda>t s.
                     if t \<noteq> DotToken then Returns (False, s)
                     else bind (nextToken s) (\<lambda>t s.
                          Returns (t \<noteq> 0 \<and> tokenValue s = Some (utf16 ''target''), s)))) s
           else Returns (False, s)) (\<lambda>newTarget s.
     if newTarget then
       bind (createNode NewTargetExpression Undefined s) (\<lambda>node s.
       bind (nextToken s) (\<lambda>_ s.
       bind (nextToken s) (\<lambda>_ s.
       bind (nextToken s) (\<lambda>_ s.
       finishNode node s))))
     else
       bind (parsePrimaryExp r s) (\<lambda>expr s.
       parseMemberExpRest r expr s))"

definition parseCallExpRest :: "rec \<Rightarrow> jsval \<Rightarrow> jsval parse" where
  "parseCallExpRest r expr s =
     bind (parseMemberExpRest r expr s) (\<lambda>expr s.
     bind (parseOptionalToken QuestionDotToken s) (\<lambda>questionDotToken s.
     bind (if ptoken s = LessThanToken then
             bind (tryParse truthy (parseTypeArgumentsInExpression r) s) (\<lambda>typeArguments s.
             if truthy typeArguments then
               bind (readProp ''pos'' expr s) (\<lambda>p s.
               bind (createNode CallExpression p s) (\<lambda>callExpr s.
               bind (parseArguments r s) (\<lambda>arguments s.
               bind (finishNode (assign ''arguments'' arguments
                                   (assign ''typeArguments'' typeArguments
                                      (assign ''questionDotToken'' questionDotToken
                                         (assign ''expression'' expr callExpr)))) s)
                 (\<lambda>callExpr s. Returns (Some callExpr, s)))))
             else Returns (None, s))
           else if ptoken s = OpenParenToken then
             bind (readProp ''pos'' expr s) (\<lambda>p s.
             bind (createNode CallExpression p s) (\<lambda>callExpr s.
             bind (parseArguments r s) (\<lambda>arguments s.
             bind (finishNode (assign ''arguments'' arguments
                                 (assign ''questionDotToken'' questionDotToken
                                    (assign ''expression'' expr callExpr))) s)
               (\<lambda>callExpr s. Returns (Some callExpr, s)))))
           else Returns (None, s)) (\<lambda>call s.
     case call of
       Some callExpr \<Rightarrow> r_parseCallExpRest r callExpr s
     | None \<Rightarrow>
         if truthy questionDotToken then
           bind (Parser_error ''Identifier expected.'' s) (\<lambda>_ s. Returns (expr, s))
         else Returns (expr, s))))"

definition parseLeftHandExp :: "rec \<Rightarrow> jsval parse" where
  "parseLeftHandExp r s =
     bind (parseMemberExp r s) (\<lambda>expr s.
     parseCallExpRest r expr s)"

definition parseUpdateExp :: "rec \<Rightarrow> jsval parse" where
  "parseUpdateExp r s =
     (if ptoken s = PlusPlusToken \<or> ptoken s = MinusMinusToken then
        bind (createNode PrefixUpdateExpression Undefined s) (\<lambda>node s.
        bind (nextToken s) (\<lambda>_ s'.
        bind (r_parseUnaryExp r s') (\<lambda>operand s'.
        finishNode (assign ''operand'' operand (assign ''operator'' (Num (ptoken s)) node)) s')))
      else
        bind (parseLeftHandExp r s) (\<lambda>expr s.
        bind (isLeftHandExp expr s) (\<lambda>lhs s.
        bind (assert lhs s) (\<lambda>_ s.
        if ptoken s = PlusPlusToken \<or> ptoken s = MinusMinusToken then
          bind (readProp ''pos'' expr s) (\<lambda>p s.
          bind (createNode PostfixUpdateExpression p s) (\<lambda>node s.
          bind (nextToken s) (\<lambda>_ s'.
          finishNode (assign ''operator'' (Num (ptoken s)) (assign ''operand'' expr node)) s')))
        else Returns (expr, s)))))"

definition parseTypeAssertion :: "rec \<Rightarrow> jsval parse" where
  "parseTypeAssertion r s =
     bind (createNode TypeAssertionExpression Undefined s) (\<lambda>node s.
     bind (parseExpected LessThanToken s) (\<lambda>_ s.
     bind (parseType s) (\<lambda>ty s.
     bind (parseExpected GreaterThanToken s) (\<lambda>_ s.
     bind (r_parseUnaryExp r s) (\<lambda>operand s.
     finishNode (assign ''operand'' operand (assign ''type'' ty node)) s)))))"

definition parseUnaryExp :: "rec \<Rightarrow> jsval parse" where
  "parseUnaryExp r s =
     (if ptoken s = DeleteKeyword \<or> ptoken s = VoidKeyword \<or> ptoken s = TypeOfKeyword
         \<or> ptoken s = AwaitKeyword \<or> ptoken s = PlusToken \<or> ptoken s = MinusToken
         \<or> ptoken s = TildeToken \<or> ptoken s = ExclamationToken then
        bind (createNode PrefixUnaryExpression Undefined s) (\<lambda>node s.
        bind (nextToken s) (\<lambda>_ s'.
        bind (r_parseUnaryExp r s') (\<lambda>operand s'.
        finishNode (assign ''operand'' operand (assign ''operator'' (Num (ptoken s)) node)) s')))
      else if ptoken s = LessThanToken then parseTypeAssertion r s
      else parseUpdateExp r s)"

definition parseBinaryExpRest :: "rec \<Rightarrow> int \<Rightarrow> jsval \<Rightarrow> jsval parse" where
  "parseBinaryExpRest r precedence leftOperand s =
     bind (reScanGreaterToken r s) (\<lambda>_ s.
     if \<not> (if ptoken s = AsteriskAsteriskToken
            then getBinaryOperatorPrecedence (ptoken s) \<ge> precedence
            else getBinaryOperatorPrecedence (ptoken s) > precedence)
     then Returns (leftOperand, s)
     else if ptoken s = AsKeyword then
       bind (parseTokenNode s) (\<lambda>operatorToken s.
       bind (parseType s) (\<lambda>ty s.
       bind (makeAsExpression leftOperand operatorToken ty s) (\<lambda>leftOperand s.
       r_parseBinaryExpRest r precedence leftOperand s)))
     else
       bind (parseTokenNode s) (\<lambda>operatorToken s'.
       bind (r_parseBinaryExp r (getBinaryOperatorPrecedence (ptoken s)) s') (\<lambda>right s'.
       bind (makeBinaryExpression leftOperand operatorToken right s') (\<lambda>leftOperand s'.
       r_parseBinaryExpRest r precedence leftOperand s'))))"

definition parseBinaryExp :: "rec \<Rightarrow> int \<Rightarrow> jsval parse" where
  "parseBinaryExp r precedence s =
     bind (r_parseUnaryExp r s) (\<lambda>leftOperand s.
     parseBinaryExpRest r precedence leftOperand s)"

text \<open>The loop of \<open>isStartOfParenthesizedArrowFunction\<close> over the tokens up to the
  matching parenthesis; the result is \<open>False\<close> when the end of the file comes first.\<close>

definition parenLoop :: "rec \<Rightarrow> nat \<Rightarrow> bool parse" where
  "parenLoop r paren s =
     bind (nextToken s) (\<lambda>t s.
     if t = OpenParenToken then r_parenLoop r (paren + 1) s
     else if t = CloseParenToken then
       (if paren - 1 = 0 then bind (nextToken s) (\<lambda>_ s. Returns (True, s))
        else r_parenLoop r (paren - 1) s)
     else if t = EndOfFileToken then
       bind (Parser_error ''Unmatched parentheses'' s) (\<lambda>_ s. Returns (False, s))
     else r_parenLoop r paren s)"

definition isStartOfParenthesizedArrowFunction :: "rec \<Rightarrow> bool parse" where
  "isStartOfParenthesizedArrowFunction r s =
     (if ptoken s \<noteq> OpenParenToken then Returns (False, s)
      else
        bind (parenLoop r 1 s) (\<lambda>closed s.
        if \<not> closed then Returns (False, s)
        else if ptoken s = ColonToken then
          bind (nextToken s) (\<lambda>t s.
          if canBeType t then
            bind (nextToken s) (\<lambda>t s.
            Returns (t = EqualsGreaterThanToken \<or> ptoken s = EqualsGreaterThanToken, s))
          else Returns (ptoken s = EqualsGreaterThanToken, s))
        else Returns (ptoken s = EqualsGreaterThanToken, s)))"

definition angleBracketLoop :: "rec \<Rightarrow> nat \<Rightarrow> bool parse" where
  "angleBracketLoop r angleBracket s =
     bind (nextToken s) (\<lambda>t s.
     if t = LessThanToken then r_angleBracketLoop r (angleBracket + 1) s
     else if t = GreaterThanToken then
       (if angleBracket - 1 = 0 then bind (nextToken s) (\<lambda>_ s. Returns (True, s))
        else r_angleBracketLoop r (angleBracket - 1) s)
     else if t = EndOfFileToken then
       bind (Parser_error ''Unmatched angle bracket'' s) (\<lambda>_ s. Returns (False, s))
     else r_angleBracketLoop r angleBracket s)"

definition isStartOfArrowFunctionWithCallSignature :: "rec \<Rightarrow> bool parse" where
  "isStartOfArrowFunctionWithCallSignature r s =
     bind (parseOptional LessThanToken s) (\<lambda>lt s.
     if \<not> lt then Returns (False, s)
     else
       bind (angleBracketLoop r 1 s) (\<lambda>closed s.
       if \<not> closed then Returns (False, s)
       else isStartOfParenthesizedArrowFunction r s))"

definition nextTokenIsOpenParenOrDot :: "bool parse" where
  "nextTokenIsOpenParenOrDot s =
     bind (nextToken s) (\<lambda>t s. Returns (t = OpenParenToken \<or> t = DotToken, s))"

definition isStartOfLeftHandExp :: "bool parse" where
  "isStartOfLeftHandExp s =
     (if ptoken s = ThisKeyword \<or> ptoken s = SuperKeyword \<or> ptoken s = NullKeyword
         \<or> ptoken s = TrueKeyword \<or> ptoken s = FalseKeyword \<or> ptoken s = NumericLiteral
         \<or> ptoken s = StringLiteral \<or> ptoken s = OpenParenToken \<or> ptoken s = OpenBracketToken
         \<or> ptoken s = OpenBraceToken \<or> ptoken s = FunctionKeyword \<or> ptoken s = ClassKeyword
         \<or> ptoken s = NodeKeyword \<or> ptoken s = SubnetKeyword \<or> ptoken s = NewKeyword
         \<or> ptoken s = Identifier then Returns (True, s)
      else if ptoken s = ImportKeyword then lookAhead id nextTokenIsOpenParenOrDot s
      else Returns (isIdentifier s, s))"

definition isStartOfExpression :: "bool parse" where
  "isStartOfExpression s =
     bind (isStartOfLeftHandExp s) (\<lambda>lhs s.
     if lhs then Returns (True, s)
     else if ptoken s = PlusPlusToken \<or> ptoken s = MinusMinusToken \<or> ptoken s = DeleteKeyword
             \<or> ptoken s = VoidKeyword \<or> ptoken s = TypeOfKeyword \<or> ptoken s = AwaitKeyword
             \<or> ptoken s = PlusToken \<or> ptoken s = MinusToken \<or> ptoken s = TildeToken
             \<or> ptoken s = ExclamationToken \<or> ptoken s = LessThanToken
             \<or> ptoken s = YieldKeyword \<or> ptoken s = AsyncKeyword then Returns (True, s)
     else Returns (isIdentifier s, s))"

definition parseYieldExpression :: "rec \<Rightarrow> jsval parse" where
  "parseYieldExpression r s =
     bind (createNode YieldExpression Undefined s) (\<lambda>node s.
     bind (nextToken s) (\<lambda>_ s.
     bind (if ptoken s = AsteriskToken then
             bind (nextToken s) (\<lambda>_ s. Returns (assign ''hasAsterisk'' (Bool True) node, s))
           else Returns (assign ''hasAsterisk'' (Bool False) node, s)) (\<lambda>node s.
     bind (isStartOfExpression s) (\<lambda>start s.
     if start then bind (r_parseAssignExp r s) (\<lambda>expression s.
                   finishNode (assign ''expression'' expression node) s)
     else finishNode node s))))"

definition parseArrowFunction :: "rec \<Rightarrow> jsval parse" where
  "parseArrowFunction r s =
     bind (createNode ArrowFunction Undefined s) (\<lambda>node s.
     bind (parseOptional AsyncKeyword s) (\<lambda>isAsync s.
     bind (if isIdentifier s then
             bind (createNode Parameter Undefined s) (\<lambda>singleParameter s.
             bind (parseIdentifier s) (\<lambda>name s.
             bind (finishNode (assign ''name'' name singleParameter) s) (\<lambda>singleParameter s.
             bind (readProp ''pos'' singleParameter s) (\<lambda>p s.
             bind (createNodeList [singleParameter] (case p of Num n \<Rightarrow> n | _ \<Rightarrow> 0) s)
               (\<lambda>parameters s.
             Returns (assign ''parameters'' parameters
                        (assign ''isAsync'' (Bool isAsync) node), s))))))
           else addCallSignature r (assign ''isAsync'' (Bool isAsync) node) s) (\<lambda>node s.
     bind (parseExpectedToken EqualsGreaterThanToken s) (\<lambda>egt s.
     bind (if \<not> truthy egt then
             bind (Parser_error ''expected =>'' s) (\<lambda>_ s.
             bind (createNode EqualsGreaterThanToken Undefined s) (\<lambda>egt s.
             finishNode egt s))
           else Returns (egt, s)) (\<lambda>egt s.
     bind (if ptoken s = OpenBraceToken then parseBlock r s else r_parseConnectExp r s)
       (\<lambda>body s.
     finishNode (assign ''body'' body (assign ''equalsGreaterThanToken'' egt node)) s))))))"

definition parseConditionalExpRest :: "rec \<Rightarrow> jsval \<Rightarrow> jsval parse" where
  "parseConditionalExpRest r expr s =
     bind (parseOptional QuestionToken s) (\<lambda>question s.
     if \<not> question then Returns (expr, s)
     else
       bind (readProp ''pos'' expr s) (\<lambda>p s.
       bind (createNode ConditionalExpression p s) (\<lambda>node s.
       bind (r_parseAssignExp r s) (\<lambda>whenTrue s.
       bind (parseExpected ColonToken s) (\<lambda>_ s.
       bind (r_parseAssignExp r s) (\<lambda>whenFalse s.
       finishNode (assign ''whenFalse'' whenFalse (assign ''whenTrue'' whenTrue
                     (assign ''condition'' expr node))) s))))))"

text \<open>The condition of \<open>parseAssignExp\<close> that selects an arrow function: four
  look-aheads joined by \<open>||\<close>, each tried only when the ones before it are falsy.\<close>

definition isStartOfArrowFunction :: "rec \<Rightarrow> bool parse" where
  "isStartOfArrowFunction r s =
     bind (if ptoken s = AsyncKeyword then
             lookAhead id
               (\<lambda>s. bind (nextToken s) (\<lambda>t s.
                     Returns (t \<noteq> 0 \<and> ptoken s \<noteq> FunctionKeyword \<and> ptoken s \<noteq> NodeKeyword
                                \<and> ptoken s \<noteq> SubnetKeyword, s))) s
           else Returns (False, s)) (\<lambda>c1 s.
     if c1 then Returns (True, s)
     else
       bind (if isIdentifier s then
               lookAhead id
                 (\<lambda>s. bind (nextToken s) (\<lambda>t s. Returns (t = EqualsGreaterThanToken, s))) s
             else Returns (False, s)) (\<lambda>c2 s.
       if c2 then Returns (True, s)
       else
         bind (if ptoken s = LessThanToken then
                 lookAhead id (isStartOfArrowFunctionWithCallSignature r) s
               else Returns (False, s)) (\<lambda>c3 s.
         if c3 then Returns (True, s)
         else lookAhead id (isStartOfParenthesizedArrowFunction r) s)))"

definition parseAssignExp :: "rec \<Rightarrow> jsval parse" where
  "parseAssignExp r s =
     (if ptoken s = YieldKeyword then parseYieldExpression r s
      else
        bind (isStartOfArrowFunction r s) (\<lambda>arrow s.
        if arrow then parseArrowFunction r s
        else
          bind (r_parseBinaryExp r 0 s) (\<lambda>expr s.
          bind (isLeftHandExp expr s) (\<lambda>lhs s.
          bind (if lhs then bind (reScanGreaterToken r s) (\<lambda>t s. Returns (isAssignOp t s, s))
                else Returns (False, s)) (\<lambda>assignment s.
          if assignment then
            bind (parseTokenNode s) (\<lambda>operatorToken s.
            bind (r_parseAssignExp r s) (\<lambda>right s.
            makeAssignmentExpression expr operatorToken right s))
          else parseConditionalExpRest r expr s)))))"

definition parseConnectExpRest :: "rec \<Rightarrow> jsval \<Rightarrow> jsval parse" where
  "parseConnectExpRest r expr s =
     bind (parseOptionalToken MinusGreaterThanToken s) (\<lambda>arrow s.
     if \<not> truthy arrow then Returns (expr, s)
     else
       bind (readProp ''pos'' expr s) (\<lambda>p s.
       bind (createNode ConnectionExpression p s) (\<lambda>node s.
       bind (r_parseAssignExp r s) (\<lambda>right s.
       bind (finishNode (assign ''right'' right (assign ''left'' expr node)) s) (\<lambda>expr s.
       r_parseConnectExpRest r expr s)))))"

definition parseConnectExp :: "rec \<Rightarrow> jsval parse" where
  "parseConnectExp r s =
     bind (r_parseAssignExp r s) (\<lambda>expr s.
     parseConnectExpRest r expr s)"

definition parseExpressionRest :: "rec \<Rightarrow> jsval \<Rightarrow> jsval parse" where
  "parseExpressionRest r expr s =
     bind (parseOptionalToken CommaToken s) (\<lambda>comma s.
     if \<not> truthy comma then Returns (expr, s)
     else
       bind (readProp ''pos'' expr s) (\<lambda>p s.
       bind (createNode CommaExpression p s) (\<lambda>node s.
       bind (r_parseConnectExp r s) (\<lambda>right s.
       bind (finishNode (assign ''right'' right (assign ''left'' expr node)) s) (\<lambda>expr s.
       r_parseExpressionRest r expr s)))))"

definition parseExpression :: "rec \<Rightarrow> jsval parse" where
  "parseExpression r s =
     bind (r_parseConnectExp r s) (\<lambda>expr s.
     parseExpressionRest r expr s)"

subsection \<open>Statements\<close>

definition parseEmptyStatement :: "jsval parse" where
  "parseEmptyStatement s =
     bind (createNode EmptyStatement Undefined s) (\<lambda>node s.
     bind (parseExpected SemicolonToken s) (\<lambda>_ s.
     finishNode node s))"

definition parseExpressionOrLabeledStatement :: "rec \<Rightarrow> jsval parse" where
  "parseExpressionOrLabeledStatement r s =
     bind (createNode Unknown Undefined s) (\<lambda>node s.
     bind (r_parseExpression r s) (\<lambda>expression s.
     bind (readProp ''kind'' expression s) (\<lambda>k s.
     bind (if k = Num Identifier then parseOptional ColonToken s else Returns (False, s))
       (\<lambda>labeled s.
     if labeled then
       bind (r_parseStatement r s) (\<lambda>statement s.
       finishNode (assign ''statement'' statement (assign ''label'' expression
                     (assign ''kind'' (Num LabeledStatement) node))) s)
     else
       bind (parseSemicolon s) (\<lambda>_ s.
       finishNode (assign ''expression'' expression
                     (assign ''kind'' (Num ExpressionStatement) node)) s)))))"

definition parseBreakOrContinueStatement :: "SyntaxKind \<Rightarrow> jsval parse" where
  "parseBreakOrContinueStatement kind s =
     bind (createNode kind Undefined s) (\<lambda>node s.
     bind (parseExpected (if kind = BreakStatement then BreakKeyword else ContinueKeyword) s)
       (\<lambda>_ s.
     bind (if ptoken s \<noteq> SemicolonToken then
             bind (parseIdentifier s) (\<lambda>label s. Returns (assign ''label'' label node, s))
           else Returns (node, s)) (\<lambda>node s.
     bind (parseExpected SemicolonToken s) (\<lambda>_ s.
     finishNode node s))))"

definition parseFallThroughStatement :: "jsval parse" where
  "parseFallThroughStatement s =
     bind (createNode FallThroughStatement Undefined s) (\<lambda>node s.
     bind (parseExpected FallThroughKeyword s) (\<lambda>_ s.
     bind (parseSemicolon s) (\<lambda>_ s.
     finishNode node s)))"

definition parseReturnStatement :: "rec \<Rightarrow> jsval parse" where
  "parseReturnStatement r s =
     bind (createNode ReturnStatement Undefined s) (\<lambda>node s.
     bind (parseExpected ReturnKeyword s) (\<lambda>_ s.
     bind (if ptoken s \<noteq> SemicolonToken then
             bind (r_parseExpression r s) (\<lambda>expression s.
             Returns (assign ''expression'' expression node, s))
           else Returns (node, s)) (\<lambda>node s.
     bind (parseSemicolon s) (\<lambda>_ s.
     finishNode node s))))"

definition parseDebuggerStatement :: "jsval parse" where
  "parseDebuggerStatement s =
     bind (createNode DebuggerStatement Undefined s) (\<lambda>node s.
     bind (parseExpected DebuggerKeyword s) (\<lambda>_ s.
     bind (parseSemicolon s) (\<lambda>_ s.
     finishNode node s)))"

text \<open>The header that \<open>if\<close>, \<open>elif\<close>, \<open>switch\<close> and the three-clause \<open>for\<close> share:
  \<open>walrus || isCurrentTokenVLC() && parseVariableDeclarationWithoutModifiers()\<close>. The
  result is the declaration or \<open>false\<close>.\<close>

definition parseHeaderDeclaration :: "rec \<Rightarrow> jsval parse" where
  "parseHeaderDeclaration r s =
     bind (tryParseWalrusDeclaration r False s) (\<lambda>walrus s.
     if truthy walrus then Returns (walrus, s)
     else if isCurrentTokenVLC s then parseVariableDeclarationWithoutModifiers r False Undefined s
     else Returns (Bool False, s))"

text \<open>The \<open>elif\<close> loop of \<open>parseIfStatement\<close>.\<close>

definition elifLoop :: "rec \<Rightarrow> jsval list \<Rightarrow> (jsval list) parse" where
  "elifLoop r elifClauseList s =
     (if ptoken s \<noteq> ElifKeyword then Returns (elifClauseList, s)
      else
        bind (createNode ElifClause Undefined s) (\<lambda>elifClause s.
        bind (nextToken s) (\<lambda>_ s.
        bind (parseHeaderDeclaration r s) (\<lambda>variableDeclaration s.
        bind (r_parseExpression r s) (\<lambda>expression s.
        bind (parseBlock r s) (\<lambda>thenBlock s.
        r_elifLoop r
          (elifClauseList @
             [assign ''thenBlock'' thenBlock (assign ''expression'' expression
                (if truthy variableDeclaration
                 then assign ''variableDeclaration'' variableDeclaration elifClause
                 else elifClause))]) s))))))"

definition parseIfStatement :: "rec \<Rightarrow> jsval parse" where
  "parseIfStatement r s =
     bind (createNode IfStatement Undefined s) (\<lambda>node s.
     bind (parseExpected IfKeyword s) (\<lambda>_ s.
     bind (parseHeaderDeclaration r s) (\<lambda>variableDeclaration s.
     bind (r_parseExpression r s) (\<lambda>expression s.
     bind (parseBlock r s) (\<lambda>thenBlock s.
     bind (elifLoop r [] s) (\<lambda>elifClauseList s'.
     bind (if elifClauseList = [] then Returns (Undefined, s')
           else createNodeList elifClauseList (startPos s) s') (\<lambda>elifClauses s.
     bind (parseOptional ElseKeyword s) (\<lambda>hasElse s.
     bind (if hasElse then parseBlock r s else Returns (Undefined, s)) (\<lambda>elseBlock s.
     finishNode
       (assign ''elseBlock'' elseBlock (assign ''elifClauses'' elifClauses
          (assign ''thenBlock'' thenBlock (assign ''expression'' expression
             (if truthy variableDeclaration
              then assign ''variableDeclaration'' variableDeclaration node
              else node))))) s)))))))))"

text \<open>The second and third clause of a \<open>for\<close> statement, after the first semicolon.\<close>

definition parseForClauses :: "rec \<Rightarrow> jsval \<Rightarrow> jsval parse" where
  "parseForClauses r node s =
     bind (r_parseExpression r s) (\<lambda>condition s.
     bind (parseSemicolon s) (\<lambda>_ s.
     if ptoken s \<noteq> OpenBraceToken then
       bind (r_parseExpression r s) (\<lambda>incrementor s.
       Returns (assign ''incrementor'' incrementor (assign ''condition'' condition node), s))
     else Returns (assign ''condition'' condition node, s)))"

definition parseForOrForInOrForOfStatement :: "rec \<Rightarrow> jsval parse" where
  "parseForOrForInOrForOfStatement r s0 =
     bind (parseExpected ForKeyword s0) (\<lambda>_ s.
     if ptoken s = OpenBraceToken then
       bind (createNode ForStatement (Num (startPos s0)) s) (\<lambda>node s.
       bind (parseBlock r s) (\<lambda>block s.
       finishNode (assign ''block'' block node) s))
     else
       bind (if isCurrentTokenVLC s then
               lookAhead id
                 (\<lambda>s. bind (nextToken s) (\<lambda>_ s.
                       if \<not> isIdentifier s then Returns (False, s)
                       else bind (nextToken s) (\<lambda>_ s.
                            Returns (ptoken s = InKeyword \<or> ptoken s = OfKeyword, s)))) s
             else Returns (False, s)) (\<lambda>inOrOf s.
       if inOrOf then
         bind (createNode Unknown (Num (startPos s0)) s) (\<lambda>node s.
         bind (parseIdentifier s) (\<lambda>identifier s'.
         bind (if ptoken s' = InKeyword then
                 bind (nextToken s') (\<lambda>_ s'.
                 bind (r_parseExpression r s') (\<lambda>expression s'.
                 Returns (assign ''expression'' expression
                            (assign ''kind'' (Num ForInStatement)
                               (assign ''identifier'' identifier
                                  (assign ''vlc'' (Num (ptoken s)) node))), s')))
               else
                 bind (nextToken s') (\<lambda>_ s'.
                 bind (r_parseConnectExp r s') (\<lambda>expression s'.
                 Returns (assign ''expression'' expression
                            (assign ''kind'' (Num ForOfStatement)
                               (assign ''identifier'' identifier
                                  (assign ''vlc'' (Num (ptoken s)) node))), s'))))
           (\<lambda>node s.
         bind (parseBlock r s) (\<lambda>block s.
         finishNode (assign ''block'' block node) s))))
       else
         bind (createNode ForStatement (Num (startPos s0)) s) (\<lambda>node s.
         bind (parseHeaderDeclaration r s) (\<lambda>variableDeclaration s.
         bind (if ptoken s \<noteq> SemicolonToken then
                 (if truthy variableDeclaration then
                    Returns (assign ''initializer'' variableDeclaration node, s)
                  else bind (r_parseExpression r s) (\<lambda>expression s.
                       Returns (assign ''initializer'' expression node, s)))
               else Returns (node, s)) (\<lambda>node s.
         bind (if truthy variableDeclaration then parseForClauses r node s
               else
                 bind (parseOptional SemicolonToken s) (\<lambda>semicolon s.
                 if semicolon then parseForClauses r node s
                 else Returns (assign ''initializer'' Undefined
                                 (assign ''condition'' (field ''initializer'' node) node), s)))
           (\<lambda>node s.
         bind (parseBlock r s) (\<lambda>block s.
         finishNode (assign ''block'' block node) s)))))))"

definition parseCaseClause :: "rec \<Rightarrow> jsval parse" where
  "parseCaseClause r s =
     bind (createNode CaseClause Undefined s) (\<lambda>node s.
     bind (parseExpected CaseKeyword s) (\<lambda>_ s.
     bind (r_parseExpression r s) (\<lambda>expression s.
     bind (parseExpected ColonToken s) (\<lambda>_ s.
     bind (parseList r SwitchClauseStatements (r_parseStatement r) s) (\<lambda>statements s.
     finishNode (assign ''statements'' statements (assign ''expression'' expression node)) s)))))"

definition parseDefaultClause :: "rec \<Rightarrow> jsval parse" where
  "parseDefaultClause r s =
     bind (createNode DefaultClause Undefined s) (\<lambda>node s.
     bind (parseExpected DefaultKeyword s) (\<lambda>_ s.
     bind (parseExpected ColonToken s) (\<lambda>_ s.
     bind (parseList r SwitchClauseStatements (r_parseStatement r) s) (\<lambda>statements s.
     finishNode (assign ''statements'' statements node) s))))"

definition parseCaseOrDefaultClause :: "rec \<Rightarrow> jsval parse" where
  "parseCaseOrDefaultClause r s =
     (if ptoken s = CaseKeyword then parseCaseClause r s else parseDefaultClause r s)"

definition parseSwitchStatement :: "rec \<Rightarrow> jsval parse" where
  "parseSwitchStatement r s =
     bind (createNode SwitchStatement Undefined s) (\<lambda>node s.
     bind (parseExpected SwitchKeyword s) (\<lambda>_ s.
     bind (parseHeaderDeclaration r s) (\<lambda>variableDeclaration s.
     bind (r_parseExpression r s) (\<lambda>expression s.
     bind (createNode CaseBlock Undefined s) (\<lambda>caseBlock s.
     bind (parseExpected OpenBraceToken s) (\<lambda>_ s.
     bind (parseList r SwitchClauses (parseCaseOrDefaultClause r) s) (\<lambda>clauses s.
     bind (parseExpected CloseBraceToken s) (\<lambda>_ s.
     bind (finishNode (assign ''clauses'' clauses caseBlock) s) (\<lambda>caseBlock s.
     finishNode
       (assign ''caseBlock'' caseBlock (assign ''expression'' expression
          (if truthy variableDeclaration
           then assign ''variableDeclaration'' variableDeclaration node
           else node))) s)))))))))"

definition parseCatchClause :: "rec \<Rightarrow> jsval parse" where
  "parseCatchClause r s =
     bind (createNode CatchClause Undefined s) (\<lambda>result s.
     bind (parseExpected CatchKeyword s) (\<lambda>_ s.
     bind (if ptoken s \<noteq> OpenBraceToken then
             bind (parseIdentifier s) (\<lambda>identifier s.
             Returns (assign ''identifier'' identifier result, s))
           else Returns (result, s)) (\<lambda>result s.
     bind (parseBlock r s) (\<lambda>block s.
     finishNode (assign ''block'' block result) s))))"

definition parseTryStatement :: "rec \<Rightarrow> jsval parse" where
  "parseTryStatement r s =
     bind (createNode TryStatement Undefined s) (\<lambda>node s.
     bind (parseExpected TryKeyword s) (\<lambda>_ s.
     bind (parseBlock r s) (\<lambda>tryBlock s.
     bind (if ptoken s = CatchKeyword then parseCatchClause r s else Returns (Undefined, s))
       (\<lambda>catchClause s.
     if \<not> truthy catchClause \<or> ptoken s = FinallyKeyword then
       bind (parseExpected FinallyKeyword s) (\<lambda>_ s.
       bind (parseBlock r s) (\<lambda>finallyBlock s.
       finishNode (assign ''finallyBlock'' finallyBlock (assign ''catchClause'' catchClause
                     (assign ''tryBlock'' tryBlock node))) s))
     else finishNode (assign ''catchClause'' catchClause (assign ''tryBlock'' tryBlock node)) s))))"

text \<open>The loop of \<open>parseUsingStatement\<close> over the targets.\<close>

definition usingLoop :: "rec \<Rightarrow> jsval list \<Rightarrow> (jsval list) parse" where
  "usingLoop r targetList s =
     (if ptoken s = OpenBraceToken then Returns (targetList, s)
      else
        bind (if isIdentifier s then
                bind (tryParseWalrusDeclaration r True s) (\<lambda>walrus s.
                if truthy walrus then Returns (walrus, s) else parseIdentifier s)
              else parseVariableDeclarationWithoutModifiers r True Undefined s) (\<lambda>target s.
        bind (parseOptional SemicolonToken s) (\<lambda>semicolon s.
        if \<not> semicolon then Returns (targetList @ [target], s)
        else r_usingLoop r (targetList @ [target]) s)))"

definition parseUsingStatement :: "rec \<Rightarrow> jsval parse" where
  "parseUsingStatement r s =
     bind (createNode UsingStatement Undefined s) (\<lambda>node s.
     bind (parseExpected UsingKeyword s) (\<lambda>_ s.
     bind (usingLoop r [] s) (\<lambda>targetList s'.
     bind (createNodeList targetList (startPos s) s') (\<lambda>usingTargets s.
     bind (parseBlock r s) (\<lambda>block s.
     finishNode (assign ''block'' block (assign ''usingTargets'' usingTargets node)) s)))))"

subsection \<open>Declarations\<close>

definition isDeclaration :: "rec \<Rightarrow> bool parse" where
  "isDeclaration r s =
     (if ptoken s = VarKeyword \<or> ptoken s = LetKeyword \<or> ptoken s = ConstKeyword
         \<or> ptoken s = FunctionKeyword \<or> ptoken s = ClassKeyword \<or> ptoken s = EnumKeyword
      then Returns (True, s)
      else if ptoken s = NodeKeyword \<or> ptoken s = SubnetKeyword then isStartOfNode r s
      else if ptoken s = InterfaceKeyword \<or> ptoken s = TypeKeyword then
        bind (nextToken s) (\<lambda>_ s. Returns (isIdentifier s, s))
      else if ptoken s = NamespaceKeyword then
        bind (nextToken s) (\<lambda>_ s. Returns (isIdentifier s \<or> ptoken s = StringLiteral, s))
      else if ptoken s = AbstractKeyword \<or> ptoken s = AsyncKeyword then
        bind (nextToken s) (\<lambda>_ s. r_isDeclaration r s)
      else if ptoken s = ImportKeyword then
        bind (nextToken s) (\<lambda>_ s.
        Returns (ptoken s = StringLiteral \<or> ptoken s = AsteriskToken
                   \<or> ptoken s = OpenBraceToken \<or> isIdentifier s, s))
      else if ptoken s = ExportKeyword then
        bind (nextToken s) (\<lambda>_ s.
        if ptoken s = AsteriskToken \<or> ptoken s = OpenBraceToken \<or> ptoken s = DefaultKeyword
        then Returns (True, s)
        else r_isDeclaration r s)
      else Returns (False, s))"

definition isStartOfDeclaration :: "rec \<Rightarrow> bool parse" where
  "isStartOfDeclaration r = lookAhead id (isDeclaration r)"

text \<open>The loop of \<open>parseDecorators\<close>.\<close>

definition parseDecoratorsLoop :: "rec \<Rightarrow> jsval list \<Rightarrow> (jsval list) parse" where
  "parseDecoratorsLoop r list s =
     bind (parseOptional AtToken s) (\<lambda>at s'.
     if \<not> at then Returns (list, s')
     else
       bind (createNode Decorator (Num (startPos s)) s') (\<lambda>decorator s'.
       bind (parseLeftHandExp r s') (\<lambda>expression s'.
       bind (finishNode (assign ''expression'' expression decorator) s') (\<lambda>decorator s'.
       r_parseDecoratorsLoop r (list @ [decorator]) s'))))"

definition parseDecorators :: "rec \<Rightarrow> jsval parse" where
  "parseDecorators r s =
     bind (parseDecoratorsLoop r [] s) (\<lambda>list s'.
     if list = [] then Returns (Undefined, s') else createNodeList list (startPos s) s')"

definition isModifierKind :: "SyntaxKind \<Rightarrow> bool" where
  "isModifierKind t =
     (t = AbstractKeyword \<or> t = AsyncKeyword \<or> t = ConstKeyword \<or> t = DefaultKeyword
      \<or> t = ExportKeyword)"

definition nextTokenIsClassKeyword :: "bool parse" where
  "nextTokenIsClassKeyword s = bind (nextToken s) (\<lambda>_ s. Returns (ptoken s = ClassKeyword, s))"

definition nextTokenIsFunctionOrNodeOrSubnetKeyword :: "bool parse" where
  "nextTokenIsFunctionOrNodeOrSubnetKeyword s =
     bind (nextToken s) (\<lambda>_ s.
     Returns (ptoken s = FunctionKeyword \<or> ptoken s = NodeKeyword \<or> ptoken s = SubnetKeyword, s))"

definition tokenCanFollowDefaultKeyword :: "bool parse" where
  "tokenCanFollowDefaultKeyword s =
     (if ptoken s = ClassKeyword \<or> ptoken s = FunctionKeyword \<or> ptoken s = NodeKeyword
         \<or> ptoken s = SubnetKeyword then Returns (True, s)
      else if ptoken s = AbstractKeyword then
        bind (lookAhead id nextTokenIsClassKeyword s) (\<lambda>c s.
        if c then Returns (True, s)
        else Returns (False, s))
      else if ptoken s = AsyncKeyword then
        lookAhead id nextTokenIsFunctionOrNodeOrSubnetKeyword s
      else Returns (False, s))"

definition nextTokenIsIdentifier :: "bool parse" where
  "nextTokenIsIdentifier s = bind (nextToken s) (\<lambda>_ s. Returns (isIdentifier s, s))"

definition nextTokenIsIdentifierOrStringLiteral :: "bool parse" where
  "nextTokenIsIdentifierOrStringLiteral s =
     bind (nextToken s) (\<lambda>_ s. Returns (isIdentifier s \<or> ptoken s = StringLiteral, s))"

definition tokenCanFollowExportKeyword :: "bool parse" where
  "tokenCanFollowExportKeyword s =
     bind (tokenCanFollowDefaultKeyword s) (\<lambda>d s.
     if d then Returns (True, s)
     else if ptoken s = InterfaceKeyword \<or> ptoken s = TypeKeyword \<or> ptoken s = EnumKeyword
     then lookAhead id nextTokenIsIdentifier s
     else if ptoken s = NamespaceKeyword
     then lookAhead id nextTokenIsIdentifierOrStringLiteral s
     else Returns (False, s))"

definition nextTokenCanFollowModifier :: "bool parse" where
  "nextTokenCanFollowModifier s =
     (if ptoken s = ConstKeyword then
        bind (nextToken s) (\<lambda>t s. Returns (t = EnumKeyword, s))
      else if ptoken s = ExportKeyword then
        bind (nextToken s) (\<lambda>_ s.
        if ptoken s = DefaultKeyword then
          lookAhead id (\<lambda>s. bind (nextToken s) (\<lambda>_ s. tokenCanFollowDefaultKeyword s)) s
        else tokenCanFollowExportKeyword s)
      else if ptoken s = DefaultKeyword then
        bind (nextToken s) (\<lambda>_ s. tokenCanFollowDefaultKeyword s)
      else if ptoken s = AbstractKeyword then
        bind (nextToken s) (\<lambda>t s. Returns (t = ClassKeyword, s))
      else if ptoken s = AsyncKeyword then
        bind (nextToken s) (\<lambda>_ s.
        Returns (ptoken s = FunctionKeyword \<or> ptoken s = NodeKeyword
                   \<or> ptoken s = SubnetKeyword, s))
      else Returns (False, s))"

definition parseAnyContextualModifier :: "bool parse" where
  "parseAnyContextualModifier s =
     (if isModifierKind (ptoken s) then tryParse id nextTokenCanFollowModifier s
      else Returns (False, s))"

text \<open>The loop of \<open>parseModifiers\<close>.\<close>

definition parseModifiersLoop :: "rec \<Rightarrow> jsval list \<Rightarrow> (jsval list) parse" where
  "parseModifiersLoop r list s =
     bind (parseAnyContextualModifier s) (\<lambda>isModifier s'.
     if \<not> isModifier then Returns (list, s')
     else
       bind (createNode (ptoken s) (Num (startPos s)) s') (\<lambda>node s'.
       bind (finishNode node s') (\<lambda>modifier s'.
       r_parseModifiersLoop r (list @ [modifier]) s')))"

definition parseModifiers :: "rec \<Rightarrow> jsval parse" where
  "parseModifiers r s =
     bind (parseModifiersLoop r [] s) (\<lambda>list s'.
     if list = [] then Returns (Undefined, s') else createNodeList list (startPos s) s')"

text \<open>\<open>{} as any\<close>, what \<open>parseDeclarationWorker\<close> returns for the declarations it does
  not parse.\<close>

abbreviation (input) emptyObject :: jsval where "emptyObject \<equiv> Object []"

definition parseDeclarationWorker :: "rec \<Rightarrow> jsval \<Rightarrow> jsval parse" where
  "parseDeclarationWorker r node s =
     (if ptoken s = VarKeyword \<or> ptoken s = LetKeyword \<or> ptoken s = ConstKeyword then
        parseVariableDeclarationWithoutModifiers r False
          (assign ''kind'' (Num VariableDeclaration) node) s
      else if ptoken s = FunctionKeyword then
        parseFunctionWithoutModifiers r (assign ''kind'' (Num FunctionDeclaration) node) s
      else if ptoken s = ClassKeyword \<or> ptoken s = InterfaceKeyword \<or> ptoken s = TypeKeyword
              \<or> ptoken s = EnumKeyword \<or> ptoken s = NamespaceKeyword
              \<or> ptoken s = ImportKeyword \<or> ptoken s = ExportKeyword then
        Returns (emptyObject, s)
      else if ptoken s = NodeKeyword \<or> ptoken s = SubnetKeyword then
        parseNode_WithoutModifiers r (assign ''kind'' (Num NodeDeclaration) node) s
      else Returns (emptyObject, s))"

definition parseDeclaration :: "rec \<Rightarrow> jsval parse" where
  "parseDeclaration r s =
     bind (createNode Unknown Undefined s) (\<lambda>node s.
     bind (parseDecorators r s) (\<lambda>decorators s.
     bind (parseModifiers r s) (\<lambda>modifiers s.
     parseDeclarationWorker r
       ((if truthy modifiers then assign ''modifiers'' modifiers else id)
          ((if truthy decorators then assign ''decorators'' decorators else id) node)) s)))"

subsection \<open>\<open>parseStatement\<close> and \<open>parseSourceFile\<close>\<close>

definition parseStatement :: "rec \<Rightarrow> jsval parse" where
  "parseStatement r s =
     (if ptoken s = SemicolonToken then parseEmptyStatement s
      else if ptoken s = OpenBraceToken then parseBlock r s
      else if ptoken s = ContinueKeyword then parseBreakOrContinueStatement ContinueStatement s
      else if ptoken s = BreakKeyword then parseBreakOrContinueStatement BreakStatement s
      else if ptoken s = FallThroughKeyword then parseFallThroughStatement s
      else if ptoken s = ReturnKeyword then parseReturnStatement r s
      else if ptoken s = DebuggerKeyword then parseDebuggerStatement s
      else if ptoken s = IfKeyword then parseIfStatement r s
      else if ptoken s = ForKeyword then parseForOrForInOrForOfStatement r s
      else if ptoken s = SwitchKeyword then parseSwitchStatement r s
      else if ptoken s = TryKeyword then parseTryStatement r s
      else if ptoken s = UsingKeyword then parseUsingStatement r s
      else if ptoken s = AtToken then parseDeclaration r s
      else if ptoken s = ImportKeyword \<or> ptoken s = ExportKeyword \<or> ptoken s = VarKeyword
              \<or> ptoken s = LetKeyword \<or> ptoken s = ConstKeyword \<or> ptoken s = AbstractKeyword
              \<or> ptoken s = ClassKeyword \<or> ptoken s = AsyncKeyword \<or> ptoken s = FunctionKeyword
              \<or> ptoken s = NodeKeyword \<or> ptoken s = SubnetKeyword
              \<or> ptoken s = InterfaceKeyword \<or> ptoken s = TypeKeyword \<or> ptoken s = EnumKeyword
              \<or> ptoken s = NamespaceKeyword then
        bind (isStartOfDeclaration r s) (\<lambda>declaration s.
        if declaration then parseDeclaration r s
        else parseExpressionOrLabeledStatement r s)
      else parseExpressionOrLabeledStatement r s)"

text \<open>The table of productions for a fuel.\<close>

definition outOfFuel :: "rec" where
  "outOfFuel =
     \<lparr>reScan = (\<lambda>s. (token s, s)),
      r_parseStatement = (\<lambda>s. OutOfFuel),
      r_parseExpression = (\<lambda>s. OutOfFuel),
      r_parseConnectExp = (\<lambda>s. OutOfFuel),
      r_parseAssignExp = (\<lambda>s. OutOfFuel),
      r_parseBinaryExp = (\<lambda>precedence s. OutOfFuel),
      r_parseUnaryExp = (\<lambda>s. OutOfFuel),
      r_parseMemberExp = (\<lambda>s. OutOfFuel),
      r_parseListLoop = (\<lambda>kind parseElement list s. OutOfFuel),
      r_parseDelimitedListLoop = (\<lambda>kind parseElement list trailing s. OutOfFuel),
      r_parseExpressionRest = (\<lambda>expr s. OutOfFuel),
      r_parseConnectExpRest = (\<lambda>expr s. OutOfFuel),
      r_parseBinaryExpRest = (\<lambda>precedence leftOperand s. OutOfFuel),
      r_parseMemberExpRest = (\<lambda>expr s. OutOfFuel),
      r_parseCallExpRest = (\<lambda>expr s. OutOfFuel),
      r_parenLoop = (\<lambda>paren s. OutOfFuel),
      r_angleBracketLoop = (\<lambda>angleBracket s. OutOfFuel),
      r_nodeParenLoop = (\<lambda>paren s. OutOfFuel),
      r_isDeclaration = (\<lambda>s. OutOfFuel),
      r_parseDecoratorsLoop = (\<lambda>list s. OutOfFuel),
      r_parseModifiersLoop = (\<lambda>list s. OutOfFuel),
      r_parseTypeParametersLoop = (\<lambda>list s. OutOfFuel),
      r_parseTypeArgumentListLoop = (\<lambda>listTerminator list s. OutOfFuel),
      r_elifLoop = (\<lambda>elifClauseList s. OutOfFuel),
      r_usingLoop = (\<lambda>targetList s. OutOfFuel)\<rparr>"

primrec knot :: "(Parser \<Rightarrow> SyntaxKind \<times> Parser) \<Rightarrow> nat \<Rightarrow> rec" where
  "knot rescan 0 = outOfFuel\<lparr>reScan := rescan\<rparr>"
| "knot rescan (Suc n) =
     \<lparr>reScan = rescan,
      r_parseStatement = parseStatement (knot rescan n),
      r_parseExpression = parseExpression (knot rescan n),
      r_parseConnectExp = parseConnectExp (knot rescan n),
      r_parseAssignExp = parseAssignExp (knot rescan n),
      r_parseBinaryExp = parseBinaryExp (knot rescan n),
      r_parseUnaryExp = parseUnaryExp (knot rescan n),
      r_parseMemberExp = parseMemberExp (knot rescan n),
      r_parseListLoop = parseListLoop (knot rescan n),
      r_parseDelimitedListLoop = parseDelimitedListLoop (knot rescan n),
      r_parseExpressionRest = parseExpressionRest (knot rescan n),
      r_parseConnectExpRest = parseConnectExpRest (knot rescan n),
      r_parseBinaryExpRest = parseBinaryExpRest (knot rescan n),
      r_parseMemberExpRest = parseMemberExpRest (knot rescan n),
      r_parseCallExpRest = parseCallExpRest (knot rescan n),
      r_parenLoop = parenLoop (knot rescan n),
      r_angleBracketLoop = angleBracketLoop (knot rescan n),
      r_nodeParenLoop = nodeParenLoop (knot rescan n),
      r_isDeclaration = isDeclaration (knot rescan n),
      r_parseDecoratorsLoop = parseDecoratorsLoop (knot rescan n),
      r_parseModifiersLoop = parseModifiersLoop (knot rescan n),
      r_parseTypeParametersLoop = parseTypeParametersLoop (knot rescan n),
      r_parseTypeArgumentListLoop = parseTypeArgumentListLoop (knot rescan n),
      r_elifLoop = elifLoop (knot rescan n),
      r_usingLoop = usingLoop (knot rescan n)\<rparr>"

text \<open>
  The program state before the first call of \<open>parseSourceFile\<close>: the scanner's initial
  variables, and the parser's, which the source leaves \<open>undefined\<close>; \<open>initializeState\<close>
  and \<open>nextToken\<close> assign each of them before it is read.
\<close>

definition initialParser :: Parser where
  "initialParser =
     \<lparr>text = [], startPos = 0, tokenPos = 0, pos = 0, end = 0, token = Unknown,
      tokenValue = None, tokenFlags = TokenFlags_None, onError = False, errors = [],
      ptoken = Unknown, sourceText = [], fileName = [], nodeCount = 0, contextFlags = 0,
      parsingContext = 0, parseErrors = []\<rparr>"

definition initializeState :: "jsstring \<Rightarrow> Parser \<Rightarrow> Parser" where
  "initializeState text0 s =
     setOnError True
       (resetText text0
          (s\<lparr>sourceText := text0, parsingContext := 0, nodeCount := 0, contextFlags := 0\<rparr>))"

definition clearState :: "Parser \<Rightarrow> Parser" where
  "clearState s = (setOnError False (resetText [] s))\<lparr>sourceText := []\<rparr>"

definition initializeSourceFile :: "string \<Rightarrow> jsval parse" where
  "initializeSourceFile name s =
     Returns (assign ''fileName'' (Str (utf16 name)) (assign ''text'' (Str (sourceText s))
                (Object [(''pos'', Num 0), (''end'', Num (length (sourceText s))),
                         (''kind'', Num SourceFile), (''flags'', Num 0),
                         (''parent'', Undefined)])),
              s\<lparr>nodeCount := nodeCount s + 1, fileName := name\<rparr>)"

definition parseSourceFileWorker :: "rec \<Rightarrow> string \<Rightarrow> jsval parse" where
  "parseSourceFileWorker r name s =
     bind (initializeSourceFile name s) (\<lambda>sourceFile s.
     bind (nextToken s) (\<lambda>_ s.
     bind (parseList r SourceElements (r_parseStatement r) s) (\<lambda>statements s.
     bind (assert (ptoken s = EndOfFileToken) s) (\<lambda>_ s.
     Returns (assign ''nodeCount'' (Num (nodeCount s))
                (assign ''statements'' statements (assign ''flags'' (Num 0) sourceFile)), s)))))"

text \<open>\<open>parseSourceFile(fileName, sourceText)\<close>, run with \<open>fuel\<close> on the state \<open>s\<close> that
  earlier calls left.\<close>

definition parseSourceFile ::
  "(Parser \<Rightarrow> SyntaxKind \<times> Parser) \<Rightarrow> nat \<Rightarrow> string \<Rightarrow> jsstring \<Rightarrow> jsval parse" where
  "parseSourceFile rescan fuel name text0 s =
     bind (parseSourceFileWorker (knot rescan fuel) name (initializeState text0 s))
       (\<lambda>result s. Returns (result, clearState s))"
lemma textToKeyword_table:
  "textToKeyword v = map_of
  [([97, 98, 115, 116, 114, 97, 99, 116], 112),
   ([97, 110, 121], 115),
   ([97, 115], 113),
   ([97, 115, 115, 101, 114, 116, 115], 114),
   ([98, 105, 103, 105, 110, 116], 141),
   ([98, 111, 111, 108, 101, 97, 110], 118),
   ([98, 114, 101, 97, 107], 62),
   ([99, 97, 115, 101], 63),
   ([99, 97, 116, 99, 104], 64),
   ([99, 108, 97, 115, 115], 65),
   ([99, 111, 110, 116, 105, 110, 117, 101], 67),
   ([99, 111, 110, 115, 116], 66),
   ([99, 111, 110, 115, 116, 114, 117, 99, 116, 111, 114], 119),
   ([100, 101, 98, 117, 103, 103, 101, 114], 68),
   ([100, 101, 99, 108, 97, 114, 101], 120),
   ([100, 101, 102, 97, 117, 108, 116], 69),
   ([100, 101, 108, 101, 116, 101], 70),
   ([100, 111], 71),
   ([101, 108, 115, 101], 73),
   ([101, 110, 117, 109], 74),
   ([101, 108, 105, 102], 72),
   ([101, 120, 112, 111, 114, 116], 75),
   ([101, 120, 116, 101, 110, 100, 115], 76),
   ([102, 97, 108, 108, 116, 104, 114, 111, 117, 103, 104], 108),
   ([102, 97, 108, 115, 101], 77),
   ([102, 105, 110, 97, 108, 108, 121], 78),
   ([102, 111, 114], 79),
   ([102, 114, 111, 109], 139),
   ([102, 117, 110, 99, 116, 105, 111, 110], 80),
   ([103, 101, 116], 121),
   ([105, 102], 81),
   ([105, 109, 112, 108, 101, 109, 101, 110, 116, 115], 99),
   ([105, 109, 112, 111, 114, 116], 82),
   ([105, 110], 83),
   ([105, 110, 102, 101, 114], 122),
   ([105, 110, 115, 116, 97, 110, 99, 101, 111, 102], 84),
   ([105, 110, 116, 101, 114, 102, 97, 99, 101], 100),
   ([105, 115], 123),
   ([107, 101, 121, 111, 102], 124),
   ([108, 101, 116], 101),
   ([109, 111, 100, 117, 108, 101], 125),
   ([110, 97, 109, 101, 115, 112, 97, 99, 101], 126),
   ([110, 101, 118, 101, 114], 127),
   ([110, 101, 119], 85),
   ([110, 111, 100, 101], 109),
   ([110, 117, 108, 108], 86),
   ([110, 117, 109, 98, 101, 114], 130),
   ([111, 98, 106, 101, 99, 116], 131),
   ([112, 97, 99, 107, 97, 103, 101], 102),
   ([112, 114, 105, 118, 97, 116, 101], 103),
   ([112, 114, 111, 116, 101, 99, 116, 101, 100], 104),
   ([112, 117, 98, 108, 105, 99], 105),
   ([114, 101, 97, 100, 111, 110, 108, 121], 128),
   ([114, 101, 113, 117, 105, 114, 101], 129),
   ([103, 108, 111, 98, 97, 108], 140),
   ([114, 101, 116, 117, 114, 110], 87),
   ([115, 101, 116], 132),
   ([115, 116, 97, 116, 101], 143),
   ([115, 116, 97, 116, 105, 99], 106),
   ([115, 116, 114, 105, 110, 103], 133),
   ([115, 117, 98, 110, 101, 116], 110),
   ([115, 117, 112, 101, 114], 88),
   ([115, 119, 105, 116, 99, 104], 89),
   ([115, 121, 109, 98, 111, 108], 134),
   ([116, 104, 105, 115], 90),
   ([116, 104, 114, 111, 119], 91),
   ([116, 114, 117, 101], 92),
   ([116, 114, 121], 93),
   ([116, 121, 112, 101], 135),
   ([116, 121, 112, 101, 111, 102], 94),
   ([117, 110, 100, 101, 102, 105, 110, 101, 100], 136),
   ([117, 110, 105, 113, 117, 101], 137),
   ([117, 110, 107, 110, 111, 119, 110], 138),
   ([117, 115, 105, 110, 103], 111),
   ([118, 97, 114], 95),
   ([118, 111, 105, 100], 96),
   ([119, 104, 105, 108, 101], 97),
   ([119, 105, 116, 104], 98),
   ([121, 105, 101, 108, 100], 107),
   ([97, 115, 121, 110, 99], 116),
   ([97, 119, 97, 105, 116], 117),
   ([111, 102], 142)] v"
  by (simp add: textToKeyword_def keywordEntries_def utf16_def)

section \<open>Unfolding the recursion\<close>

text \<open>With fuel left, an entry of \<open>knot\<close> is the production itself, run with one unit less.\<close>

lemma knot_reScan: "reScan (knot rescan n) = rescan"
  by (cases n) (simp_all add: outOfFuel_def)

lemma knot_fields:
  "0 < n \<Longrightarrow> r_parseStatement (knot rescan n) = parseStatement (knot rescan (n - 1))"
  "0 < n \<Longrightarrow> r_parseExpression (knot rescan n) = parseExpression (knot rescan (n - 1))"
  "0 < n \<Longrightarrow> r_parseConnectExp (knot rescan n) = parseConnectExp (knot rescan (n - 1))"
  "0 < n \<Longrightarrow> r_parseAssignExp (knot rescan n) = parseAssignExp (knot rescan (n - 1))"
  "0 < n \<Longrightarrow> r_parseBinaryExp (knot rescan n) = parseBinaryExp (knot rescan (n - 1))"
  "0 < n \<Longrightarrow> r_parseUnaryExp (knot rescan n) = parseUnaryExp (knot rescan (n - 1))"
  "0 < n \<Longrightarrow> r_parseMemberExp (knot rescan n) = parseMemberExp (knot rescan (n - 1))"
  "0 < n \<Longrightarrow> r_parseListLoop (knot rescan n) = parseListLoop (knot rescan (n - 1))"
  "0 < n \<Longrightarrow> r_parseDelimitedListLoop (knot rescan n) = parseDelimitedListLoop (knot rescan (n - 1))"
  "0 < n \<Longrightarrow> r_parseExpressionRest (knot rescan n) = parseExpressionRest (knot rescan (n - 1))"
  "0 < n \<Longrightarrow> r_parseConnectExpRest (knot rescan n) = parseConnectExpRest (knot rescan (n - 1))"
  "0 < n \<Longrightarrow> r_parseBinaryExpRest (knot rescan n) = parseBinaryExpRest (knot rescan (n - 1))"
  "0 < n \<Longrightarrow> r_parseMemberExpRest (knot rescan n) = parseMemberExpRest (knot rescan (n - 1))"
  "0 < n \<Longrightarrow> r_parseCallExpRest (knot rescan n) = parseCallExpRest (knot rescan (n - 1))"
  "0 < n \<Longrightarrow> r_parenLoop (knot rescan n) = parenLoop (knot rescan (n - 1))"
  "0 < n \<Longrightarrow> r_angleBracketLoop (knot rescan n) = angleBracketLoop (knot rescan (n - 1))"
  "0 < n \<Longrightarrow> r_nodeParenLoop (knot rescan n) = nodeParenLoop (knot rescan (n - 1))"
  "0 < n \<Longrightarrow> r_isDeclaration (knot rescan n) = isDeclaration (knot rescan (n - 1))"
  "0 < n \<Longrightarrow> r_parseDecoratorsLoop (knot rescan n) = parseDecoratorsLoop (knot rescan (n - 1))"
  "0 < n \<Longrightarrow> r_parseModifiersLoop (knot rescan n) = parseModifiersLoop (knot rescan (n - 1))"
  "0 < n \<Longrightarrow> r_parseTypeParametersLoop (knot rescan n) = parseTypeParametersLoop (knot rescan (n - 1))"
  "0 < n \<Longrightarrow> r_parseTypeArgumentListLoop (knot rescan n) = parseTypeArgumentListLoop (knot rescan (n - 1))"
  "0 < n \<Longrightarrow> r_elifLoop (knot rescan n) = elifLoop (knot rescan (n - 1))"
  "0 < n \<Longrightarrow> r_usingLoop (knot rescan n) = usingLoop (knot rescan (n - 1))"
  by (cases n; simp)+

section \<open>Properties of the scanner\<close>

subsection \<open>Characters and the scanning loops\<close>


lemma Scanner_error_more [simp]: "Scanner.more (Scanner_error m s) = Scanner.more s"
  by (simp add: Scanner_error_def)

lemma charCodeAt_nth: "i < length t \<Longrightarrow> charCodeAt t i = Some (t ! i)"
  by (simp add: charCodeAt_def)

lemma charCodeAt_None: "length t \<le> i \<Longrightarrow> charCodeAt t i = None"
  by (simp add: charCodeAt_def)

lemma advanceWhile_takeWhile:
  "p \<le> lim \<Longrightarrow> lim \<le> length t \<Longrightarrow>
     advanceWhile P t lim p = p + length (takeWhile (\<lambda>c. P (Some c)) (drop p (take lim t)))"
proof (induction P t lim p rule: advanceWhile.induct)
  case (1 P t lim p)
  show ?case
  proof (cases "p < lim")
    case False
    with "1.prems" show ?thesis by (subst advanceWhile.simps) simp
  next
    case True
    with "1.prems" have d: "drop p (take lim t) = t ! p # drop (p + 1) (take lim t)"
      by (metis Cons_nth_drop_Suc Suc_eq_plus1 length_take min.absorb2 nth_take)
    show ?thesis
    proof (cases "P (Some (t ! p))")
      case False
      with True "1.prems" d show ?thesis
        by (subst advanceWhile.simps) (simp add: charCodeAt_def)
    next
      case P: True
      with True "1.prems" have c: "p < lim \<and> P (charCodeAt t p)" by (simp add: charCodeAt_def)
      from "1.IH" [OF c] True "1.prems"
      have "advanceWhile P t lim (p + 1)
              = p + 1 + length (takeWhile (\<lambda>c. P (Some c)) (drop (p + 1) (take lim t)))"
        by simp
      with c d P show ?thesis by (subst advanceWhile.simps) simp
    qed
  qed
qed

lemma scanStep_digit:
  assumes "pos s < end s" "codePointAt (text s) (pos s) = Some c" "49 \<le> c" "c \<le> 57"
  shows "scanStep s = emitNumber (scanNumber (s\<lparr>tokenPos := pos s\<rparr>))"
  using assms by (simp add: scanStep_def Let_def isDigit_def)

lemma takeWhile_digits:
  assumes "\<forall>c\<in>set ds. 48 \<le> c \<and> c \<le> 57"
    and "case rest of [] \<Rightarrow> True | c # cs \<Rightarrow> \<not> (48 \<le> c \<and> c \<le> 57)"
  shows "takeWhile (\<lambda>c. isDigit (Some c)) (ds @ rest) = ds"
proof -
  from assms(2) have "takeWhile (\<lambda>c. isDigit (Some c)) rest = []"
    by (cases rest) (auto simp: isDigit_def)
  with assms(1) show ?thesis by (simp add: takeWhile_append2 isDigit_def)
qed

lemma scanNumber_plain:
  assumes ds: "ds \<noteq> []" "\<forall>c\<in>set ds. 48 \<le> c \<and> c \<le> 57"
    and rest: "case rest of [] \<Rightarrow> True
               | c # cs \<Rightarrow> \<not> (48 \<le> c \<and> c \<le> 57) \<and> c \<noteq> 46 \<and> c \<noteq> 69 \<and> c \<noteq> 101"
    and s: "text s = ds @ rest" "pos s = 0" "tokenFlags s = 0"
  shows "scanNumber s = (ds, s\<lparr>pos := length ds\<rparr>)"
proof -
  from rest have r: "case rest of [] \<Rightarrow> True | c # cs \<Rightarrow> \<not> (48 \<le> c \<and> c \<le> 57)"
    by (cases rest) auto
  have adv: "advanceWhile isDigit (ds @ rest) (length ds + length rest) 0 = length ds"
    using advanceWhile_takeWhile [of 0 "length (ds @ rest)" "ds @ rest" isDigit]
      takeWhile_digits [OF ds(2) r] by simp
  from rest have nxt: "charCodeAt (ds @ rest) (length ds) \<noteq> Some 46"
     "charCodeAt (ds @ rest) (length ds) \<noteq> Some 69" "charCodeAt (ds @ rest) (length ds) \<noteq> Some 101"
    by (cases rest; simp add: charCodeAt_def nth_append)+
  show ?thesis
    using s adv nxt
    by (simp add: scanNumber_def scanNumberFragment_def scanDigitsWhile_def substring_def)
qed



lemma charCodeAt_eq_Some: "charCodeAt t i = Some c \<longleftrightarrow> i < length t \<and> t ! i = c"
  by (auto simp: charCodeAt_def)

lemma advanceWhile_step:
  "p < lim \<Longrightarrow> P (charCodeAt t p) \<Longrightarrow> p < advanceWhile P t lim p"
  using advanceWhile_ge [of "p + 1" P t lim] by (subst advanceWhile.simps) simp

lemma codePointAt_Some: "codePointAt t p = Some c \<Longrightarrow> p < length t"
  by (simp add: codePointAt_def split: if_splits)

lemma codePointAt_small:
  "codePointAt t p = Some c \<Longrightarrow> c < 0xD800 \<Longrightarrow> charCodeAt t p = Some c"
  by (auto simp: codePointAt_def charCodeAt_def split: if_splits)

lemma scanStringLoop_frame:
  "scanStringLoop q start result s = (v, s') \<Longrightarrow>
     pos s \<le> pos s' \<and> end s' = end s \<and> text s' = text s \<and> tokenPos s' = tokenPos s
       \<and> startPos s' = startPos s \<and> Scanner.more s' = Scanner.more s"
proof (induction q start result s arbitrary: v s' rule: scanStringLoop.induct)
  case (1 quote start result s)
  from "1.prems" show ?case
    apply (subst (asm) scanStringLoop.simps)
    apply (simp split: if_splits prod.splits)
    subgoal by auto
    subgoal by auto
    subgoal for esc s1
      using "1.IH"(1) [of esc s1 v s'] scanEscapeSequence_pos [of s esc s1]
      by (auto simp: scanEscapeSequence_def Let_def split: if_splits)
    subgoal by auto
    subgoal using "1.IH"(2) [of v s'] by auto
    done
qed

lemma scanEscapeSequence_le:
  "scanEscapeSequence s = (esc, s') \<Longrightarrow> pos s < end s \<Longrightarrow> pos s' \<le> end s"
  by (auto simp: scanEscapeSequence_def Let_def split: if_splits)

lemma scanStringLoop_le:
  "scanStringLoop q start result s = (v, s') \<Longrightarrow> pos s \<le> end s \<Longrightarrow> pos s' \<le> end s"
proof (induction q start result s arbitrary: v s' rule: scanStringLoop.induct)
  case (1 quote start result s)
  from "1.prems" show ?case
    apply (subst (asm) scanStringLoop.simps)
    apply (simp split: if_splits prod.splits)
    subgoal by auto
    subgoal by auto
    subgoal for esc s1
      using "1.IH"(1) [of esc s1 v s'] scanEscapeSequence_pos [of s esc s1]
        scanEscapeSequence_le [of s esc s1]
      by auto
    subgoal by auto
    subgoal using "1.IH"(2) [of v s'] by auto
    done
qed

lemma advanceWhile_le: "p \<le> lim \<Longrightarrow> advanceWhile P t lim p \<le> lim"
proof (induction P t lim p rule: advanceWhile.induct)
  case (1 P t lim p)
  show ?case
  proof (cases "p < lim \<and> P (charCodeAt t p)")
    case True
    with "1" have "advanceWhile P t lim (p + 1) \<le> lim" by simp
    with True show ?thesis by (subst advanceWhile.simps) simp
  next
    case False
    with "1.prems" show ?thesis by (subst advanceWhile.simps) auto
  qed
qed

lemma charCodeAt_Some_lt: "charCodeAt t p = Some c \<Longrightarrow> p < length t"
  by (simp add: charCodeAt_def split: if_splits)

lemma isDigit_codePointAt: "isDigit (codePointAt t p) \<Longrightarrow> isDigit (charCodeAt t p) \<and> p < length t"
  by (auto simp: isDigit_def codePointAt_def charCodeAt_def split: if_splits option.splits)

definition advances :: "'a Scanner_scheme \<Rightarrow> 'a Scanner_scheme \<Rightarrow> bool" where
  "advances s s' \<longleftrightarrow>
     pos s \<le> pos s' \<and> end s' = end s \<and> text s' = text s \<and> tokenPos s' = tokenPos s
       \<and> startPos s' = startPos s \<and> Scanner.more s' = Scanner.more s
       \<and> (pos s \<le> length (text s) \<longrightarrow> pos s' \<le> length (text s))"

lemma advances_refl: "advances s s"
  by (simp add: advances_def)

lemma advances_trans: "advances s s1 \<Longrightarrow> advances s1 s2 \<Longrightarrow> advances s s2"
  by (auto simp: advances_def)

lemma advances_error: "advances s s' \<Longrightarrow> advances s (Scanner_error m s')"
  by (auto simp: advances_def)

lemma advanceWhile_stop: "\<not> P (charCodeAt t p) \<Longrightarrow> advanceWhile P t lim p = p"
  by (subst advanceWhile.simps) simp

lemma scanDigitsWhile_frame:
  "scanDigitsWhile P s = (v, s') \<Longrightarrow>
     advances s s'
       \<and> (pos s < length (text s) \<and> P (charCodeAt (text s) (pos s)) \<longrightarrow> pos s < pos s')
       \<and> (\<not> P (charCodeAt (text s) (pos s)) \<longrightarrow> pos s' = pos s)"
  unfolding advances_def scanDigitsWhile_def
  by (auto simp: advanceWhile_ge advanceWhile_step advanceWhile_le advanceWhile_stop)

lemma scanNumber_frame:
  assumes "scanNumber s = (v, s')"
  shows "advances s s'
       \<and> (isDigit (charCodeAt (text s) (pos s)) \<or> charCodeAt (text s) (pos s) = Some ch_dot
              \<longrightarrow> pos s < pos s')"
proof -
  obtain m s1 where f1: "scanNumberFragment s = (m, s1)" by (cases "scanNumberFragment s")
  note a1 = scanDigitsWhile_frame [OF f1 [unfolded scanNumberFragment_def]]
  obtain d s2 where f2: "(if charCodeAt (text s1) (pos s1) = Some ch_dot
            then (case scanNumberFragment (s1\<lparr>pos := pos s1 + 1\<rparr>) of
                    (decimalFragment, s2) \<Rightarrow> (Some decimalFragment, s2))
            else (None, s1)) = (d, s2)"
    by (rule prod.exhaust)
  have a2: "advances s1 s2 \<and> (charCodeAt (text s1) (pos s1) = Some ch_dot \<longrightarrow> pos s1 < pos s2)"
  proof (cases "charCodeAt (text s1) (pos s1) = Some ch_dot")
    case False
    with f2 show ?thesis by (simp add: advances_refl)
  next
    case True
    obtain df s2' where g: "scanNumberFragment (s1\<lparr>pos := pos s1 + 1\<rparr>) = (df, s2')"
      by (rule prod.exhaust)
    from True f2 g have "s2' = s2" by simp
    with scanDigitsWhile_frame [OF g [unfolded scanNumberFragment_def]] True
    show ?thesis by (auto simp: advances_def dest: charCodeAt_Some_lt)
  qed
  obtain e s6 where f3: "(if charCodeAt (text s2) (pos s2) = Some ch_E \<or> charCodeAt (text s2) (pos s2) = Some ch_e
            then (let s3 = s2\<lparr>pos := pos s2 + 1, tokenFlags := tokenFlags s2 OR Scientific\<rparr>;
                      s4 = (if charCodeAt (text s3) (pos s3) = Some ch_plus
                               \<or> charCodeAt (text s3) (pos s3) = Some ch_minus
                            then s3\<lparr>pos := pos s3 + 1\<rparr> else s3)
                  in case scanNumberFragment s4 of (finalFragment, s5) \<Rightarrow>
                       if finalFragment = [] then (pos s2, Scanner_error ''Digit expected'' s5)
                       else (pos s5, s5))
            else (pos s2, s2)) = (e, s6)"
    by (rule prod.exhaust)
  have a3: "advances s2 s6"
  proof (cases "charCodeAt (text s2) (pos s2) = Some ch_E \<or> charCodeAt (text s2) (pos s2) = Some ch_e")
    case False
    with f3 show ?thesis by (auto simp: advances_refl)
  next
    case True
    define s3 where "s3 = s2\<lparr>pos := pos s2 + 1, tokenFlags := tokenFlags s2 OR Scientific\<rparr>"
    define s4 where "s4 = (if charCodeAt (text s3) (pos s3) = Some ch_plus
                               \<or> charCodeAt (text s3) (pos s3) = Some ch_minus
                            then s3\<lparr>pos := pos s3 + 1\<rparr> else s3)"
    obtain ff s5 where g: "scanNumberFragment s4 = (ff, s5)" by (rule prod.exhaust)
    from True have "advances s2 s3"
      by (auto simp: advances_def s3_def dest: charCodeAt_Some_lt)
    moreover have "advances s3 s4"
      by (auto simp: advances_def s4_def dest: charCodeAt_Some_lt)
    moreover from scanDigitsWhile_frame [OF g [unfolded scanNumberFragment_def]]
    have "advances s4 s5" by simp
    ultimately have "advances s2 s5" by (blast intro: advances_trans)
    moreover from True f3
    have "(case scanNumberFragment s4 of (finalFragment, s5) \<Rightarrow>
             if finalFragment = [] then (pos s2, Scanner_error ''Digit expected'' s5)
             else (pos s5, s5)) = (e, s6)"
      unfolding s4_def s3_def Let_def by (simp only: if_True)
    with g have "s6 = s5 \<or> s6 = Scanner_error ''Digit expected'' s5"
      by (auto split: if_splits)
    ultimately show ?thesis by (auto intro: advances_error)
  qed
  from assms f1 f2 f3 have "s' = s6"
    by (simp add: scanNumber_def)
  moreover from a1 a2 a3 have "advances s s6" by (blast intro: advances_trans)
  moreover have "pos s < pos s6" if "isDigit (charCodeAt (text s) (pos s))"
  proof -
    from that have "pos s < length (text s)"
      by (auto simp: isDigit_def dest: charCodeAt_Some_lt split: option.splits)
    with a1 that have "pos s < pos s1" by simp
    with a2 a3 show ?thesis by (auto simp: advances_def)
  qed
  moreover have "pos s < pos s6" if "charCodeAt (text s) (pos s) = Some ch_dot"
  proof -
    from that have "\<not> isDigit (charCodeAt (text s) (pos s))" by (simp add: isDigit_def)
    with a1 have "pos s1 = pos s" "text s1 = text s" by (simp_all add: advances_def)
    with that a2 have "pos s < pos s2" by simp
    with a3 show ?thesis by (auto simp: advances_def)
  qed
  ultimately show ?thesis by blast
qed

lemma codePointAt_eq_small:
  "c < 0xD800 \<Longrightarrow> codePointAt t p = Some c \<longleftrightarrow> charCodeAt t p = Some c"
  by (auto simp: codePointAt_def charCodeAt_def)

lemma isDigit_codePointAt_eq: "isDigit (codePointAt t p) = isDigit (charCodeAt t p)"
  by (auto simp: isDigit_def codePointAt_def charCodeAt_def)

definition scanned :: "'a Scanner_scheme \<Rightarrow> 'a Scanner_scheme step \<Rightarrow> bool" where
  "scanned s r =
     (case r of
        Continue s' \<Rightarrow>
          Scanner.more s' = Scanner.more s
            \<and> (pos s \<le> end s \<and> end s = length (text s) \<longrightarrow> pos s' \<le> end s)
      | Return s' \<Rightarrow>
          tokenPos s' = pos s \<and> end s' = end s \<and> text s' = text s \<and> startPos s' = startPos s
            \<and> Scanner.more s' = Scanner.more s \<and> token s' \<noteq> ColonEqualsToken
            \<and> pos s \<le> pos s' \<and> (token s' \<noteq> EndOfFileToken \<longrightarrow> pos s < pos s')
            \<and> (pos s \<le> end s \<and> end s = length (text s) \<longrightarrow> pos s' \<le> end s))"

lemma scanned_emit:
  "k \<noteq> ColonEqualsToken \<Longrightarrow> 0 < n \<Longrightarrow> (pos s < length (text s) \<Longrightarrow> pos s + n \<le> length (text s)) \<Longrightarrow> pos s < end s \<Longrightarrow>
     scanned s (emit n k (s\<lparr>tokenPos := pos s\<rparr>))"
  by (auto simp: scanned_def emit_def)

lemma scanned_emit_error:
  "k \<noteq> ColonEqualsToken \<Longrightarrow> 0 < n \<Longrightarrow> (pos s < length (text s) \<Longrightarrow> pos s + n \<le> length (text s)) \<Longrightarrow> pos s < end s \<Longrightarrow>
     scanned s (emit n k (Scanner_error m (s\<lparr>tokenPos := pos s\<rparr>)))"
  by (auto simp: scanned_def emit_def)

lemma scanned_Continue:
  "scanned s (Continue s') \<longleftrightarrow>
     Scanner.more s' = Scanner.more s
       \<and> (pos s \<le> end s \<and> end s = length (text s) \<longrightarrow> pos s' \<le> end s)"
  by (simp add: scanned_def)

lemma skipMultiLineComment_more:
  "skipMultiLineComment s = (closed, s') \<Longrightarrow> Scanner.more s' = Scanner.more s"
proof (induction s arbitrary: closed s' rule: skipMultiLineComment.induct)
  case (1 s)
  show ?case
  proof (cases "pos s < end s")
    case False
    with "1.prems" show ?thesis by (subst (asm) skipMultiLineComment.simps) auto
  next
    case inside: True
    show ?thesis
    proof (cases "charCodeAt (text s) (pos s) = Some ch_asterisk
                    \<and> charCodeAt (text s) (pos s + 1) = Some ch_slash")
      case True
      with inside "1.prems" show ?thesis
        by (subst (asm) skipMultiLineComment.simps) auto
    next
      case False
      define s1 where "s1 = (if isLineBreak (charCodeAt (text s) (pos s))
                  then s\<lparr>tokenFlags := tokenFlags s OR PrecedingLineBreak\<rparr> else s)
                 \<lparr>pos := pos s + 1\<rparr>"
      from False inside "1.prems" have run: "skipMultiLineComment s1 = (closed, s')"
        unfolding s1_def by (subst (asm) skipMultiLineComment.simps) (simp split: if_splits)
      have "Scanner.more s1 = Scanner.more s" by (simp add: s1_def)
      with "1.IH" [OF inside False, folded s1_def, OF run]
      show ?thesis by simp
    qed
  qed
qed

lemma skipMultiLineComment_le:
  "skipMultiLineComment s = (closed, s') \<Longrightarrow> pos s \<le> end s \<Longrightarrow> end s = length (text s) \<Longrightarrow>
     pos s' \<le> end s"
proof (induction s arbitrary: closed s' rule: skipMultiLineComment.induct)
  case (1 s)
  show ?case
  proof (cases "pos s < end s")
    case False
    with "1.prems" show ?thesis by (subst (asm) skipMultiLineComment.simps) auto
  next
    case inside: True
    show ?thesis
    proof (cases "charCodeAt (text s) (pos s) = Some ch_asterisk
                    \<and> charCodeAt (text s) (pos s + 1) = Some ch_slash")
      case True
      with inside "1.prems" show ?thesis
        by (subst (asm) skipMultiLineComment.simps) (auto simp: charCodeAt_eq_Some)
    next
      case False
      define s1 where "s1 = (if isLineBreak (charCodeAt (text s) (pos s))
                  then s\<lparr>tokenFlags := tokenFlags s OR PrecedingLineBreak\<rparr> else s)
                 \<lparr>pos := pos s + 1\<rparr>"
      from False inside "1.prems" have run: "skipMultiLineComment s1 = (closed, s')"
        unfolding s1_def by (subst (asm) skipMultiLineComment.simps) (simp split: if_splits)
      have "pos s1 \<le> end s1" "end s1 = length (text s1)" "end s1 = end s"
        using inside "1.prems"(3) by (auto simp: s1_def)
      with "1.IH" [OF inside False, folded s1_def, OF run]
      show ?thesis by simp
    qed
  qed
qed

lemma scanned_comment:
  assumes "pos s + 1 < length (text s)"
  shows "scanned s (case skipMultiLineComment (s\<lparr>tokenPos := pos s, pos := Suc (Suc (pos s))\<rparr>) of
                    (commentClosed, s1) \<Rightarrow>
                      Continue (if commentClosed then s1 else Scanner_error m s1))"
proof -
  obtain v s1 where f: "skipMultiLineComment (s\<lparr>tokenPos := pos s, pos := Suc (Suc (pos s))\<rparr>) = (v, s1)"
    by (rule prod.exhaust)
  from skipMultiLineComment_le [OF f] skipMultiLineComment_more [OF f] assms show ?thesis
    unfolding f by (auto simp: scanned_def)
qed

lemma scanned_lineComment:
  assumes "pos s + 1 < length (text s)"
  shows "scanned s (Continue (s\<lparr>tokenPos := pos s,
            pos := advanceWhile P (text s) (end s) (pos s + 2)\<rparr>))"
  using assms advanceWhile_le [of "pos s + 2" "end s" P "text s"]
  by (auto simp: scanned_def)

lemma scanned_number:
  assumes "isDigit (charCodeAt (text s) (pos s)) \<or> charCodeAt (text s) (pos s) = Some ch_dot"
  shows "scanned s (emitNumber (scanNumber (s\<lparr>tokenPos := pos s\<rparr>)))"
proof -
  obtain v s1 where f: "scanNumber (s\<lparr>tokenPos := pos s\<rparr>) = (v, s1)" by (rule prod.exhaust)
  from scanNumber_frame [OF f] assms show ?thesis
    by (auto simp: f emitNumber_def scanned_def advances_def)
qed

lemma scanned_string:
  assumes "pos s < end s"
  shows "scanned s (case scanString (s\<lparr>tokenPos := pos s\<rparr>) of (v, s1) \<Rightarrow>
           Return (s1\<lparr>tokenValue := Some v, token := StringLiteral\<rparr>))"
proof -
  obtain v s1 where f: "scanString (s\<lparr>tokenPos := pos s\<rparr>) = (v, s1)" by (rule prod.exhaust)
  from scanStringLoop_frame [OF f [unfolded scanString_def]]
    scanStringLoop_le [OF f [unfolded scanString_def]] assms
  show ?thesis by (auto simp: f scanned_def)
qed

lemma scanned_prefixed:
  assumes "pos s + 2 < end s"
  shows "scanned s (scanPrefixedNumber (scanDigitsWhile P) m radix flag (s\<lparr>tokenPos := pos s\<rparr>))"
proof -
  obtain v s1 where f: "scanDigitsWhile P (s\<lparr>tokenPos := pos s, pos := pos s + 2\<rparr>) = (v, s1)"
    by (rule prod.exhaust)
  from scanDigitsWhile_frame [OF f] assms f show ?thesis
    by (auto simp: scanPrefixedNumber_def scanned_def advances_def Let_def)
qed

lemma scanned_octal:
  assumes "charCodeAt (text s) (pos s) = Some ch_0"
  shows "scanned s (case scanOctalDigits (s\<lparr>tokenPos := pos s\<rparr>) of (digits, s1) \<Rightarrow>
          Return (s1\<lparr>tokenValue := Some (numberToString (parseInt digits 8)),
                     tokenFlags := tokenFlags s1 OR Octal, token := NumericLiteral\<rparr>))"
proof -
  obtain v s1 where f: "scanDigitsWhile isOctalDigit (s\<lparr>tokenPos := pos s\<rparr>) = (v, s1)"
    by (rule prod.exhaust)
  from scanDigitsWhile_frame [OF f] assms show ?thesis
    by (auto simp: f scanOctalDigits_def scanned_def advances_def isOctalDigit_def
          charCodeAt_eq_Some)
qed

lemma scanned_identifier:
  assumes "pos s < end s" "k \<noteq> ColonEqualsToken"
  shows "scanned s (Return (s\<lparr>tokenPos := pos s, pos := advanceWhile P (text s) (end s) (Suc (pos s)),
            tokenValue := v, token := k\<rparr>))"
  using assms advanceWhile_le [of "pos s + 1" "end s" P "text s"]
    advanceWhile_ge [of "pos s + 1" P "text s" "end s"]
  by (auto simp: scanned_def)

lemmas scanned_intros = scanned_emit scanned_emit_error scanned_number scanned_string
  scanned_prefixed [of _ isHexDigit, folded scanHexDigits_def]
  scanned_prefixed [of _ isBinaryDigit, folded scanBinaryDigits_def]
  scanned_prefixed [of _ isOctalDigit, folded scanOctalDigits_def]
  scanned_octal scanned_identifier scanned_comment scanned_lineComment

lemma textToKeyword_range:
  assumes "textToKeyword v = Some k"
  shows "FirstReservedWord \<le> k \<and> k \<le> StateKeyword"
proof -
  from assms have "(v, k) \<in> set (map (\<lambda>(w, kind). (utf16 w, kind)) keywordEntries)"
    unfolding textToKeyword_def by (rule map_of_SomeD)
  then have "k \<in> snd ` set keywordEntries" by force
  then show ?thesis unfolding keywordEntries_def by auto
qed

lemma checkReservedWord_range:
  "checkReservedWord v = Identifier
     \<or> FirstReservedWord \<le> checkReservedWord v \<and> checkReservedWord v \<le> StateKeyword"
  using textToKeyword_range [of v]
  by (auto simp: checkReservedWord_def split: option.splits)

lemma checkReservedWord_not_walrus [simp]: "checkReservedWord v \<noteq> ColonEqualsToken"
  using checkReservedWord_range [of v] by auto

lemma scanStep_punct:
  assumes "pos s < end s" "codePointAt (text s) (pos s) = Some c"
    "c \<in> set [10, 13, 9, 11, 12, 32, 33, 37, 38, 40, 41, 42, 43, 44, 45, 46, 47, 58, 59, 60, 62,
        61, 63, 91, 93, 94, 123, 124, 125, 126, 64, 92, 34, 39]"
  shows "scanned s (scanStep s)"
proof -
  from assms(2) have len: "pos s < length (text s)" by (rule codePointAt_Some)
  from assms(3) have cc: "charCodeAt (text s) (pos s) = Some c"
    using assms(2) by (auto simp: codePointAt_eq_small)
  show ?thesis
    using assms(3) apply simp
    apply (elim disjE)
    using assms(1,2) len cc
    apply (simp_all add: scanStep_def Let_def scanned_intros scanned_Continue charCodeAt_eq_Some isDigit_def
       split del: if_split)
    apply (simp_all add: scanned_intros scanned_Continue charCodeAt_eq_Some isDigit_def
       advanceWhile_le split: option.split)
    done
qed

lemma scanStep_other:
  assumes "pos s < end s"
    "codePointAt (text s) (pos s) \<notin> Some ` set [10, 13, 9, 11, 12, 32, 33, 37, 38, 40, 41, 42, 43, 44, 45, 46, 47, 58, 59, 60, 62,
        61, 63, 91, 93, 94, 123, 124, 125, 126, 64, 92, 34, 39]"
  shows "scanned s (scanStep s)"
  using assms
  apply (simp add: scanStep_def Let_def split del: if_split)
  apply (simp add: scanned_intros codePointAt_eq_small isDigit_codePointAt_eq Let_def)
  done

lemma scanStep_eof:
  assumes "end s \<le> pos s"
  shows "scanStep s = Return (s\<lparr>tokenPos := pos s, token := EndOfFileToken\<rparr>)"
  using assms by (simp add: scanStep_def Let_def)

lemma scanStep_scanned: "scanned s (scanStep s)"
proof (cases "pos s < end s")
  case False
  then show ?thesis by (simp add: scanStep_eof scanned_def)
next
  case True
  show ?thesis
  proof (cases "codePointAt (text s) (pos s) \<in> Some ` set [10, 13, 9, 11, 12, 32, 33, 37, 38, 40, 41, 42, 43, 44, 45, 46, 47, 58, 59, 60, 62,
        61, 63, 91, 93, 94, 123, 124, 125, 126, 64, 92, 34, 39]")
    case False
    with True show ?thesis by (rule scanStep_other)
  next
    case c: True
    then obtain c where "codePointAt (text s) (pos s) = Some c" 
      "c \<in> set [10, 13, 9, 11, 12, 32, 33, 37, 38, 40, 41, 42, 43, 44, 45, 46, 47, 58, 59, 60, 62,
        61, 63, 91, 93, 94, 123, 124, 125, 126, 64, 92, 34, 39]" by auto
    with True show ?thesis by (rule scanStep_punct)
  qed
qed

subsection \<open>One call of \<open>scan\<close>\<close>

text \<open>What every call of \<open>scan\<close> does to the scanner's variables, whatever the text.\<close>

lemma scanLoop_frame:
  "end (scanLoop s) = end s \<and> text (scanLoop s) = text s \<and> startPos (scanLoop s) = startPos s
     \<and> Scanner.more (scanLoop s) = Scanner.more s
     \<and> pos s \<le> tokenPos (scanLoop s) \<and> tokenPos (scanLoop s) \<le> pos (scanLoop s)
     \<and> token (scanLoop s) \<noteq> ColonEqualsToken
     \<and> (token (scanLoop s) \<noteq> EndOfFileToken \<longrightarrow> tokenPos (scanLoop s) < pos (scanLoop s))
     \<and> (pos s \<le> end s \<and> end s = length (text s) \<longrightarrow> pos (scanLoop s) \<le> end s)"
proof (induction s rule: scanLoop.induct)
  case (1 s)
  show ?case
  proof (cases "scanStep s")
    case (Return s')
    then have loop: "scanLoop s = s'" by (subst scanLoop.simps) simp
    from scanStep_scanned [of s] Return show ?thesis
      unfolding loop by (auto simp: scanned_def)
  next
    case (Continue s')
    from scanStep_Continue [OF Continue]
    have a: "pos s < pos s'" "pos s < end s" "end s' = end s" "text s' = text s"
      "startPos s' = startPos s" by simp_all
    from scanStep_scanned [of s] Continue a
    have b: "Scanner.more s' = Scanner.more s" "end s = length (text s) \<longrightarrow> pos s' \<le> end s"
      by (auto simp: scanned_def)
    have loop: "scanLoop s = scanLoop s'"
      using Continue by (subst scanLoop.simps) simp
    from "1.IH" [OF Continue] a b show ?thesis
      unfolding loop by auto
  qed
qed

lemma scan_frame:
  "end (scan s) = end s \<and> text (scan s) = text s \<and> startPos (scan s) = pos s
     \<and> Scanner.more (scan s) = Scanner.more s
     \<and> pos s \<le> tokenPos (scan s) \<and> tokenPos (scan s) \<le> pos (scan s)
     \<and> token (scan s) \<noteq> ColonEqualsToken
     \<and> (token (scan s) \<noteq> EndOfFileToken \<longrightarrow> tokenPos (scan s) < pos (scan s))
     \<and> (pos s \<le> end s \<and> end s = length (text s) \<longrightarrow> pos (scan s) \<le> end s)"
  using scanLoop_frame [of "s\<lparr>startPos := pos s, tokenFlags := TokenFlags_None\<rparr>"]
  by (simp add: scan_def)

text \<open>The rules that evaluate the scanner on a given text.\<close>

lemma replicate_unfold: "replicate n x = (if n = 0 then [] else x # replicate (n - 1) x)"
  by (cases n) simp_all

lemmas scan_eval =
  scan_def scanLoop.simps scanStep_def emit_def emitNumber_def scanPrefixedNumber_def
  scanNumber_def scanNumberFragment_def scanHexDigits_def scanBinaryDigits_def
  scanOctalDigits_def scanDigitsWhile_def advanceWhile.simps charCodeAt_def codePointAt_def
  substring_def isDigit_def isLineBreak_def isOctalDigit_def isHexDigit_def isBinaryDigit_def
  isIdentifierStart_def isIdentifierPart_def resetText_def resetPos_def setTextRange_def
  setOnError_def Scanner_error_def numberToString_def parseInt_def digitValue_def
  isDigitOfRadix_def digitsOf.simps utf16_def Let_def scanString_def scanStringLoop.simps
  scanEscapeSequence_def skipMultiLineComment.simps normalizeDecimalLiteral_def
  decimalToString_def stripZeros.simps decimalOf_def isDecimalDigit_def checkReservedWord_def
  textToKeyword_table isIdentifier_def isReservedWord_def hasPrecedingLineBreak_def
  tokenText_def initialScanner_def replicate_unfold

section \<open>Numeric literals\<close>

lemma scan_hex_literal:
  "scan (resetText (utf16 ''0x1A'') s) =
     (resetText (utf16 ''0x1A'') s)
       \<lparr>pos := 4, tokenValue := Some (utf16 ''26''), tokenFlags := HexSpecifier,
        token := NumericLiteral\<rparr>"
  by (simp add: scan_eval cong: prod.case_cong_weak let_weak_cong)

lemma scan_octal_literal:
  "scan (resetText (utf16 ''0o17'') s) =
     (resetText (utf16 ''0o17'') s)
       \<lparr>pos := 4, tokenValue := Some (utf16 ''15''), tokenFlags := OctalSpecifier,
        token := NumericLiteral\<rparr>"
  by (simp add: scan_eval cong: prod.case_cong_weak let_weak_cong)

lemma scan_legacy_octal_literal:
  "scan (resetText (utf16 ''0755'') s) =
     (resetText (utf16 ''0755'') s)
       \<lparr>pos := 4, tokenValue := Some (utf16 ''493''), tokenFlags := Octal,
        token := NumericLiteral\<rparr>"
  by (simp add: scan_eval cong: prod.case_cong_weak let_weak_cong)

lemma scan_scientific_literal:
  "scan (resetText (utf16 ''1.5e2'') s) =
     (resetText (utf16 ''1.5e2'') s)
       \<lparr>pos := 5, tokenValue := Some (utf16 ''150''), tokenFlags := Scientific,
        token := NumericLiteral\<rparr>"
  by (simp add: scan_eval cong: prod.case_cong_weak let_weak_cong)

lemma scan_fraction_literal:
  "tokenValue (scan (resetText (utf16 ''1.50'') s)) = Some (utf16 ''1.5'')"
  by (simp add: scan_eval cong: prod.case_cong_weak let_weak_cong)

lemma scan_exponent_literal:
  "tokenValue (scan (resetText (utf16 ''10e2'') s)) = Some (utf16 ''1000'')"
  by (simp add: scan_eval cong: prod.case_cong_weak let_weak_cong)

lemma scan_plain_decimal:
  assumes ds: "ds \<noteq> []" "\<forall>c\<in>set ds. 48 \<le> c \<and> c \<le> 57" "hd ds \<noteq> 48"
    and rest: "case rest of [] \<Rightarrow> True
               | c # cs \<Rightarrow> \<not> (48 \<le> c \<and> c \<le> 57) \<and> c \<noteq> 46 \<and> c \<noteq> 69 \<and> c \<noteq> 101"
  shows "scan (resetText (ds @ rest) s) =
           (resetText (ds @ rest) s)
             \<lparr>pos := length ds, tokenValue := Some ds, token := NumericLiteral\<rparr>"
proof -
  define s0 where "s0 = resetText (ds @ rest) s"
  have s0: "text s0 = ds @ rest" "pos s0 = 0" "end s0 = length ds + length rest"
    "tokenFlags s0 = 0" "tokenPos s0 = 0"
    by (simp_all add: s0_def resetText_def resetPos_def)
  have start: "s0\<lparr>startPos := pos s0, tokenFlags := TokenFlags_None\<rparr> = s0"
    by (simp add: s0_def resetText_def resetPos_def)
  from ds obtain d ds' where d: "ds = d # ds'" "49 \<le> d" "d \<le> 57"
    by (cases ds) (auto simp: le_Suc_eq)
  then have cp: "codePointAt (text s0) (pos s0) = Some d"
    by (simp add: s0 codePointAt_eq_small charCodeAt_def)
  have "scanStep s0 = emitNumber (scanNumber (s0\<lparr>tokenPos := pos s0\<rparr>))"
    using d by (intro scanStep_digit [OF _ cp]) (simp_all add: s0)
  moreover have "s0\<lparr>tokenPos := pos s0\<rparr> = s0"
    using s0(2,5) by simp
  moreover have "scanNumber s0 = (ds, s0\<lparr>pos := length ds\<rparr>)"
    using scanNumber_plain [OF ds(1,2) rest, of s0] by (simp add: s0)
  ultimately have "scanLoop s0
      = s0\<lparr>pos := length ds, tokenValue := Some ds, token := NumericLiteral\<rparr>"
    by (subst scanLoop.simps) (simp add: emitNumber_def)
  then show ?thesis
    unfolding scan_def s0_def [symmetric] start .
qed

text \<open>
  Claim C6. Scanning \<open>0x1A\<close> yields the token value \<open>26\<close> with the flag \<open>HexSpecifier\<close>,
  \<open>0o17\<close> yields \<open>15\<close> with \<open>OctalSpecifier\<close>, \<open>0755\<close> yields \<open>493\<close> with the legacy flag
  \<open>Octal\<close>, and \<open>1.5e2\<close> yields \<open>150\<close>; a fraction or an exponent sends the literal through
  the numeric normalisation (\<open>1.50\<close> gives \<open>1.5\<close>, \<open>10e2\<close> gives \<open>1000\<close>). A decimal literal
  with no fraction and no exponent keeps its digits as the token value: for digits \<open>ds\<close>
  that do not begin with \<open>0\<close>, followed by the end of the text or by a character that is
  not a digit, a dot or an \<open>e\<close>, the value is \<open>ds\<close> itself, however long, and no flag is
  set. The scanner starts from any state \<open>s\<close> on which \<open>resetText\<close> has loaded the text.
\<close>

theorem scan_numeric_literal:
  fixes s :: "'a Scanner_scheme"
  shows
    "(let s' = scan (resetText (utf16 ''0x1A'') s)
      in token s' = NumericLiteral \<and> tokenValue s' = Some (utf16 ''26'')
           \<and> tokenFlags s' AND HexSpecifier \<noteq> 0)
     \<and> (let s' = scan (resetText (utf16 ''0o17'') s)
        in token s' = NumericLiteral \<and> tokenValue s' = Some (utf16 ''15'')
             \<and> tokenFlags s' AND OctalSpecifier \<noteq> 0)
     \<and> (let s' = scan (resetText (utf16 ''0755'') s)
        in token s' = NumericLiteral \<and> tokenValue s' = Some (utf16 ''493'')
             \<and> tokenFlags s' AND Octal \<noteq> 0)
     \<and> (let s' = scan (resetText (utf16 ''1.5e2'') s)
        in token s' = NumericLiteral \<and> tokenValue s' = Some (utf16 ''150''))
     \<and> tokenValue (scan (resetText (utf16 ''1.50'') s)) = Some (utf16 ''1.5'')
     \<and> tokenValue (scan (resetText (utf16 ''10e2'') s)) = Some (utf16 ''1000'')
     \<and> (ds \<noteq> [] \<and> (\<forall>c\<in>set ds. 48 \<le> c \<and> c \<le> 57) \<and> hd ds \<noteq> 48
          \<and> (case rest of [] \<Rightarrow> True
               | c # cs \<Rightarrow> \<not> (48 \<le> c \<and> c \<le> 57) \<and> c \<noteq> 46 \<and> c \<noteq> 69 \<and> c \<noteq> 101)
        \<longrightarrow> (let s' = scan (resetText (ds @ rest) s)
             in token s' = NumericLiteral \<and> tokenValue s' = Some ds \<and> tokenFlags s' = 0
                  \<and> tokenPos s' = 0 \<and> pos s' = length ds))"
proof -
  have "tokenValue (scan (resetText (utf16 ''1.50'') s)) = Some (utf16 ''1.5'')"
    by (rule scan_fraction_literal)
  moreover have "tokenValue (scan (resetText (utf16 ''10e2'') s)) = Some (utf16 ''1000'')"
    by (rule scan_exponent_literal)
  moreover have "let s' = scan (resetText (ds @ rest) s)
             in token s' = NumericLiteral \<and> tokenValue s' = Some ds \<and> tokenFlags s' = 0
                  \<and> tokenPos s' = 0 \<and> pos s' = length ds"
    if "ds \<noteq> [] \<and> (\<forall>c\<in>set ds. 48 \<le> c \<and> c \<le> 57) \<and> hd ds \<noteq> 48
          \<and> (case rest of [] \<Rightarrow> True
               | c # cs \<Rightarrow> \<not> (48 \<le> c \<and> c \<le> 57) \<and> c \<noteq> 46 \<and> c \<noteq> 69 \<and> c \<noteq> 101)"
    using that scan_plain_decimal [of ds rest s]
    by (simp add: resetText_def resetPos_def)
  ultimately show ?thesis
    by (simp add: scan_hex_literal scan_octal_literal scan_legacy_octal_literal
          scan_scientific_literal)
qed

theorem scan_numeric_literal_witness:
  "(let s' = scan (resetText (utf16 ''12345678901234567890123 '') initialScanner)
    in token s' = NumericLiteral \<and> tokenValue s' = Some (utf16 ''12345678901234567890123'')
         \<and> tokenFlags s' = 0 \<and> tokenPos s' = 0)"
  using scan_numeric_literal [of initialScanner "utf16 ''12345678901234567890123''" "utf16 '' ''"]
  by (simp add: utf16_def Let_def)

lemma isIdentifierPart_codePointAt:
  "isIdentifierPart (codePointAt t p) = isIdentifierPart (charCodeAt t p)"
  by (auto simp: isIdentifierPart_def codePointAt_def charCodeAt_def)

section \<open>Progress of \<open>scan\<close>\<close>

lemma digit_cases:
  fixes c :: nat
  assumes "48 \<le> c" "c \<le> 57"
  shows "c = 48 \<or> c = 49 \<or> c = 50 \<or> c = 51 \<or> c = 52 \<or> c = 53 \<or> c = 54 \<or> c = 55 \<or> c = 56
           \<or> c = 57"
  using assms by presburger

lemma scan_invalid_character:
  assumes "pos s < end s"
    and "codePointAt (text s) (pos s) \<notin> Some ` set caseLabels"
    and "\<not> isIdentifierStart (codePointAt (text s) (pos s))"
  shows "scan s =
           (Scanner_error ''Invalid character''
              (s\<lparr>startPos := pos s, tokenFlags := TokenFlags_None, tokenPos := pos s\<rparr>))
             \<lparr>pos := pos s + 1, token := Unknown\<rparr>"
proof -
  define s0 where "s0 = s\<lparr>startPos := pos s, tokenFlags := TokenFlags_None\<rparr>"
  have s0: "pos s0 = pos s" "text s0 = text s" "end s0 = end s" by (simp_all add: s0_def)
  have nodigit: "\<not> isDigit (codePointAt (text s) (pos s))"
  proof
    assume "isDigit (codePointAt (text s) (pos s))"
    then obtain c where c: "codePointAt (text s) (pos s) = Some c" "48 \<le> c" "c \<le> 57"
      by (auto simp: isDigit_def split: option.splits)
    from digit_cases [OF c(2,3)] c(1) assms(2) show False
      by (auto simp: caseLabels_def)
  qed
  have "scanStep s0 =
          emit 1 Unknown (Scanner_error ''Invalid character'' (s0\<lparr>tokenPos := pos s0\<rparr>))"
    using assms nodigit
    by (simp add: scanStep_def Let_def s0 caseLabels_def split del: if_split)
  then have "scanLoop s0 =
      (Scanner_error ''Invalid character'' (s0\<lparr>tokenPos := pos s0\<rparr>))
        \<lparr>pos := pos s + 1, token := Unknown\<rparr>"
    by (subst scanLoop.simps) (simp add: emit_def s0)
  then show ?thesis
    by (simp add: scan_def s0_def)
qed

text \<open>
  Claim C9. \<open>scan\<close> terminates on every input: its loop \<open>scanLoop\<close> is a total function,
  accepted with the measure \<open>end - pos\<close>, which every \<open>continue\<close> of the loop decreases
  (\<open>scanStep_Continue\<close>). It never stalls: when the token returned is not
  \<open>EndOfFileToken\<close>, \<open>pos\<close> is strictly greater than at the start of the call (the token
  itself is not empty). A character inside the range that is none of the case labels of
  the switch and not an identifier start is reported as \<open>Invalid character\<close> (at its own
  position, when a callback is registered), yields \<open>Unknown\<close>, and moves \<open>pos\<close> by one.
\<close>

theorem scan_never_stalls:
  "(token (scan s) \<noteq> EndOfFileToken \<longrightarrow>
      pos s < pos (scan s) \<and> tokenPos (scan s) < pos (scan s))
   \<and> (pos s < end s \<and> codePointAt (text s) (pos s) \<notin> Some ` set caseLabels
        \<and> \<not> isIdentifierStart (codePointAt (text s) (pos s)) \<longrightarrow>
      token (scan s) = Unknown \<and> pos (scan s) = pos s + 1
        \<and> errors (scan s) =
            (if onError s then errors s @ [(''Invalid character'', pos s, 0)] else errors s))"
proof -
  have "pos s < pos (scan s) \<and> tokenPos (scan s) < pos (scan s)"
    if "token (scan s) \<noteq> EndOfFileToken"
    using that scan_frame [of s] by auto
  moreover have "token (scan s) = Unknown \<and> pos (scan s) = pos s + 1
        \<and> errors (scan s) =
            (if onError s then errors s @ [(''Invalid character'', pos s, 0)] else errors s)"
    if "pos s < end s \<and> codePointAt (text s) (pos s) \<notin> Some ` set caseLabels
        \<and> \<not> isIdentifierStart (codePointAt (text s) (pos s))"
    using that scan_invalid_character [of s] by (simp add: Scanner_error_def)
  ultimately show ?thesis by blast
qed

theorem scan_never_stalls_witness:
  "token (scan (setOnError True (resetText (utf16 ''#'') initialScanner))) = Unknown
   \<and> pos (scan (setOnError True (resetText (utf16 ''#'') initialScanner))) = 1
   \<and> errors (scan (setOnError True (resetText (utf16 ''#'') initialScanner)))
       = [(''Invalid character'', 0, 0)]"
  using scan_never_stalls [of "setOnError True (resetText (utf16 ''#'') initialScanner)"]
  by (simp add: setOnError_def resetText_def resetPos_def initialScanner_def utf16_def
        codePointAt_def caseLabels_def isIdentifierStart_def)

section \<open>The text of a token\<close>

text \<open>
  One call of \<open>scan\<close> on a range that ends where the text ends (\<open>end = text.length\<close>,
  the state \<open>resetText\<close> leaves) with \<open>pos\<close> inside it: the call leaves
  \<open>tokenPos \<le> pos \<le> end\<close>, with \<open>tokenPos\<close> not before the old \<open>pos\<close>, and the next call
  starts from a state of the same kind.
\<close>

lemma tokenText_is_slice:
  assumes "end s = length (text s)" and "pos s \<le> end s"
  shows "tokenText (scan s) = substring (text s) (tokenPos (scan s)) (pos (scan s))
       \<and> tokenText (scan s)
           = take (pos (scan s) - tokenPos (scan s)) (drop (tokenPos (scan s)) (text s))
       \<and> length (tokenText (scan s)) = pos (scan s) - tokenPos (scan s)
       \<and> pos s \<le> tokenPos (scan s) \<and> tokenPos (scan s) \<le> pos (scan s)
       \<and> pos (scan s) \<le> end (scan s)
       \<and> end (scan s) = length (text (scan s)) \<and> text (scan s) = text s"
  using assms scan_frame [of s]
  by (auto simp: tokenText_def substring_def min_def max_def)

lemma scan_funpow_range:
  "text ((scan ^^ n) (resetText t s)) = t \<and> end ((scan ^^ n) (resetText t s)) = length t
     \<and> pos ((scan ^^ n) (resetText t s)) \<le> length t"
proof (induction n)
  case 0
  show ?case by (simp add: resetText_def resetPos_def)
next
  case (Suc n)
  define u where "u = (scan ^^ n) (resetText t s)"
  from Suc have u: "text u = t" "end u = length (text u)" "pos u \<le> end u"
    by (simp_all add: u_def)
  from tokenText_is_slice [OF u(2,3)] u(1)
  have "text (scan u) = t \<and> end (scan u) = length t \<and> pos (scan u) \<le> length t"
    by metis
  then show ?case by (simp add: u_def)
qed

text \<open>
  Claim C8. For every text \<open>t\<close> loaded by \<open>resetText\<close> and every \<open>n\<close>, the token that
  the \<open>(n + 1)\<close>-th call of \<open>scan\<close> produces has as its \<open>tokenText\<close> the substring of the
  text from \<open>tokenPos\<close> to \<open>pos\<close>, and these positions lie in the range being scanned:
  \<open>tokenPos \<le> pos \<le> end = text.length\<close>, \<open>tokenPos\<close> not before the position where the call
  started. So the substring is the slice of \<open>pos - tokenPos\<close> characters at \<open>tokenPos\<close>;
  nothing is clamped or swapped.
\<close>

theorem tokenText_every_token:
  "tokenText ((scan ^^ Suc n) (resetText t s))
     = substring t (tokenPos ((scan ^^ Suc n) (resetText t s)))
         (pos ((scan ^^ Suc n) (resetText t s)))
   \<and> tokenText ((scan ^^ Suc n) (resetText t s))
       = take (pos ((scan ^^ Suc n) (resetText t s)) - tokenPos ((scan ^^ Suc n) (resetText t s)))
           (drop (tokenPos ((scan ^^ Suc n) (resetText t s))) t)
   \<and> length (tokenText ((scan ^^ Suc n) (resetText t s)))
       = pos ((scan ^^ Suc n) (resetText t s)) - tokenPos ((scan ^^ Suc n) (resetText t s))
   \<and> pos ((scan ^^ n) (resetText t s)) \<le> tokenPos ((scan ^^ Suc n) (resetText t s))
   \<and> tokenPos ((scan ^^ Suc n) (resetText t s)) \<le> pos ((scan ^^ Suc n) (resetText t s))
   \<and> pos ((scan ^^ Suc n) (resetText t s)) \<le> end ((scan ^^ Suc n) (resetText t s))
   \<and> end ((scan ^^ Suc n) (resetText t s)) = length t
   \<and> text ((scan ^^ Suc n) (resetText t s)) = t"
proof -
  define u where "u = (scan ^^ n) (resetText t s)"
  from scan_funpow_range [of n t s]
  have u: "text u = t" "end u = length (text u)" "pos u \<le> end u"
    by (simp_all add: u_def)
  have "tokenText (scan u) = substring t (tokenPos (scan u)) (pos (scan u))
       \<and> tokenText (scan u) = take (pos (scan u) - tokenPos (scan u)) (drop (tokenPos (scan u)) t)
       \<and> length (tokenText (scan u)) = pos (scan u) - tokenPos (scan u)
       \<and> pos u \<le> tokenPos (scan u) \<and> tokenPos (scan u) \<le> pos (scan u)
       \<and> pos (scan u) \<le> end (scan u)
       \<and> end (scan u) = length t \<and> text (scan u) = t"
    using tokenText_is_slice [OF u(2,3)] unfolding u(1) by metis
  moreover have "(scan ^^ Suc n) (resetText t s) = scan u" by (simp add: u_def)
  ultimately show ?thesis unfolding u_def [symmetric] by metis
qed

text \<open>
  The theorem is about the whole text as the range, which is what every caller scans
  (\<open>resetText\<close>, \<open>setTextRange(0)\<close>). A range narrowed by \<open>setTextRange(start, length)\<close>
  or \<open>scanRange\<close> is not respected by the look-ahead for the second character of an
  operator, which the source does not compare with \<open>end\<close>, although the identifier and
  string loops do: on \<open>==\<close> with the range \<open>[0, 1)\<close> the token ends at \<open>2\<close>.
\<close>

lemma token_beyond_narrowed_range:
  "end (scan (setTextRange 0 (Some 1) (resetText (utf16 ''=='') initialScanner))) = 1
   \<and> pos (scan (setTextRange 0 (Some 1) (resetText (utf16 ''=='') initialScanner))) = 2
   \<and> token (scan (setTextRange 0 (Some 1) (resetText (utf16 ''=='') initialScanner)))
       = EqualsEqualsToken"
  by (simp add: scan_eval cong: prod.case_cong_weak let_weak_cong)

section \<open>Unterminated strings\<close>







section \<open>Properties of the parser\<close>

subsection \<open>The parser's variables and \<open>nextToken\<close>\<close>

text \<open>The scanner does not touch the parser's variables.\<close>

lemma Parser_more:
  fixes s s' :: Parser
  assumes "Scanner.more s' = Scanner.more s"
  shows "ptoken s' = ptoken s" "sourceText s' = sourceText s" "fileName s' = fileName s"
    "nodeCount s' = nodeCount s" "contextFlags s' = contextFlags s"
    "parsingContext s' = parsingContext s" "parseErrors s' = parseErrors s"
  using assms by (simp_all add: Parser.select_defs Scanner.select_defs)

lemma scan_Parser:
  fixes s :: Parser
  shows "ptoken (scan s) = ptoken s" "sourceText (scan s) = sourceText s"
    "fileName (scan s) = fileName s" "nodeCount (scan s) = nodeCount s"
    "contextFlags (scan s) = contextFlags s" "parsingContext (scan s) = parsingContext s"
    "parseErrors (scan s) = parseErrors s"
proof -
  from scan_frame [of s] have "Scanner.more (scan s) = Scanner.more s" by simp
  from Parser_more [OF this]
  show "ptoken (scan s) = ptoken s" "sourceText (scan s) = sourceText s"
    "fileName (scan s) = fileName s" "nodeCount (scan s) = nodeCount s"
    "contextFlags (scan s) = contextFlags s" "parsingContext (scan s) = parsingContext s"
    "parseErrors (scan s) = parseErrors s"
    by blast+
qed

lemma nextToken_Returns:
  "nextToken s = Returns (token (scan s), (scan s)\<lparr>ptoken := token (scan s)\<rparr>)"
  by (simp add: nextToken_def Let_def)

subsection \<open>Checkpoints\<close>

lemma Scanner_lookAhead_Returns:
  assumes "callback s = Returns (v, s1)"
  shows "Scanner_lookAhead callback s =
           Returns (v, s1\<lparr>end := end s, pos := pos s, startPos := startPos s,
                        tokenPos := tokenPos s, token := token s, tokenValue := tokenValue s,
                        tokenFlags := tokenFlags s\<rparr>)"
  using assms by (simp add: Scanner_lookAhead_def Scanner_protectContextHelper_def)

lemma Scanner_lookAhead_ReturnsD:
  assumes "Scanner_lookAhead callback s = Returns (v, s')"
  shows "\<exists>s1. callback s = Returns (v, s1)
           \<and> s' = s1\<lparr>end := end s, pos := pos s, startPos := startPos s,
                      tokenPos := tokenPos s, token := token s, tokenValue := tokenValue s,
                      tokenFlags := tokenFlags s\<rparr>"
proof (cases "callback s")
  case (Returns r)
  with assms show ?thesis
    by (cases r) (auto simp: Scanner_lookAhead_def Scanner_protectContextHelper_def)
next
  case (Throws e)
  with assms show ?thesis
    by (simp add: Scanner_lookAhead_def Scanner_protectContextHelper_def)
next
  case OutOfFuel
  with assms show ?thesis
    by (simp add: Scanner_lookAhead_def Scanner_protectContextHelper_def)
qed

lemma lookAhead_Returns:
  assumes "callback s = Returns (v, s1)" and "contextFlags s1 = contextFlags s"
  shows "lookAhead isTruthy callback s =
           Returns (v, s1\<lparr>end := end s, pos := pos s, startPos := startPos s,
                        tokenPos := tokenPos s, token := token s, tokenValue := tokenValue s,
                        tokenFlags := tokenFlags s, ptoken := ptoken s\<rparr>)"
  using assms
  by (simp add: lookAhead_def protectContextHelper_def Scanner_lookAhead_Returns assert_def)

lemma lookAhead_ReturnsD:
  assumes "lookAhead isTruthy callback s = Returns (v, s')"
  shows "\<exists>s1. callback s = Returns (v, s1) \<and> contextFlags s1 = contextFlags s
           \<and> s' = s1\<lparr>end := end s, pos := pos s, startPos := startPos s,
                      tokenPos := tokenPos s, token := token s, tokenValue := tokenValue s,
                      tokenFlags := tokenFlags s, ptoken := ptoken s\<rparr>"
proof (cases "Scanner_lookAhead callback s")
  case (Returns r)
  obtain v' s2 where r: "r = (v', s2)" by (cases r)
  from Scanner_lookAhead_ReturnsD [OF Returns [unfolded r]]
  obtain s1 where s1: "callback s = Returns (v', s1)"
    "s2 = s1\<lparr>end := end s, pos := pos s, startPos := startPos s,
                      tokenPos := tokenPos s, token := token s, tokenValue := tokenValue s,
                      tokenFlags := tokenFlags s\<rparr>" by blast
  from assms Returns r have "contextFlags s = contextFlags s2 \<and> v = v' \<and> s' = s2\<lparr>ptoken := ptoken s\<rparr>"
    by (auto simp: lookAhead_def protectContextHelper_def assert_def split: if_splits)
  with s1 show ?thesis by auto
next
  case (Throws e)
  with assms show ?thesis by (simp add: lookAhead_def protectContextHelper_def)
next
  case OutOfFuel
  with assms show ?thesis by (simp add: lookAhead_def protectContextHelper_def)
qed

text \<open>
  Claim C4. Whatever the callback does and whatever it returns, when \<open>lookAhead(cb)\<close>
  returns, the scanner's \<open>end\<close>, \<open>pos\<close>, \<open>startPos\<close>, \<open>tokenPos\<close>, \<open>token\<close>, \<open>tokenValue\<close> and
  \<open>tokenFlags\<close> and the parser's own \<open>token\<close> have the values they had before the call,
  and the value returned is the callback's. The same holds for the scanner's
  \<open>lookAhead\<close> and its seven variables. \<open>lookAhead\<close> does return whenever the callback
  returns and leaves \<open>contextFlags\<close> as it was (the parser asserts that): the state is
  then the callback's final state with these variables put back. Nothing else is put
  back: what the callback appended to the error sink or added to \<open>nodeCount\<close> stays.
\<close>

theorem lookAhead_restores:
  fixes s s' s1 :: Parser and t t' :: "'a Scanner_scheme"
  shows
    "(lookAhead isTruthy callback s = Returns (v, s') \<longrightarrow>
        end s' = end s \<and> pos s' = pos s \<and> startPos s' = startPos s \<and> tokenPos s' = tokenPos s
          \<and> token s' = token s \<and> tokenValue s' = tokenValue s \<and> tokenFlags s' = tokenFlags s
          \<and> ptoken s' = ptoken s
          \<and> (\<exists>s1. callback s = Returns (v, s1)))
     \<and> (callback s = Returns (v, s1) \<and> contextFlags s1 = contextFlags s \<longrightarrow>
          lookAhead isTruthy callback s =
            Returns (v, s1\<lparr>end := end s, pos := pos s, startPos := startPos s,
                         tokenPos := tokenPos s, token := token s, tokenValue := tokenValue s,
                         tokenFlags := tokenFlags s, ptoken := ptoken s\<rparr>))
     \<and> (Scanner_lookAhead cb t = Returns (w, t') \<longrightarrow>
          end t' = end t \<and> pos t' = pos t \<and> startPos t' = startPos t \<and> tokenPos t' = tokenPos t
            \<and> token t' = token t \<and> tokenValue t' = tokenValue t \<and> tokenFlags t' = tokenFlags t
            \<and> (\<exists>t1. cb t = Returns (w, t1)))"
proof (intro conjI impI)
  assume "lookAhead isTruthy callback s = Returns (v, s')"
  from lookAhead_ReturnsD [OF this] obtain s1 where
    "callback s = Returns (v, s1)"
    "s' = s1\<lparr>end := end s, pos := pos s, startPos := startPos s,
                      tokenPos := tokenPos s, token := token s, tokenValue := tokenValue s,
                      tokenFlags := tokenFlags s, ptoken := ptoken s\<rparr>" by blast
  then show "end s' = end s" "pos s' = pos s" "startPos s' = startPos s"
    "tokenPos s' = tokenPos s" "token s' = token s" "tokenValue s' = tokenValue s"
    "tokenFlags s' = tokenFlags s" "ptoken s' = ptoken s" "\<exists>s1. callback s = Returns (v, s1)"
    by simp_all
next
  assume "callback s = Returns (v, s1) \<and> contextFlags s1 = contextFlags s"
  then show "lookAhead isTruthy callback s =
            Returns (v, s1\<lparr>end := end s, pos := pos s, startPos := startPos s,
                         tokenPos := tokenPos s, token := token s, tokenValue := tokenValue s,
                         tokenFlags := tokenFlags s, ptoken := ptoken s\<rparr>)"
    by (simp add: lookAhead_Returns)
next
  assume "Scanner_lookAhead cb t = Returns (w, t')"
  from Scanner_lookAhead_ReturnsD [OF this] obtain t1 where
    "cb t = Returns (w, t1)"
    "t' = t1\<lparr>end := end t, pos := pos t, startPos := startPos t,
                      tokenPos := tokenPos t, token := token t, tokenValue := tokenValue t,
                      tokenFlags := tokenFlags t\<rparr>" by blast
  then show "end t' = end t" "pos t' = pos t" "startPos t' = startPos t"
    "tokenPos t' = tokenPos t" "token t' = token t" "tokenValue t' = tokenValue t"
    "tokenFlags t' = tokenFlags t" "\<exists>t1. cb t = Returns (w, t1)"
    by simp_all
qed

text \<open>The rules that evaluate the parser on a given text.\<close>

lemmas parser_eval =
  assert_def Scanner_protectContextHelper_def tryScan_def Scanner_lookAhead_def
  scanRange_def setProp.simps lookupProp.simps assign_def field_def readProp_def
  elements_def truthy_def optStr_def ret_def Parser_error_def nextToken_def createNode_def
  finishNode_def parseExpected_def parseOptional_def parseTokenNode_def
  parseExpectedToken_def parseOptionalToken_def createNodeList_def isListTerminator_def
  parseIdentifier_def parseSemicolon_def isCurrentTokenVLC_def protectContextHelper_def
  lookAhead_def tryParse_def parseListLoop_def parseList_def parseDelimitedListLoop_def
  parseDelimitedList_def canBeType_def parseType_def parseTypeArgumentListLoop_def
  parseTypeArgumentList_def parseTypeParametersLoop_def parseTypeParameters_def
  parseTypeArgumentsInExpression_def parseParameter_def addCallSignature_def parseBlock_def
  parseVariableBinding_def parseVariableDeclarationWithoutModifiers_def
  tryParseWalrusDeclaration_def parseFunctionWithoutModifiers_def
  parseFunctionExpressionWithoutModifiers_def nodeParenLoop_def isStartOfNode_Worker_def
  isStartOfNode_def parseNodeStatement_def parseNode_WithoutModifiers_def
  parseNodeExpressionWithoutModifiers_def isLeftHandExp_def isAssignOp_def
  reScanGreaterToken_def getBinaryOperatorPrecedence_def makeAssignmentExpression_def
  makeAsExpression_def makeBinaryExpression_def parseClassExpression_def parseArgument_def
  parseArguments_def parseParenthesizedExpression_def parseArrayElement_def
  parseArrayLiteralExpression_def parseLiteralNode_def parseObjectDefinition_def
  parseObjectLiteralExpression_def parseNewExpression_def parseAsyncModifier_def
  parsePrimaryExp_def memberAccessKind_def parseMemberExpRest_def parseMemberExp_def
  parseCallExpRest_def parseLeftHandExp_def parseUpdateExp_def parseTypeAssertion_def
  parseUnaryExp_def parseBinaryExpRest_def parseBinaryExp_def parenLoop_def
  isStartOfParenthesizedArrowFunction_def angleBracketLoop_def
  isStartOfArrowFunctionWithCallSignature_def nextTokenIsOpenParenOrDot_def
  isStartOfLeftHandExp_def isStartOfExpression_def parseYieldExpression_def
  parseArrowFunction_def parseConditionalExpRest_def isStartOfArrowFunction_def
  parseAssignExp_def parseConnectExpRest_def parseConnectExp_def parseExpressionRest_def
  parseExpression_def parseEmptyStatement_def parseExpressionOrLabeledStatement_def
  parseBreakOrContinueStatement_def parseFallThroughStatement_def parseReturnStatement_def
  parseDebuggerStatement_def parseHeaderDeclaration_def elifLoop_def parseIfStatement_def
  parseForClauses_def parseForOrForInOrForOfStatement_def parseCaseClause_def
  parseDefaultClause_def parseCaseOrDefaultClause_def parseSwitchStatement_def
  parseCatchClause_def parseTryStatement_def usingLoop_def parseUsingStatement_def
  isDeclaration_def isStartOfDeclaration_def parseDecoratorsLoop_def parseDecorators_def
  isModifierKind_def nextTokenIsClassKeyword_def
  nextTokenIsFunctionOrNodeOrSubnetKeyword_def tokenCanFollowDefaultKeyword_def
  nextTokenIsIdentifier_def nextTokenIsIdentifierOrStringLiteral_def
  tokenCanFollowExportKeyword_def nextTokenCanFollowModifier_def
  parseAnyContextualModifier_def parseModifiersLoop_def parseModifiers_def
  parseDeclarationWorker_def parseDeclaration_def parseStatement_def initializeState_def
  clearState_def initializeSourceFile_def parseSourceFileWorker_def
  parseSourceFile_def knot_reScan knot_fields knot.simps(1) outOfFuel_def
  SyntaxKind_name_def SyntaxKind_names_def initialParser_def

lemma nextToken_x:
  "nextToken (initializeState (utf16 ''x'') initialParser) =
     Returns (Identifier,
       (initializeState (utf16 ''x'') initialParser)
         \<lparr>pos := 1, token := Identifier, tokenValue := Some (utf16 ''x''),
          ptoken := Identifier\<rparr>)"
  by (simp add: scan_eval parser_eval cong: prod.case_cong_weak let_weak_cong)

theorem lookAhead_restores_witness:
  "lookAhead (\<lambda>k. k \<noteq> Unknown) nextToken (initializeState (utf16 ''x'') initialParser)
     = Returns (Identifier, initializeState (utf16 ''x'') initialParser)"
  using lookAhead_restores
    [of "\<lambda>k. k \<noteq> Unknown" nextToken "initializeState (utf16 ''x'') initialParser" Identifier
        "initializeState (utf16 ''x'') initialParser"
        "(initializeState (utf16 ''x'') initialParser)
            \<lparr>pos := 1, token := Identifier, tokenValue := Some (utf16 ''x''),
             ptoken := Identifier\<rparr>"
        "\<lambda>t. OutOfFuel" initialScanner "()" initialScanner]
  by (simp add: nextToken_x)

section \<open>Identifiers and contextual keywords\<close>


lemma parseIdentifier_rejects:
  assumes "\<not> isIdentifier s"
  shows "parseIdentifier s =
           finishNode
             (assign ''text'' (Str [])
                (Object [(''pos'', Num (startPos s)), (''end'', Num (startPos s)),
                         (''kind'', Num Identifier), (''flags'', Num 0),
                         (''parent'', Undefined)]))
             (s\<lparr>parseErrors := parseErrors s
                      @ [(''Identifier expected, but got '' @ SyntaxKind_name (ptoken s),
                          tokenPos s)],
                nodeCount := nodeCount s + 1\<rparr>)"
  using assms
  by (simp add: parseIdentifier_def createNode_def Parser_error_def Let_def)

lemma lookupProp_setProp_other:
  "m \<noteq> n \<Longrightarrow> lookupProp m (setProp n v qs) = lookupProp m qs"
  by (induction qs) auto

lemma lookupProp_setProp_same: "lookupProp n (setProp n v qs) = v"
  by (induction qs) auto



lemma finishNode_Returns: "\<exists>node. finishNode n s = Returns (node, s)"
  by (simp add: finishNode_def Let_def)


section \<open>The walrus token\<close>

lemma tryParseWalrusDeclaration_false:
  "\<exists>s'. tryParseWalrusDeclaration r notParseSemicolon s = Returns (Bool False, s')"
proof (cases "isIdentifier s")
  case False
  then show ?thesis by (simp add: tryParseWalrusDeclaration_def)
next
  case True
  define s1 where "s1 = (scan s)\<lparr>ptoken := token (scan s)\<rparr>"
  have cb: "(\<lambda>s. bind (nextToken s) (\<lambda>_ s. Returns (ptoken s \<noteq> ColonEqualsToken, s))) s
              = Returns (True, s1)"
    using scan_frame [of s] by (simp add: nextToken_Returns s1_def)
  have "contextFlags s1 = contextFlags s"
    by (simp add: s1_def scan_Parser)
  with cb have "lookAhead id (\<lambda>s. bind (nextToken s)
                    (\<lambda>_ s. Returns (ptoken s \<noteq> ColonEqualsToken, s))) s =
           Returns (True, s1\<lparr>end := end s, pos := pos s, startPos := startPos s,
                        tokenPos := tokenPos s, token := token s, tokenValue := tokenValue s,
                        tokenFlags := tokenFlags s, ptoken := ptoken s\<rparr>)"
    by (intro lookAhead_Returns [where ?s1.0 = s1]) simp_all
  with True show ?thesis
    by (simp add: tryParseWalrusDeclaration_def)
qed

text \<open>
  Claim C2, as the code has it. The scanner's branch for a colon followed by \<open>=\<close>
  advances by two characters and returns \<open>ColonToken\<close>, the kind of an ordinary colon:
  no call of \<open>scan\<close>, from any state, returns \<open>ColonEqualsToken\<close>. So the look-ahead of
  \<open>tryParseWalrusDeclaration\<close>, which tests the next token for \<open>ColonEqualsToken\<close>, never
  succeeds, and the function returns \<open>false\<close> on every state, whatever the productions
  \<open>r\<close> it may call.
\<close>

theorem walrus_token_never_scanned:
  fixes s :: Parser and t :: "'a Scanner_scheme"
  shows "token (scan t) \<noteq> ColonEqualsToken
     \<and> token (scan (resetText (utf16 '':='') t)) = ColonToken
     \<and> pos (scan (resetText (utf16 '':='') t)) = 2
     \<and> (\<exists>s'. tryParseWalrusDeclaration r notParseSemicolon s = Returns (Bool False, s'))"
proof -
  have "token (scan t) \<noteq> ColonEqualsToken" using scan_frame [of t] by simp
  moreover have "token (scan (resetText (utf16 '':='') t)) = ColonToken
     \<and> pos (scan (resetText (utf16 '':='') t)) = 2"
    by (simp add: scan_eval cong: prod.case_cong_weak let_weak_cong)
  ultimately show ?thesis
    using tryParseWalrusDeclaration_false [of r notParseSemicolon s] by blast
qed


lemma nextToken_break:
  "nextToken (initializeState (utf16 ''break'') initialParser) =
     Returns (BreakKeyword,
       (initializeState (utf16 ''break'') initialParser)
         \<lparr>pos := 5, token := BreakKeyword, tokenValue := Some (utf16 ''break''),
          ptoken := BreakKeyword\<rparr>)"
  by (simp add: scan_eval parser_eval cong: prod.case_cong_weak let_weak_cong)


section \<open>Precedence and associativity\<close>






section \<open>Exceptions\<close>

text \<open>
  Claim C1, as the code has it. \<open>parseClassExpression\<close> returns \<open>undefined\<close>. On the
  input \<open>(class)\<close> the parser reaches it through \<open>parsePrimaryExp\<close>, and
  \<open>parseUpdateExp\<close> then evaluates \<open>assert(isLeftHandExp(expr))\<close>, whose argument reads
  \<open>expr.kind\<close> of \<open>undefined\<close>: \<open>parseSourceFile\<close> throws a \<open>TypeError\<close>, which is not the
  error of a failed assertion, on a user's syntax. This is so with fuel \<open>11\<close> or more
  and for every \<open>rescan\<close>: the exception comes before the parser's first call of
  \<open>reScanGreaterToken\<close>.
\<close>

theorem parseSourceFile_throws_TypeError:
  "parseSourceFile rescan (11 + n) ''f'' (utf16 ''(class)'') initialParser = Throws TypeError"
  by (simp add: scan_eval parser_eval cong: bind_weak_cong prod.case_cong_weak let_weak_cong)

section \<open>The \<open>for\<close> statement\<close>

lemma bind_eq_Returns:
  "bind m f = Returns x \<longleftrightarrow> (\<exists>a s. m = Returns (a, s) \<and> f a s = Returns x)"
  by (cases m) auto

lemma field_kind_assign:
  "name \<noteq> ''kind'' \<Longrightarrow> field ''kind'' (assign name v node) = field ''kind'' node"
  by (cases node) (simp_all add: assign_def field_def lookupProp_setProp_other)

lemma finishNode_kind:
  assumes "finishNode node s = Returns (v, s')"
  shows "field ''kind'' v = field ''kind'' node"
  using assms by (auto simp: finishNode_def Let_def field_kind_assign split: if_splits)

lemma createNode_kind:
  assumes "createNode k p s = Returns (node, s')"
  shows "field ''kind'' node = Num k"
  using assms by (auto simp: createNode_def Let_def field_def)

lemma parseForClauses_kind:
  assumes "parseForClauses r node s = Returns (node', s')"
  shows "field ''kind'' node' = field ''kind'' node"
  using assms
  by (auto simp: parseForClauses_def bind_eq_Returns field_kind_assign split: if_splits)

lemma for_block_kind:
  assumes "bind (parseBlock r s) (\<lambda>block s. finishNode (assign ''block'' block node) s)
             = Returns (v, s')"
  shows "field ''kind'' v = field ''kind'' node"
  using assms by (auto simp: bind_eq_Returns field_kind_assign dest!: finishNode_kind)

lemma for_in_of_kind:
  assumes run: "bind (createNode Unknown p s) (\<lambda>node s.
         bind (parseIdentifier s) (\<lambda>identifier s'.
         bind (if ptoken s' = InKeyword then
                 bind (nextToken s') (\<lambda>_ s'.
                 bind (r_parseExpression r s') (\<lambda>expression s'.
                 Returns (assign ''expression'' expression
                            (assign ''kind'' (Num ForInStatement)
                               (assign ''identifier'' identifier
                                  (assign ''vlc'' (Num (ptoken s)) node))), s')))
               else
                 bind (nextToken s') (\<lambda>_ s'.
                 bind (r_parseConnectExp r s') (\<lambda>expression s'.
                 Returns (assign ''expression'' expression
                            (assign ''kind'' (Num ForOfStatement)
                               (assign ''identifier'' identifier
                                  (assign ''vlc'' (Num (ptoken s)) node))), s'))))
           (\<lambda>node s.
         bind (parseBlock r s) (\<lambda>block s.
         finishNode (assign ''block'' block node) s)))) = Returns (v, s')"
    and vlc: "isCurrentTokenVLC s" and mirror: "token s = ptoken s"
  shows "field ''kind'' v = Num ForOfStatement"
proof -
  define s1 where "s1 = s\<lparr>nodeCount := nodeCount s + 1\<rparr>"
  define node where "node = Object [(''pos'', Num (case p of Num n \<Rightarrow> n | _ \<Rightarrow> startPos s)),
       (''end'', Num (case p of Num n \<Rightarrow> n | _ \<Rightarrow> startPos s)),
       (''kind'', Num Unknown), (''flags'', Num 0), (''parent'', Undefined)]"
  have cn: "createNode Unknown p s = Returns (node, s1)"
    by (simp add: createNode_def Let_def node_def s1_def)
  from vlc mirror have no: "\<not> isIdentifier s1"
    by (auto simp: isIdentifier_def isCurrentTokenVLC_def s1_def)
  from finishNode_Returns obtain idn s2 where
    ident: "parseIdentifier s1 = Returns (idn, s2)"
    and s2: "s2 = s1\<lparr>parseErrors := parseErrors s1
                      @ [(''Identifier expected, but got '' @ SyntaxKind_name (ptoken s1),
                          tokenPos s1)],
                nodeCount := nodeCount s1 + 1\<rparr>"
    unfolding parseIdentifier_rejects [OF no] by blast
  from vlc have notIn: "ptoken s2 \<noteq> InKeyword"
    by (auto simp: s2 s1_def isCurrentTokenVLC_def)
  from run show ?thesis
    unfolding cn bind_Returns ident
    using notIn
    by (auto simp: bind_eq_Returns nextToken_Returns field_kind_assign field_def assign_def
          lookupProp_setProp_same lookupProp_setProp_other node_def
          dest!: finishNode_kind)
qed

lemma for_statement_kind:
  assumes run: "parseForOrForInOrForOfStatement r s0 = Returns (v, s')"
    and kw: "ptoken s0 = ForKeyword"
  shows "field ''kind'' v = Num ForStatement \<or> field ''kind'' v = Num ForOfStatement"
proof -
  define s where "s = (scan s0)\<lparr>ptoken := token (scan s0)\<rparr>"
  have mirror: "token s = ptoken s" by (simp add: s_def)
  from kw have pe: "parseExpected ForKeyword s0 = Returns (True, s)"
    by (simp add: parseExpected_def nextToken_Returns s_def)
  show ?thesis
  proof (cases "ptoken s = OpenBraceToken")
    case True
    with run have "field ''kind'' v = Num ForStatement"
      unfolding parseForOrForInOrForOfStatement_def pe bind_Returns
      by (auto simp: bind_eq_Returns field_kind_assign dest!: finishNode_kind createNode_kind)
    then show ?thesis ..
  next
    case False
    with run obtain inOrOf s1 where
      la: "(if isCurrentTokenVLC s then
               lookAhead id
                 (\<lambda>s. bind (nextToken s) (\<lambda>_ s.
                       if \<not> isIdentifier s then Returns (False, s)
                       else bind (nextToken s) (\<lambda>_ s.
                            Returns (ptoken s = InKeyword \<or> ptoken s = OfKeyword, s)))) s
             else Returns (False, s)) = Returns (inOrOf, s1)"
      and rest: "(if inOrOf then
         bind (createNode Unknown (Num (startPos s0)) s1) (\<lambda>node s.
         bind (parseIdentifier s) (\<lambda>identifier s'.
         bind (if ptoken s' = InKeyword then
                 bind (nextToken s') (\<lambda>_ s'.
                 bind (r_parseExpression r s') (\<lambda>expression s'.
                 Returns (assign ''expression'' expression
                            (assign ''kind'' (Num ForInStatement)
                               (assign ''identifier'' identifier
                                  (assign ''vlc'' (Num (ptoken s)) node))), s')))
               else
                 bind (nextToken s') (\<lambda>_ s'.
                 bind (r_parseConnectExp r s') (\<lambda>expression s'.
                 Returns (assign ''expression'' expression
                            (assign ''kind'' (Num ForOfStatement)
                               (assign ''identifier'' identifier
                                  (assign ''vlc'' (Num (ptoken s)) node))), s'))))
           (\<lambda>node s.
         bind (parseBlock r s) (\<lambda>block s.
         finishNode (assign ''block'' block node) s))))
       else
         bind (createNode ForStatement (Num (startPos s0)) s1) (\<lambda>node s.
         bind (parseHeaderDeclaration r s) (\<lambda>variableDeclaration s.
         bind (if ptoken s \<noteq> SemicolonToken then
                 (if truthy variableDeclaration then
                    Returns (assign ''initializer'' variableDeclaration node, s)
                  else bind (r_parseExpression r s) (\<lambda>expression s.
                       Returns (assign ''initializer'' expression node, s)))
               else Returns (node, s)) (\<lambda>node s.
         bind (if truthy variableDeclaration then parseForClauses r node s
               else
                 bind (parseOptional SemicolonToken s) (\<lambda>semicolon s.
                 if semicolon then parseForClauses r node s
                 else Returns (assign ''initializer'' Undefined
                                 (assign ''condition'' (field ''initializer'' node) node), s)))
           (\<lambda>node s.
         bind (parseBlock r s) (\<lambda>block s.
         finishNode (assign ''block'' block node) s)))))) = Returns (v, s')"
      unfolding parseForOrForInOrForOfStatement_def pe bind_Returns
      by (simp add: bind_eq_Returns) blast
    show ?thesis
    proof (cases inOrOf)
      case True
      with la have vlc: "isCurrentTokenVLC s" by (auto split: if_splits)
      with la have "lookAhead id
                 (\<lambda>s. bind (nextToken s) (\<lambda>_ s.
                       if \<not> isIdentifier s then Returns (False, s)
                       else bind (nextToken s) (\<lambda>_ s.
                            Returns (ptoken s = InKeyword \<or> ptoken s = OfKeyword, s)))) s
                = Returns (inOrOf, s1)" by simp
      from lookAhead_ReturnsD [OF this] have "token s1 = token s" "ptoken s1 = ptoken s"
        by auto
      with vlc mirror have vlc1: "isCurrentTokenVLC s1" "token s1 = ptoken s1"
        by (simp_all add: isCurrentTokenVLC_def)
      from rest True have
        "bind (createNode Unknown (Num (startPos s0)) s1) (\<lambda>node s.
         bind (parseIdentifier s) (\<lambda>identifier s'.
         bind (if ptoken s' = InKeyword then
                 bind (nextToken s') (\<lambda>_ s'.
                 bind (r_parseExpression r s') (\<lambda>expression s'.
                 Returns (assign ''expression'' expression
                            (assign ''kind'' (Num ForInStatement)
                               (assign ''identifier'' identifier
                                  (assign ''vlc'' (Num (ptoken s)) node))), s')))
               else
                 bind (nextToken s') (\<lambda>_ s'.
                 bind (r_parseConnectExp r s') (\<lambda>expression s'.
                 Returns (assign ''expression'' expression
                            (assign ''kind'' (Num ForOfStatement)
                               (assign ''identifier'' identifier
                                  (assign ''vlc'' (Num (ptoken s)) node))), s'))))
           (\<lambda>node s.
         bind (parseBlock r s) (\<lambda>block s.
         finishNode (assign ''block'' block node) s)))) = Returns (v, s')"
        by simp
      from for_in_of_kind [OF this vlc1] show ?thesis ..
    next
      case False
      with rest have "field ''kind'' v = Num ForStatement"
        by (auto simp: bind_eq_Returns field_kind_assign
              dest!: finishNode_kind createNode_kind parseForClauses_kind split: if_splits)
      then show ?thesis ..
    qed
  qed
qed

lemma parse_for_let_in:
  assumes "\<And>s. token s \<noteq> GreaterThanToken \<Longrightarrow> rescan s = (token s, s)"
  shows "\<exists>v s'. parseSourceFile rescan (6 + n) ''f'' (utf16 ''for let x in obj {}'') initialParser
                 = Returns (v, s')
           \<and> length (elements (field ''statements'' v)) = 1
           \<and> (let st = hd (elements (field ''statements'' v))
              in field ''kind'' st = Num ForOfStatement
                 \<and> field ''vlc'' st = Num LetKeyword
                 \<and> field ''kind'' (field ''identifier'' st) = Num Identifier
                 \<and> field ''text'' (field ''identifier'' st) = Str []
                 \<and> field ''kind'' (field ''expression'' st) = Num BinaryExpression
                 \<and> field ''kind'' (field ''operatorToken'' (field ''expression'' st))
                     = Num InKeyword
                 \<and> field ''text'' (field ''left'' (field ''expression'' st)) = Str (utf16 ''x'')
                 \<and> field ''text'' (field ''right'' (field ''expression'' st))
                     = Str (utf16 ''obj''))
           \<and> parseErrors s' = [(''Identifier expected, but got LetKeyword'', 4)]"
  using assms
  by (simp add: scan_eval parser_eval cong: bind_weak_cong prod.case_cong_weak let_weak_cong)

lemma parse_for_block:
  "\<exists>v s'. parseSourceFile rescan (1 + n) ''f'' (utf16 ''for {}'') initialParser = Returns (v, s')
           \<and> length (elements (field ''statements'' v)) = 1
           \<and> (let st = hd (elements (field ''statements'' v))
              in field ''kind'' st = Num ForStatement
                 \<and> field ''initializer'' st = Undefined
                 \<and> field ''condition'' st = Undefined
                 \<and> field ''incrementor'' st = Undefined
                 \<and> field ''kind'' (field ''block'' st) = Num Block)
           \<and> parseErrors s' = []"
  by (simp add: scan_eval parser_eval cong: bind_weak_cong prod.case_cong_weak let_weak_cong)

text \<open>
  Claim C3, as the code has it. The header of a \<open>for\<close> statement has no parentheses:
  \<open>for {}\<close> is the statement without clauses, a \<open>ForStatement\<close> whose \<open>initializer\<close>,
  \<open>condition\<close> and \<open>incrementor\<close> are absent. The branch for \<open>for\<close>-\<open>in\<close> and
  \<open>for\<close>-\<open>of\<close> is entered on \<open>var\<close>, \<open>let\<close> or \<open>const\<close> after a look-ahead that restores
  the token; it calls \<open>parseIdentifier\<close> while the token is still that keyword, and then
  tests the token for \<open>in\<close>. So whenever \<open>parseForOrForInOrForOfStatement\<close>, called on
  the token \<open>for\<close> as \<open>parseStatement\<close> calls it, returns a node, its kind is
  \<open>ForStatement\<close> or \<open>ForOfStatement\<close>: for no input and no productions \<open>r\<close> is it
  \<open>ForInStatement\<close>. On \<open>for let x in obj {}\<close> the parser reports
  \<open>Identifier expected, but got LetKeyword\<close> and returns a \<open>ForOfStatement\<close> whose
  identifier is empty and whose expression is the \<open>BinaryExpression\<close> \<open>x in obj\<close>.
\<close>

theorem for_in_never_produced:
  "(ptoken s0 = ForKeyword \<and> parseForOrForInOrForOfStatement r s0 = Returns (v, s') \<longrightarrow>
      field ''kind'' v \<noteq> Num ForInStatement
      \<and> (field ''kind'' v = Num ForStatement \<or> field ''kind'' v = Num ForOfStatement))
   \<and> ((\<forall>s. token s \<noteq> GreaterThanToken \<longrightarrow> rescan s = (token s, s)) \<longrightarrow>
        (\<exists>v s'. parseSourceFile rescan (6 + n) ''f'' (utf16 ''for let x in obj {}'') initialParser
                 = Returns (v, s')
           \<and> length (elements (field ''statements'' v)) = 1
           \<and> (let st = hd (elements (field ''statements'' v))
              in field ''kind'' st = Num ForOfStatement
                 \<and> field ''vlc'' st = Num LetKeyword
                 \<and> field ''kind'' (field ''identifier'' st) = Num Identifier
                 \<and> field ''text'' (field ''identifier'' st) = Str []
                 \<and> field ''kind'' (field ''expression'' st) = Num BinaryExpression
                 \<and> field ''kind'' (field ''operatorToken'' (field ''expression'' st))
                     = Num InKeyword
                 \<and> field ''text'' (field ''left'' (field ''expression'' st)) = Str (utf16 ''x'')
                 \<and> field ''text'' (field ''right'' (field ''expression'' st))
                     = Str (utf16 ''obj''))
           \<and> parseErrors s' = [(''Identifier expected, but got LetKeyword'', 4)]))
   \<and> (\<exists>v s'. parseSourceFile rescan (1 + n) ''f'' (utf16 ''for {}'') initialParser = Returns (v, s')
           \<and> length (elements (field ''statements'' v)) = 1
           \<and> (let st = hd (elements (field ''statements'' v))
              in field ''kind'' st = Num ForStatement
                 \<and> field ''initializer'' st = Undefined
                 \<and> field ''condition'' st = Undefined
                 \<and> field ''incrementor'' st = Undefined
                 \<and> field ''kind'' (field ''block'' st) = Num Block)
           \<and> parseErrors s' = [])"
proof -
  have "field ''kind'' v \<noteq> Num ForInStatement
      \<and> (field ''kind'' v = Num ForStatement \<or> field ''kind'' v = Num ForOfStatement)"
    if "ptoken s0 = ForKeyword \<and> parseForOrForInOrForOfStatement r s0 = Returns (v, s')"
    using that for_statement_kind [of r s0 v s'] by auto
  then show ?thesis
    using parse_for_let_in [of rescan n] parse_for_block [of rescan n] by blast
qed

theorem for_in_never_produced_witness:
  "(\<exists>v s'. parseSourceFile (\<lambda>s. (token s, s)) 6 ''f'' (utf16 ''for let x in obj {}'') initialParser
                 = Returns (v, s')
           \<and> length (elements (field ''statements'' v)) = 1
           \<and> (let st = hd (elements (field ''statements'' v))
              in field ''kind'' st = Num ForOfStatement
                 \<and> field ''vlc'' st = Num LetKeyword
                 \<and> field ''kind'' (field ''identifier'' st) = Num Identifier
                 \<and> field ''text'' (field ''identifier'' st) = Str []
                 \<and> field ''kind'' (field ''expression'' st) = Num BinaryExpression
                 \<and> field ''kind'' (field ''operatorToken'' (field ''expression'' st))
                     = Num InKeyword
                 \<and> field ''text'' (field ''left'' (field ''expression'' st)) = Str (utf16 ''x'')
                 \<and> field ''text'' (field ''right'' (field ''expression'' st))
                     = Str (utf16 ''obj''))
           \<and> parseErrors s' = [(''Identifier expected, but got LetKeyword'', 4)])"
  using for_in_never_produced [of _ _ _ _ "\<lambda>s. (token s, s)" 0]
  by simp

end
